(* ===== verification/Prelude.thy ===== *)
theory Prelude
  imports Complex_Main "HOL-Library.Multiset" "HOL-Library.Stream"
begin

text \<open>
  Shared vocabulary of the FlashLearn development: the names of the model's basic
  types, the collections of rewrite rules that the component theories fill, and
  generic facts on lists and streams that several components use (the in-place
  swap of the shuffle, prefix/suffix reasoning, filtering).
\<close>

section \<open>Types of the model\<close>

text \<open>
  A JavaScript timestamp (\<open>Date\<close> value, \<open>new Date()\<close>) is an integer number of
  milliseconds since the epoch. Strings are byte strings; every character the code
  inspects (whitespace, HTML metacharacters) is ASCII.
\<close>

type_synonym timestamp = int

text \<open>
  \<open>Math.random()\<close> is modelled as the stream of values its successive calls return.
\<close>

type_synonym random_source = "real stream"

section \<open>Rule collections\<close>

text \<open>
  \<open>handler_defs\<close> collects the definitions of the event handlers (unfolded when a
  handler is run on a concrete state); \<open>view_simps\<close> the equations that compute
  what the page shows.
\<close>

named_theorems handler_defs "definitions of the event handlers"
named_theorems view_simps "equations of the rendering functions"

section \<open>Lists\<close>

text \<open>
  The destructuring swap \<open>[a[i], a[j]] = [a[j], a[i]]\<close> of JavaScript evaluates the
  right side first and then assigns \<open>a[i]\<close> and \<open>a[j]\<close> in this order; in HOL it is
  \<open>xs[i := xs ! j, j := xs ! i]\<close>. The facts below are those the shuffle proofs need.
\<close>

lemma mset_swap_in_range [simp]:
  "i < length xs \<Longrightarrow> j < length xs \<Longrightarrow> mset (xs[i := xs ! j, j := xs ! i]) = mset xs"
  using mset_swap [of j xs i] by (cases "i = j") simp_all

lemma take_swap:
  "i < n \<Longrightarrow> j < n \<Longrightarrow> take n (xs[i := a, j := b]) = (take n xs)[i := a, j := b]"
  by (simp add: take_update_swap)

lemma drop_swap:
  "i < n \<Longrightarrow> j < n \<Longrightarrow> drop n (xs[i := a, j := b]) = drop n xs"
  by (simp add: drop_update_cancel)

lemma take_Suc_last:
  "i < length xs \<Longrightarrow> take (Suc i) xs = take i xs @ [xs ! i]"
  by (simp add: take_Suc_conv_app_nth)

lemma mset_take_Suc_cancel:
  assumes "i < length xs" "i < length ys"
    and "mset (take (Suc i) xs) = mset (take (Suc i) ys)" and "xs ! i = ys ! i"
  shows "mset (take i xs) = mset (take i ys)"
  using assms by (simp add: take_Suc_last)

lemma drop_eq_Suc:
  assumes "i < length xs" "i < length ys" "drop (Suc i) xs = drop (Suc i) ys" "xs ! i = ys ! i"
  shows "drop i xs = drop i ys"
  using assms by (simp add: Cons_nth_drop_Suc [symmetric])

end
