(* ===== verification/Js_Data.thy ===== *)
theory Js_Data
  imports Prelude
begin

text \<open>
  The JavaScript values the client handles (\<^verbatim>\<open>src/web/js/script.js\<close>): entity
  identifiers as the server sends them and as the page's inline \<open>onclick\<close> handlers
  pass them back, the string operations the handlers apply to form input
  (\<open>String.prototype.trim\<close>, template interpolation of numbers), JavaScript
  truthiness, and the \<open>Deck\<close> and \<open>Card\<close> objects of the REST API as records.
\<close>

section \<open>Identifiers\<close>

text \<open>
  Deck and card ids are server-assigned JSON values: a number or a string. The client
  compares them with \<open>===\<close> (equality of the datatype: a number never equals a
  string) and embeds them in markup with \<open>'${deck.id}'\<close>, so that a click hands the
  handler the id's \<^emph>\<open>string\<close> form.
\<close>

datatype jid = JNum int | JStr string

definition digit_char :: "nat \<Rightarrow> char" where
  "digit_char d = char_of (48 + d)"

fun nat_digits :: "nat \<Rightarrow> string" where
  "nat_digits n = (if n < 10 then [digit_char n] else nat_digits (n div 10) @ [digit_char (n mod 10)])"

declare nat_digits.simps [simp del]

text \<open>
  \<open>String(n)\<close> for an integral JavaScript number. JavaScript prints an integral number
  in plain decimal digits when its magnitude is below \<open>10^21\<close> and in exponent form
  (\<open>1e+21\<close>) from there on; the definition is the plain form, and the theorems about
  printed ids assume the magnitude bound. (Ids above \<open>2^53\<close> reach the page already
  rounded by \<open>response.json()\<close>; the integer here is the number the page holds.)
\<close>

definition int_to_js_string :: "int \<Rightarrow> string" where
  "int_to_js_string i =
     (if i < 0 then CHR ''-'' # nat_digits (nat (- i)) else nat_digits (nat i))"

text \<open>Template interpolation \<open>`${id}`\<close> of an identifier.\<close>

fun jid_to_string :: "jid \<Rightarrow> string" where
  "jid_to_string (JNum i) = int_to_js_string i"
| "jid_to_string (JStr s) = s"

text \<open>The id a handler receives from \<open>onclick="f('${x.id}')"\<close>.\<close>

definition onclick_arg :: "jid \<Rightarrow> jid" where
  "onclick_arg i = JStr (jid_to_string i)"

text \<open>
  JavaScript truthiness of the nullable \<open>currentDeckId\<close> (\<open>if (!currentDeckId)\<close>):
  \<open>null\<close>, the empty string and \<open>0\<close> are falsy.
\<close>

fun jid_truthy :: "jid option \<Rightarrow> bool" where
  "jid_truthy None = False"
| "jid_truthy (Some (JStr s)) = (s \<noteq> [])"
| "jid_truthy (Some (JNum i)) = (i \<noteq> 0)"

section \<open>Strings\<close>

text \<open>
  \<open>String.prototype.trim\<close> removes leading and trailing white space and line
  terminators. A character of the model is a code point below 256 (the Latin-1 range of
  JavaScript's UTF-16 strings); in that range the white space and line terminators are
  tab, line feed, vertical tab, form feed, carriage return, space and no-break space
  (U+00A0). The other Unicode spaces (U+1680, U+2000--U+200A, U+2028, U+2029, U+202F,
  U+205F, U+3000, U+FEFF) lie outside the model's alphabet.
\<close>

definition js_whitespace :: "char \<Rightarrow> bool" where
  "js_whitespace c \<longleftrightarrow> c \<in> set [CHR 0x09, CHR 0x0A, CHR 0x0B, CHR 0x0C, CHR 0x0D, CHR 0x20, CHR 0xA0]"

definition js_trim :: "string \<Rightarrow> string" where
  "js_trim s = rev (dropWhile js_whitespace (rev (dropWhile js_whitespace s)))"

section \<open>Decks and cards\<close>

text \<open>
  A deck as \<open>GET /decks\<close> returns it. \<open>description\<close> is \<open>None\<close> when the JSON
  field is \<open>null\<close> or absent. \<open>createdAt\<close> is kept as the server's string: the page
  only formats it with the host's locale.
\<close>

record deck =
  deck_id :: jid
  deck_name :: string
  deck_description :: "string option"
  deck_created_at :: string

text \<open>
  The scheduling field \<open>nextReviewDate\<close> of a card, as \<open>new Date(..)\<close> reads it:
  absent, \<open>null\<close> or empty (falsy), a date string denoting a timestamp, or a
  non-empty string that \<open>Date\<close> cannot parse (an invalid date, \<open>NaN\<close>).
\<close>

datatype review_date = No_date | At_time timestamp | Invalid_date

text \<open>
  A card. \<open>repetitionCount\<close> and \<open>interval\<close> are \<open>None\<close> when \<open>null\<close> or absent.
\<close>

record card =
  card_id :: jid
  card_deck_id :: jid
  card_question :: string
  card_answer :: string
  card_repetition_count :: "int option"
  card_interval :: "int option"
  card_next_review_date :: review_date

section \<open>Number parsing\<close>

text \<open>A decimal reader, the inverse of \<open>nat_digits\<close> on the digits it writes.\<close>

definition digits_value :: "string \<Rightarrow> nat" where
  "digits_value s = foldl (\<lambda>acc c. 10 * acc + (of_char c - 48)) 0 s"

text \<open>Reading a printed integer back (an optional minus sign, then digits).\<close>

definition parse_js_int :: "string \<Rightarrow> int" where
  "parse_js_int s =
     (if s \<noteq> [] \<and> hd s = CHR ''-'' then - int (digits_value (tl s)) else int (digits_value s))"

section \<open>Errors\<close>

text \<open>
  What a \<open>catch (error)\<close> of the client can receive: an \<open>Error\<close> carrying a
  message (the server's text, the message of a rejected \<open>fetch\<close>), the three
  \<open>Error\<close>s the code creates with a fixed (Russian) text: "server error", "error
  loading decks", "error loading cards"; and the
  \<open>TypeError\<close> of reading a property of \<open>null\<close> or \<open>undefined\<close>.
\<close>

datatype js_error = Error_msg string | Server_error | Load_decks_error | Load_cards_error | Type_error

section \<open>Properties of the data layer\<close>

subsection \<open>Number printing\<close>

lemma of_char_digit_char [simp]: "d < 10 \<Longrightarrow> of_char (digit_char d) = 48 + d"
  by (simp add: digit_char_def)

lemma nat_digits_nonempty [simp]: "nat_digits n \<noteq> []"
  by (subst nat_digits.simps) simp

lemma digits_value_snoc:
  "digits_value (s @ [c]) = 10 * digits_value s + (of_char c - 48)"
  by (simp add: digits_value_def)

lemma digits_value_nat_digits [simp]: "digits_value (nat_digits n) = n"
proof (induction n rule: nat_digits.induct)
  case (1 n)
  show ?case
  proof (cases "n < 10")
    case True
    then show ?thesis by (simp add: nat_digits.simps [of n] digits_value_def)
  next
    case False
    then have "digits_value (nat_digits (n div 10)) = n div 10" using "1.IH" by simp
    with False show ?thesis
      by (simp add: nat_digits.simps [of n] digits_value_snoc)
  qed
qed

lemma nat_digits_inj: "nat_digits m = nat_digits n \<Longrightarrow> m = n"
  by (metis digits_value_nat_digits)

lemma digit_char_not_minus: "d < 10 \<Longrightarrow> digit_char d \<noteq> CHR ''-''"
proof
  assume "d < 10" and "digit_char d = CHR ''-''"
  then have "of_char (digit_char d) = (45::nat)" by simp
  with \<open>d < 10\<close> show False by simp
qed

lemma hd_nat_digits_not_minus: "hd (nat_digits n) \<noteq> CHR ''-''"
proof (induction n rule: nat_digits.induct)
  case (1 n)
  then show ?case
    by (cases "n < 10") (simp_all add: nat_digits.simps [of n] digit_char_not_minus)
qed

lemma int_to_js_string_roundtrip: "parse_js_int (int_to_js_string i) = i"
  by (simp add: parse_js_int_def int_to_js_string_def hd_nat_digits_not_minus)

lemma int_to_js_string_inj: "int_to_js_string i = int_to_js_string j \<Longrightarrow> i = j"
  by (metis int_to_js_string_roundtrip)

subsection \<open>Trimming\<close>

lemma js_trim_decomp:
  assumes "list_all js_whitespace a" and "list_all js_whitespace b"
    and "n \<noteq> []" and "\<not> js_whitespace (hd n)" and "\<not> js_whitespace (last n)"
  shows "js_trim (a @ n @ b) = n"
proof -
  have "dropWhile js_whitespace (a @ n @ b) = n @ b"
    using assms(1,3,4) by (cases n) (simp_all add: dropWhile_append3 list_all_iff)
  moreover have "dropWhile js_whitespace (rev b @ rev n) = rev n"
    using assms(2,3,5) by (cases "rev n") (simp_all add: dropWhile_append3 list_all_iff last_rev [symmetric])
  ultimately show ?thesis by (simp add: js_trim_def)
qed

end
