(* ===== verification/Html_Escape.thy ===== *)
theory Html_Escape
  imports Js_Data
begin

text \<open>
  \<open>escapeHtml\<close> of \<^verbatim>\<open>src/web/js/script.js\<close> (lines 452--459): five passes of
  \<open>String.prototype.replace\<close> with a global one-character pattern, in the order
  \<open>&\<close>, \<open><\<close>, \<open>>\<close>, \<open>"\<close>, \<open>'\<close>. The theory proves that the chain equals a
  single pass that replaces each character by its entity (the reference escaper), that
  its output contains none of the four markup metacharacters, and that a decoder of the
  five entities inverts it.
\<close>

section \<open>The escaper as the code writes it\<close>

text \<open>\<open>s.replace(/c/g, r)\<close>: every occurrence of \<open>c\<close>, left to right, by \<open>r\<close>;
  the replacement text is not scanned again.\<close>

fun replace_all :: "char \<Rightarrow> string \<Rightarrow> string \<Rightarrow> string" where
  "replace_all c r [] = []"
| "replace_all c r (x # xs) = (if x = c then r @ replace_all c r xs else x # replace_all c r xs)"

abbreviation amp_char :: char where "amp_char \<equiv> CHR ''&''"
abbreviation lt_char :: char where "lt_char \<equiv> CHR ''<''"
abbreviation gt_char :: char where "gt_char \<equiv> CHR ''>''"
abbreviation quot_char :: char where "quot_char \<equiv> CHR 0x22"
abbreviation apos_char :: char where "apos_char \<equiv> CHR 0x27"

definition escape_html :: "string \<Rightarrow> string" where
  "escape_html unsafe =
     replace_all apos_char ''&#039;''
      (replace_all quot_char ''&quot;''
        (replace_all gt_char ''&gt;''
          (replace_all lt_char ''&lt;''
            (replace_all amp_char ''&amp;'' unsafe))))"

section \<open>Reference: one entity per character\<close>

fun escape_char :: "char \<Rightarrow> string" where
  "escape_char c =
     (if c = amp_char then ''&amp;''
      else if c = lt_char then ''&lt;''
      else if c = gt_char then ''&gt;''
      else if c = quot_char then ''&quot;''
      else if c = apos_char then ''&#039;''
      else [c])"

definition escape_ref :: "string \<Rightarrow> string" where
  "escape_ref s = concat (map escape_char s)"

text \<open>Decoding the five entities; any other \<open>&\<close> stays as it is.\<close>

definition html_entities :: "(string \<times> char) list" where
  "html_entities =
     [(''amp;'', amp_char), (''lt;'', lt_char), (''gt;'', gt_char),
      (''quot;'', quot_char), (''#039;'', apos_char)]"

definition match_entity :: "string \<Rightarrow> (string \<times> char) option" where
  "match_entity xs = find (\<lambda>(e, c). take (length e) xs = e) html_entities"

function unescape_html :: "string \<Rightarrow> string" where
  "unescape_html [] = []"
| "unescape_html (x # xs) =
     (if x = amp_char
      then (case match_entity xs of
              Some (e, c) \<Rightarrow> c # unescape_html (drop (length e) xs)
            | None \<Rightarrow> x # unescape_html xs)
      else x # unescape_html xs)"
  by pat_completeness auto
termination
  by (relation "measure length") auto

section \<open>Properties\<close>

lemma match_entity_length:
  "match_entity xs = Some (e, c) \<Longrightarrow> length e \<le> length xs"
  by (auto simp: match_entity_def find_Some_iff dest!: arg_cong [where f = length])


lemma replace_all_append:
  "replace_all c r (xs @ ys) = replace_all c r xs @ replace_all c r ys"
  by (induction xs) auto

lemma escape_html_append: "escape_html (xs @ ys) = escape_html xs @ escape_html ys"
  by (simp add: escape_html_def replace_all_append)

lemma escape_html_char: "escape_html [c] = escape_char c"
  by (simp add: escape_html_def)

lemma escape_html_Nil: "escape_html [] = []"
  by (simp add: escape_html_def)

lemma escape_html_Cons: "escape_html (c # s) = escape_char c @ escape_html s"
  using escape_html_append [of "[c]" s] by (simp add: escape_html_char del: escape_char.simps)

lemma escape_char_safe: "x \<in> set (escape_char c) \<Longrightarrow> x \<notin> {lt_char, gt_char, quot_char, apos_char}"
  by (auto split: if_splits)

lemma escape_html_markup_free:
  "set (escape_html s) \<inter> {lt_char, gt_char, quot_char, apos_char} = {}"
proof (induction s)
  case Nil
  show ?case by (simp only: escape_html_Nil list.set Int_empty_left)
next
  case (Cons c s)
  have "set (escape_char c) \<inter> {lt_char, gt_char, quot_char, apos_char} = {}"
    using escape_char_safe by blast
  moreover have "set (escape_html (c # s)) = set (escape_char c) \<union> set (escape_html s)"
    by (simp only: escape_html_Cons set_append)
  ultimately show ?case using Cons.IH by (simp only: Int_Un_distrib2 Un_empty)
qed

lemma unescape_escape_char:
  "unescape_html (escape_char c @ rest) = c # unescape_html rest"
  by (simp add: match_entity_def html_entities_def)

subsection \<open>Claims\<close>

text \<open>
  C10. The five chained \<open>replace\<close> passes of \<open>escapeHtml\<close> equal one pass that
  replaces every character by its entity: escaping \<open>&\<close> first means no entity
  produced by a later pass is escaped again.
\<close>

theorem escape_html_reference_equiv: "escape_html s = escape_ref s"
  by (induction s) (simp_all only: escape_ref_def escape_html_Nil escape_html_Cons list.map concat.simps)

text \<open>
  C11. The escaped text contains no raw \<open><\<close>, \<open>>\<close>, \<open>"\<close> or \<open>'\<close>, whatever the
  input.
\<close>

theorem escape_html_no_markup_chars:
  "set (escape_html s) \<inter> {lt_char, gt_char, quot_char, apos_char} = {}"
  by (rule escape_html_markup_free)

text \<open>
  C12. Escaping loses nothing: decoding the five entities of the escaped text gives
  back the input, so the browser displays exactly the user's text.
\<close>

theorem escape_html_roundtrip: "unescape_html (escape_html s) = s"
proof (induction s)
  case Nil
  show ?case by (simp add: escape_html_Nil)
next
  case (Cons c s)
  then show ?case by (simp only: escape_html_Cons unescape_escape_char)
qed

end
