(* ===== verification/View_Render.thy ===== *)
theory View_Render
  imports Html_Escape
begin

text \<open>
  The list views of \<^verbatim>\<open>src/web/js/script.js\<close> as pure functions from the loaded
  data to what the page shows: \<open>updateDecksList\<close> (lines 93--126) with
  \<open>getDeckCardCount\<close> (lines 472--474), \<open>updateCardsList\<close> (lines 210--236) with
  \<open>formatNextReviewDate\<close> (lines 477--491). A rendered row keeps the text the
  template puts into the markup (escaped by \<open>escapeHtml\<close>), the numbers it shows and
  the argument its inline \<open>onclick\<close> handlers pass. The fixed Russian captions are
  not kept as text: a placeholder view and the date labels are constructors.
\<close>

section \<open>Deck list\<close>

record deck_row =
  dr_name :: string
  dr_open_arg :: jid
  dr_delete_arg :: jid
  dr_description :: string
  dr_created :: string
  dr_card_count :: nat

text \<open>
  \<open>Decks_placeholder\<close> is the "no decks yet" item of an empty list; \<open>Deck_rows rs\<close>
  the items appended so far.
\<close>

datatype deck_list_view = Decks_placeholder | Deck_rows "deck_row list"

definition get_deck_card_count :: "card list \<Rightarrow> jid \<Rightarrow> nat" where
  "get_deck_card_count cs did = length (filter (\<lambda>c. card_deck_id c = did) cs)"

text \<open>
  One item of the \<open>forEach\<close>. The template is evaluated before the item is appended;
  \<open>escapeHtml(deck.description, placeholder)\<close> ignores its second argument and
  calls \<open>.replace\<close> on the description, which throws a \<open>TypeError\<close> when the
  description is \<open>null\<close>. The deck's name is a string in the model: a \<open>null\<close> name,
  on which \<open>escapeHtml\<close> would throw as well, is outside it.
\<close>

definition render_deck_row :: "card list \<Rightarrow> deck \<Rightarrow> js_error + deck_row" where
  "render_deck_row cs d =
     (case deck_description d of
        None \<Rightarrow> Inl Type_error
      | Some desc \<Rightarrow>
          Inr \<lparr>dr_name = escape_html (deck_name d),
               dr_open_arg = onclick_arg (deck_id d),
               dr_delete_arg = onclick_arg (deck_id d),
               dr_description = escape_html desc,
               dr_created = deck_created_at d,
               dr_card_count = get_deck_card_count cs (deck_id d)\<rparr>)"

text \<open>The \<open>forEach\<close>: rows are appended until an item throws; the exception leaves
  the loop.\<close>

fun render_deck_rows :: "card list \<Rightarrow> deck list \<Rightarrow> deck_row list \<times> js_error option" where
  "render_deck_rows cs [] = ([], None)"
| "render_deck_rows cs (d # ds) =
     (case render_deck_row cs d of
        Inl e \<Rightarrow> ([], Some e)
      | Inr r \<Rightarrow> (let (rs, e) = render_deck_rows cs ds in (r # rs, e)))"

definition render_decks :: "card list \<Rightarrow> deck list \<Rightarrow> deck_list_view \<times> js_error option" where
  "render_decks cs ds =
     (if ds = [] then (Decks_placeholder, None)
      else (let (rs, e) = render_deck_rows cs ds in (Deck_rows rs, e)))"

section \<open>Card list\<close>

text \<open>The captions of \<open>formatNextReviewDate\<close>: "today", "tomorrow", "yesterday",
  "overdue", "in n days", and "in NaN days" for an unparsable date.\<close>

datatype date_label =
    Label_today | Label_tomorrow | Label_yesterday | Label_overdue
  | Label_in_days int | Label_in_NaN_days

definition ms_per_day :: int where
  "ms_per_day = 1000 * 60 * 60 * 24"

text \<open>\<open>Math.ceil(n / d)\<close> for integers and a positive divisor.\<close>

definition ceil_div :: "int \<Rightarrow> int \<Rightarrow> int" where
  "ceil_div n d = - ((- n) div d)"

text \<open>
  \<open>diffTime = date - today\<close> with \<open>today = new Date()\<close>, the time of rendering. An
  invalid date makes \<open>diffDays\<close> \<open>NaN\<close>: every comparison is false and the last
  line prints \<open>NaN\<close>.
\<close>

fun format_next_review_date :: "timestamp \<Rightarrow> review_date \<Rightarrow> date_label" where
  "format_next_review_date now No_date = Label_today"
| "format_next_review_date now Invalid_date = Label_in_NaN_days"
| "format_next_review_date now (At_time t) =
     (let diff_days = ceil_div (t - now) ms_per_day in
      if diff_days = 0 then Label_today
      else if diff_days = 1 then Label_tomorrow
      else if diff_days = -1 then Label_yesterday
      else if diff_days < 0 then Label_overdue
      else Label_in_days diff_days)"

record card_row =
  cr_question :: string
  cr_answer :: string
  cr_repetitions :: int
  cr_interval :: int
  cr_next :: date_label
  cr_delete_arg :: jid

text \<open>\<open>x || 0\<close> on a nullable number: \<open>null\<close> and \<open>0\<close> both show \<open>0\<close>.\<close>

fun or_zero :: "int option \<Rightarrow> int" where
  "or_zero None = 0"
| "or_zero (Some n) = n"

text \<open>One row of \<open>updateCardsList\<close>. Question and answer are strings in the model:
  a \<open>null\<close> one, on which \<open>escapeHtml\<close> would throw, is outside it.\<close>

definition render_card_row :: "timestamp \<Rightarrow> card \<Rightarrow> card_row" where
  "render_card_row now c =
     \<lparr>cr_question = escape_html (card_question c),
      cr_answer = escape_html (card_answer c),
      cr_repetitions = or_zero (card_repetition_count c),
      cr_interval = or_zero (card_interval c),
      cr_next = format_next_review_date now (card_next_review_date c),
      cr_delete_arg = onclick_arg (card_id c)\<rparr>"

datatype card_list_view = Cards_placeholder | Card_rows "card_row list"

definition render_cards :: "timestamp \<Rightarrow> card list \<Rightarrow> card_list_view" where
  "render_cards now cs = (if cs = [] then Cards_placeholder else Card_rows (map (render_card_row now) cs))"

section \<open>Properties\<close>

lemma ms_per_day_pos [simp]: "0 < ms_per_day"
  by (simp add: ms_per_day_def)

text \<open>\<open>ceil_div\<close> is the ceiling of the exact quotient.\<close>

lemma ceil_div_ceiling: "0 < d \<Longrightarrow> ceil_div n d = \<lceil>real_of_int n / real_of_int d\<rceil>"
proof -
  assume d: "0 < d"
  have "\<lfloor>real_of_int (- n) / real_of_int d\<rfloor> = (- n) div d"
    by (rule floor_divide_of_int_eq)
  then have "\<lceil>real_of_int n / real_of_int d\<rceil> = - ((- n) div d)"
    by (simp add: ceiling_def)
  then show ?thesis by (simp add: ceil_div_def)
qed

lemma ceil_div_nonpos_iff: "0 < d \<Longrightarrow> ceil_div n d \<le> 0 \<longleftrightarrow> n \<le> 0"
proof -
  assume d: "0 < d"
  have "ceil_div n d \<le> 0 \<longleftrightarrow> 0 \<le> (- n) div d" by (simp add: ceil_div_def)
  also have "\<dots> \<longleftrightarrow> 0 \<le> - n" using d by (simp add: pos_imp_zdiv_nonneg_iff)
  finally show ?thesis by simp
qed

lemma render_deck_rows_error:
  "render_deck_rows cs ds = (rs, Some e) \<Longrightarrow>
     \<exists>pre d post. ds = pre @ d # post \<and> deck_description d = None \<and> length rs = length pre"
proof (induction ds arbitrary: rs)
  case Nil
  then show ?case by simp
next
  case (Cons d ds)
  show ?case
  proof (cases "deck_description d")
    case None
    with Cons.prems show ?thesis by (auto simp: render_deck_row_def intro!: exI [of _ "[]"])
  next
    case (Some desc)
    with Cons.prems obtain r rs' where "render_deck_rows cs ds = (rs', Some e)" "rs = r # rs'"
      by (auto simp: render_deck_row_def split: prod.splits)
    with Cons.IH obtain pre d' post where
      "ds = pre @ d' # post" "deck_description d' = None" "length rs' = length pre" by blast
    with \<open>rs = r # rs'\<close> show ?thesis by (auto intro!: exI [of _ "d # pre"])
  qed
qed

subsection \<open>Claims\<close>

text \<open>
  C21. A deck whose description is the empty string is shown with an empty description:
  the placeholder passed as a second argument to \<open>escapeHtml\<close> is never used.
\<close>

theorem render_empty_description_blank:
  assumes "deck_description d = Some []"
  shows "\<exists>row. render_deck_row cs d = Inr row \<and> dr_description row = []"
  using assms by (simp add: render_deck_row_def escape_html_def)

theorem render_empty_description_blank_witness:
  "deck_description \<lparr>deck_id = JNum 1, deck_name = ''Spanish'', deck_description = Some [],
      deck_created_at = []\<rparr> = Some []
   \<and> (\<exists>row. render_deck_row [] \<lparr>deck_id = JNum 1, deck_name = ''Spanish'', deck_description = Some [],
      deck_created_at = []\<rparr> = Inr row \<and> dr_description row = [])"
  using render_empty_description_blank [of "\<lparr>deck_id = JNum 1, deck_name = ''Spanish'',
      deck_description = Some [], deck_created_at = []\<rparr>" "[]"]
  by simp

end
