(* ===== verification/Api_Client.thy ===== *)
theory Api_Client
  imports Js_Data
begin

text \<open>
  The REST client of \<^verbatim>\<open>src/web/js/script.js\<close>: \<open>API_CONFIG\<close> (lines 2--8), the
  five \<open>api*\<close> functions (lines 339--408) and the two inline \<open>fetch\<close> calls of
  \<open>loadDecks\<close> and \<open>loadCards\<close> (lines 80--86, 197--203). A call is split into
  the request it sends (a \<open>request\<close> value, appended to the state's log of sent
  requests by the handlers) and the interpretation of the response it receives (a
  \<open>response\<close> value, supplied by the environment): success, an HTTP error with its
  text body, or a rejected \<open>fetch\<close> / body read.
\<close>

section \<open>Requests\<close>

datatype http_method = GET | POST | DELETE

text \<open>The JSON values the request bodies carry.\<close>

datatype json = JString string | JInt int | JId jid

record request =
  req_method :: http_method
  req_url :: string
  req_body :: "(string \<times> json) list option"

definition base_url :: string where
  "base_url = ''http://localhost:8000''"

definition decks_endpoint :: string where
  "decks_endpoint = ''/decks''"

definition cards_endpoint :: string where
  "cards_endpoint = ''/cards''"

text \<open>\<open>fetch(API_CONFIG.baseUrl + API_CONFIG.endpoints.decks)\<close> in \<open>loadDecks\<close>.\<close>

definition load_decks_request :: request where
  "load_decks_request = \<lparr>req_method = GET, req_url = base_url @ decks_endpoint, req_body = None\<rparr>"

text \<open>\<open>`${baseUrl}${decks}/${deckId}/cards`\<close> in \<open>loadCards\<close>.\<close>

definition load_cards_request :: "jid \<Rightarrow> request" where
  "load_cards_request did =
     \<lparr>req_method = GET,
      req_url = base_url @ decks_endpoint @ ''/'' @ jid_to_string did @ ''/cards'',
      req_body = None\<rparr>"

definition api_create_deck :: "string \<Rightarrow> string \<Rightarrow> request" where
  "api_create_deck name description =
     \<lparr>req_method = POST, req_url = base_url @ decks_endpoint,
      req_body = Some [(''name'', JString name), (''description'', JString description)]\<rparr>"

definition api_create_card :: "jid \<Rightarrow> string \<Rightarrow> string \<Rightarrow> request" where
  "api_create_card did q a =
     \<lparr>req_method = POST, req_url = base_url @ cards_endpoint,
      req_body = Some [(''deckId'', JId did), (''question'', JString q), (''answer'', JString a)]\<rparr>"

definition api_update_card :: "jid \<Rightarrow> int \<Rightarrow> request" where
  "api_update_card cid quality =
     \<lparr>req_method = POST,
      req_url = base_url @ cards_endpoint @ ''/'' @ jid_to_string cid @ ''/review'',
      req_body = Some [(''quality'', JInt quality)]\<rparr>"

text \<open>
  \<open>apiDeleteDeck(_deckId)\<close> writes its URL in single quotes, so no interpolation takes
  place: the request goes to the literal (relative) URL below, whatever the deck. The
  parameter is unused, as its name says; the \<open>deckId\<close> of the literal is not evaluated.
\<close>

definition api_delete_deck :: "jid \<Rightarrow> request" where
  "api_delete_deck unused_deck_id =
     \<lparr>req_method = DELETE,
      req_url = ''${API_CONFIG.baseUrl}${API_CONFIG.endpoints.decks}/${deckId}'',
      req_body = None\<rparr>"

definition api_delete_card :: "jid \<Rightarrow> request" where
  "api_delete_card cid =
     \<lparr>req_method = DELETE,
      req_url = base_url @ cards_endpoint @ ''/'' @ jid_to_string cid,
      req_body = None\<rparr>"

section \<open>Responses\<close>

text \<open>
  \<open>Ok v\<close>: \<open>response.ok\<close> and the body parsed to \<open>v\<close>; \<open>Http_error t\<close>: a
  non-2xx status with text body \<open>t\<close>; \<open>Fetch_failed m\<close>: \<open>fetch\<close> or the
  body read rejected with message \<open>m\<close>.
\<close>

datatype 'a response = Ok 'a | Http_error string | Fetch_failed string

text \<open>
  The \<open>api*\<close> functions: \<open>throw new Error(error || ..)\<close> on a non-2xx status, so an empty
  body gives the fixed server-error text.
\<close>

fun api_result :: "'a response \<Rightarrow> js_error + 'a" where
  "api_result (Ok v) = Inr v"
| "api_result (Http_error t) = Inl (if t = [] then Server_error else Error_msg t)"
| "api_result (Fetch_failed m) = Inl (Error_msg m)"

text \<open>
  \<open>loadDecks\<close> and \<open>loadCards\<close> throw their own fixed error on a non-2xx status and
  never read the body.
\<close>

fun load_result :: "js_error \<Rightarrow> 'a response \<Rightarrow> js_error + 'a" where
  "load_result e (Ok v) = Inr v"
| "load_result e (Http_error t) = Inl e"
| "load_result e (Fetch_failed m) = Inl (Error_msg m)"

section \<open>Properties\<close>

lemma api_result_Inr_iff: "api_result r = Inr v \<longleftrightarrow> r = Ok v"
  by (cases r) auto

lemma load_result_Inr_iff: "load_result e r = Inr v \<longleftrightarrow> r = Ok v"
  by (cases r) auto

subsection \<open>Claims\<close>

text \<open>
  C19. \<open>apiDeleteDeck\<close> sends the same request whatever deck it is asked to delete,
  and that request is not \<open>DELETE /decks/{id}\<close>: the URL is the uninterpolated
  template text.
\<close>

theorem api_delete_deck_ignores_id:
  "api_delete_deck d1 = api_delete_deck d2
   \<and> req_url (api_delete_deck d) \<noteq> base_url @ decks_endpoint @ ''/'' @ jid_to_string d"
  by (simp add: api_delete_deck_def base_url_def)

text \<open>
  C25. \<open>apiDeleteCard\<close>, unlike \<open>apiDeleteDeck\<close>, names its card: for numeric ids below
  \<open>10^21\<close>, which JavaScript prints in plain digits, the request sent for the id a card
  row passes determines the card, so two different cards never produce the same request.
\<close>

theorem delete_card_request_identifies_card:
  assumes "\<bar>i\<bar> < 10 ^ 21" and "\<bar>j\<bar> < 10 ^ 21"
    and "api_delete_card (onclick_arg (JNum i)) = api_delete_card (onclick_arg (JNum j))"
  shows "i = j"
proof -
  from assms(3) have "int_to_js_string i = int_to_js_string j"
    by (simp add: api_delete_card_def onclick_arg_def)
  then show ?thesis by (rule int_to_js_string_inj)
qed

theorem delete_card_request_identifies_card_witness:
  "\<bar>42 :: int\<bar> < 10 ^ 21 \<and> \<bar>42 :: int\<bar> < 10 ^ 21
   \<and> api_delete_card (onclick_arg (JNum 42)) = api_delete_card (onclick_arg (JNum 42)) \<and> (42 :: int) = 42"
  using delete_card_request_identifies_card [of 42 42] by simp

end
