(* ===== verification/App_State.thy ===== *)
theory App_State
  imports View_Render Api_Client
begin

text \<open>
  The state of the page: the module-level variables of \<^verbatim>\<open>src/web/js/script.js\<close>
  (lines 11--16), the parts of the DOM the script writes (the two list views, the
  panels it shows and hides, the review card, the form inputs it reads and clears), the
  notifications \<open>showNotification\<close> (lines 413--449) appends, and the log of requests
  the page has sent. \<open>update_decks_list\<close> and \<open>update_cards_list\<close> store a rendering of
  the loaded data in the state.
\<close>

section \<open>Notifications\<close>

datatype notification_type = Note_info | Note_success | Note_error

text \<open>
  The notification texts. The fixed Russian captions are constructors; texts built
  from an error carry it. \<open>'...' + {name} + '...'\<close> in \<open>createDeck\<close> concatenates the
  object \<open>{name}\<close>, whose string form is \<open>[object Object]\<close>.
\<close>

datatype message =
    Msg_enter_deck_name
  | Msg_deck_created string
  | Msg_deck_create_failed js_error
  | Msg_decks_load_failed js_error
  | Msg_deck_deleted
  | Msg_delete_failed js_error
  | Msg_fill_question_answer
  | Msg_select_deck_first
  | Msg_card_added
  | Msg_card_create_failed js_error
  | Msg_cards_load_failed js_error
  | Msg_card_deleted
  | Msg_no_cards_to_review
  | Msg_all_reviewed
  | Msg_card_update_failed js_error
  | Msg_review_finished

definition object_to_string :: "(string \<times> json) list \<Rightarrow> string" where
  "object_to_string obj = ''[object Object]''"

record toast =
  toast_message :: message
  toast_class :: string
  toast_color :: string

text \<open>\<open>{success: .., error: .., info: ..}[type] || '#6366F1'\<close>.\<close>

fun notification_color :: "notification_type \<Rightarrow> string" where
  "notification_color Note_success = ''#10B981''"
| "notification_color Note_error = ''#EF4444''"
| "notification_color Note_info = ''#6366F1''"

section \<open>The state\<close>

text \<open>
  \<open>current_deck_id\<close> is \<open>null\<close> (\<open>None\<close>) or the id a click passed; the
  \<open>..._hidden\<close> fields are the \<open>hidden\<close> classes of the panels
  \<open>noDeckSelected\<close>, \<open>deckSelected\<close>, \<open>reviewMode\<close> and of \<open>cardAnswerSide\<close>;
  \<open>review_progress\<close> is the pair shown as \<open>i/n\<close>.
\<close>

record app_state =
  current_deck_id :: "jid option"
  decks :: "deck list"
  cards :: "card list"
  review_cards :: "card list"
  current_review_index :: nat
  is_card_flipped :: bool
  decks_list :: deck_list_view
  cards_list :: card_list_view
  selected_deck_name :: string
  no_deck_selected_hidden :: bool
  deck_selected_hidden :: bool
  review_mode_hidden :: bool
  card_question_side :: string
  card_answer_side :: string
  card_answer_side_hidden :: bool
  review_progress :: "nat \<times> nat"
  deck_name_field :: string
  deck_description_field :: string
  card_question_field :: string
  card_answer_field :: string
  notifications :: "toast list"
  requests :: "request list"

text \<open>
  The page after loading: the variables as the script declares them; the panels and
  inputs as the page's markup starts (only the deck list shown, answer side hidden,
  empty inputs, empty list containers).
\<close>

definition init_state :: app_state where
  "init_state =
     \<lparr>current_deck_id = None, decks = [], cards = [], review_cards = [],
      current_review_index = 0, is_card_flipped = False,
      decks_list = Deck_rows [], cards_list = Card_rows [], selected_deck_name = [],
      no_deck_selected_hidden = False, deck_selected_hidden = True, review_mode_hidden = True,
      card_question_side = [], card_answer_side = [], card_answer_side_hidden = True,
      review_progress = (0, 0),
      deck_name_field = [], deck_description_field = [],
      card_question_field = [], card_answer_field = [],
      notifications = [], requests = []\<rparr>"

text \<open>
  \<open>showNotification(message, type)\<close>. The class name is written in single quotes,
  so it is the literal text, the same for every type; the colour depends on the type.
  Removing the toast after 3.3 seconds is a timer and is not part of the state.
\<close>

definition show_notification :: "message \<Rightarrow> notification_type \<Rightarrow> app_state \<Rightarrow> app_state" where
  "show_notification m ty s =
     s\<lparr>notifications := notifications s @
        [\<lparr>toast_message = m, toast_class = ''notification notification-${type}'',
          toast_color = notification_color ty\<rparr>]\<rparr>"

text \<open>\<open>fetch(..)\<close> puts a request on the network.\<close>

definition send :: "request \<Rightarrow> app_state \<Rightarrow> app_state" where
  "send r s = s\<lparr>requests := requests s @ [r]\<rparr>"

text \<open>
  \<open>updateDecksList()\<close>: the deck list is rendered from \<open>decks\<close> and the card
  counts from \<open>cards\<close>; an exception escapes to the caller after the rows rendered so
  far were appended.
\<close>

definition update_decks_list :: "app_state \<Rightarrow> app_state \<times> js_error option" where
  "update_decks_list s =
     (let (v, e) = render_decks (cards s) (decks s) in (s\<lparr>decks_list := v\<rparr>, e))"

definition update_cards_list :: "timestamp \<Rightarrow> app_state \<Rightarrow> app_state" where
  "update_cards_list now s = s\<lparr>cards_list := render_cards now (cards s)\<rparr>"

section \<open>Frame lemmas\<close>

text \<open>What the three primitive effects leave alone, for the handler proofs.\<close>

lemma show_notification_simps [simp]:
  "decks (show_notification m ty s) = decks s"
  "cards (show_notification m ty s) = cards s"
  "current_deck_id (show_notification m ty s) = current_deck_id s"
  "review_cards (show_notification m ty s) = review_cards s"
  "current_review_index (show_notification m ty s) = current_review_index s"
  "is_card_flipped (show_notification m ty s) = is_card_flipped s"
  "review_mode_hidden (show_notification m ty s) = review_mode_hidden s"
  "deck_selected_hidden (show_notification m ty s) = deck_selected_hidden s"
  "no_deck_selected_hidden (show_notification m ty s) = no_deck_selected_hidden s"
  "card_answer_side_hidden (show_notification m ty s) = card_answer_side_hidden s"
  "card_question_side (show_notification m ty s) = card_question_side s"
  "card_answer_side (show_notification m ty s) = card_answer_side s"
  "decks_list (show_notification m ty s) = decks_list s"
  "cards_list (show_notification m ty s) = cards_list s"
  "deck_name_field (show_notification m ty s) = deck_name_field s"
  "deck_description_field (show_notification m ty s) = deck_description_field s"
  "card_question_field (show_notification m ty s) = card_question_field s"
  "card_answer_field (show_notification m ty s) = card_answer_field s"
  "selected_deck_name (show_notification m ty s) = selected_deck_name s"
  "review_progress (show_notification m ty s) = review_progress s"
  "requests (show_notification m ty s) = requests s"
  "notifications (show_notification m ty s) = notifications s @
     [\<lparr>toast_message = m, toast_class = ''notification notification-${type}'',
       toast_color = notification_color ty\<rparr>]"
  by (simp_all add: show_notification_def)

lemma send_simps [simp]:
  "decks (send r s) = decks s"
  "cards (send r s) = cards s"
  "current_deck_id (send r s) = current_deck_id s"
  "review_cards (send r s) = review_cards s"
  "current_review_index (send r s) = current_review_index s"
  "is_card_flipped (send r s) = is_card_flipped s"
  "review_mode_hidden (send r s) = review_mode_hidden s"
  "deck_selected_hidden (send r s) = deck_selected_hidden s"
  "no_deck_selected_hidden (send r s) = no_deck_selected_hidden s"
  "card_answer_side_hidden (send r s) = card_answer_side_hidden s"
  "card_question_side (send r s) = card_question_side s"
  "card_answer_side (send r s) = card_answer_side s"
  "decks_list (send r s) = decks_list s"
  "cards_list (send r s) = cards_list s"
  "notifications (send r s) = notifications s"
  "deck_name_field (send r s) = deck_name_field s"
  "deck_description_field (send r s) = deck_description_field s"
  "card_question_field (send r s) = card_question_field s"
  "card_answer_field (send r s) = card_answer_field s"
  "selected_deck_name (send r s) = selected_deck_name s"
  "review_progress (send r s) = review_progress s"
  "requests (send r s) = requests s @ [r]"
  by (simp_all add: send_def)

lemma update_cards_list_simps [simp]:
  "decks (update_cards_list now s) = decks s"
  "cards (update_cards_list now s) = cards s"
  "current_deck_id (update_cards_list now s) = current_deck_id s"
  "review_cards (update_cards_list now s) = review_cards s"
  "current_review_index (update_cards_list now s) = current_review_index s"
  "is_card_flipped (update_cards_list now s) = is_card_flipped s"
  "review_mode_hidden (update_cards_list now s) = review_mode_hidden s"
  "deck_selected_hidden (update_cards_list now s) = deck_selected_hidden s"
  "no_deck_selected_hidden (update_cards_list now s) = no_deck_selected_hidden s"
  "card_answer_side_hidden (update_cards_list now s) = card_answer_side_hidden s"
  "card_question_side (update_cards_list now s) = card_question_side s"
  "card_answer_side (update_cards_list now s) = card_answer_side s"
  "decks_list (update_cards_list now s) = decks_list s"
  "cards_list (update_cards_list now s) = render_cards now (cards s)"
  "notifications (update_cards_list now s) = notifications s"
  "deck_name_field (update_cards_list now s) = deck_name_field s"
  "deck_description_field (update_cards_list now s) = deck_description_field s"
  "card_question_field (update_cards_list now s) = card_question_field s"
  "card_answer_field (update_cards_list now s) = card_answer_field s"
  "selected_deck_name (update_cards_list now s) = selected_deck_name s"
  "review_progress (update_cards_list now s) = review_progress s"
  "requests (update_cards_list now s) = requests s"
  by (simp_all add: update_cards_list_def)

lemma update_decks_list_eq:
  "update_decks_list s = (s\<lparr>decks_list := fst (render_decks (cards s) (decks s))\<rparr>,
                          snd (render_decks (cards s) (decks s)))"
  by (simp add: update_decks_list_def split: prod.splits)

end
