(* ===== verification/Card_Handlers.thy ===== *)
theory Card_Handlers
  imports App_State
begin

text \<open>
  The card handlers of \<^verbatim>\<open>src/web/js/script.js\<close>: \<open>loadCards\<close> (lines 195--207),
  \<open>createCard\<close> (lines 165--192) and \<open>deleteCard\<close> (lines 239--250). Each
  \<open>async\<close> handler is split at its \<open>await\<close>: \<open>..._start\<close> runs the synchronous
  part and says whether a request is now in flight; \<open>..._resume\<close> runs the
  continuation on the response. \<open>create_card\<close> etc. run both when the response
  arrives before anything else happens; the interleaved runs are in
  \<open>Event_Loop\<close>.
\<close>

section \<open>loadCards\<close>

definition load_cards_start :: "jid \<Rightarrow> app_state \<Rightarrow> app_state" where
  "load_cards_start did s = send (load_cards_request did) s"

definition load_cards_resume :: "timestamp \<Rightarrow> card list response \<Rightarrow> app_state \<Rightarrow> app_state" where
  "load_cards_resume now r s =
     (case load_result Load_cards_error r of
        Inl e \<Rightarrow> show_notification (Msg_cards_load_failed e) Note_error s
      | Inr cs \<Rightarrow> update_cards_list now (s\<lparr>cards := cs\<rparr>))"

definition load_cards :: "timestamp \<Rightarrow> card list response \<Rightarrow> jid \<Rightarrow> app_state \<Rightarrow> app_state" where
  "load_cards now r did s = load_cards_resume now r (load_cards_start did s)"

section \<open>createCard\<close>

text \<open>Validation first (both fields, then a selected deck), then the request.\<close>

definition create_card_start :: "app_state \<Rightarrow> app_state \<times> bool" where
  "create_card_start s =
     (let q = js_trim (card_question_field s); a = js_trim (card_answer_field s) in
      if q = [] \<or> a = [] then (show_notification Msg_fill_question_answer Note_error s, False)
      else if \<not> jid_truthy (current_deck_id s)
      then (show_notification Msg_select_deck_first Note_error s, False)
      else (case current_deck_id s of
              None \<Rightarrow> (s, False)
            | Some did \<Rightarrow> (send (api_create_card did q a) s, True)))"

text \<open>On success the card is pushed onto \<open>cards\<close>, whatever deck is selected by then.\<close>

definition create_card_resume :: "timestamp \<Rightarrow> card response \<Rightarrow> app_state \<Rightarrow> app_state" where
  "create_card_resume now r s =
     (case api_result r of
        Inl e \<Rightarrow> show_notification (Msg_card_create_failed e) Note_error s
      | Inr c \<Rightarrow>
          show_notification Msg_card_added Note_success
            ((update_cards_list now (s\<lparr>cards := cards s @ [c]\<rparr>))
               \<lparr>card_question_field := [], card_answer_field := []\<rparr>))"

definition create_card :: "timestamp \<Rightarrow> card response \<Rightarrow> app_state \<Rightarrow> app_state" where
  "create_card now r s =
     (let (s1, go) = create_card_start s in if go then create_card_resume now r s1 else s1)"

section \<open>deleteCard\<close>

text \<open>\<open>confirm(..)\<close> is the user's answer \<open>ok\<close>.\<close>

definition delete_card_start :: "jid \<Rightarrow> bool \<Rightarrow> app_state \<Rightarrow> app_state \<times> bool" where
  "delete_card_start cid ok s = (if \<not> ok then (s, False) else (send (api_delete_card cid) s, True))"

definition delete_card_resume :: "timestamp \<Rightarrow> jid \<Rightarrow> unit response \<Rightarrow> app_state \<Rightarrow> app_state" where
  "delete_card_resume now cid r s =
     (case api_result r of
        Inl e \<Rightarrow> show_notification (Msg_delete_failed e) Note_error s
      | Inr _ \<Rightarrow>
          show_notification Msg_card_deleted Note_success
            (update_cards_list now (s\<lparr>cards := filter (\<lambda>c. card_id c \<noteq> cid) (cards s)\<rparr>)))"

definition delete_card :: "timestamp \<Rightarrow> jid \<Rightarrow> bool \<Rightarrow> unit response \<Rightarrow> app_state \<Rightarrow> app_state" where
  "delete_card now cid ok r s =
     (let (s1, go) = delete_card_start cid ok s in if go then delete_card_resume now cid r s1 else s1)"

section \<open>Properties\<close>

lemmas card_handler_defs [handler_defs] =
  load_cards_start_def load_cards_resume_def load_cards_def
  create_card_start_def create_card_resume_def create_card_def
  delete_card_start_def delete_card_resume_def delete_card_def

text \<open>A card whose question or answer trims to empty is never sent.\<close>

lemma create_card_start_invalid:
  "js_trim (card_question_field s) = [] \<or> js_trim (card_answer_field s) = [] \<Longrightarrow>
     create_card_start s = (show_notification Msg_fill_question_answer Note_error s, False)"
  by (auto simp: create_card_start_def Let_def)

lemma create_card_start_sent:
  "create_card_start s = (s', True) \<Longrightarrow>
     \<exists>did. current_deck_id s = Some did \<and> jid_truthy (Some did) \<and>
       s' = send (api_create_card did (js_trim (card_question_field s)) (js_trim (card_answer_field s))) s"
  by (auto simp: create_card_start_def Let_def split: if_splits option.splits)

lemma create_card_start_not_sent:
  "create_card_start s = (s', False) \<Longrightarrow> requests s' = requests s \<and> cards s' = cards s"
  by (auto simp: create_card_start_def Let_def split: if_splits option.splits)

subsection \<open>Claims\<close>

text \<open>
  C16. \<open>createCard\<close> with a question or an answer that is empty after trimming makes
  no network call and changes no card: it only posts the validation error.
\<close>

theorem create_card_blank_field:
  assumes "js_trim (card_question_field s) = [] \<or> js_trim (card_answer_field s) = []"
  shows "create_card now r s = show_notification Msg_fill_question_answer Note_error s"
  using create_card_start_invalid [OF assms] by (simp add: create_card_def)

theorem create_card_blank_field_witness:
  "(js_trim (card_question_field (init_state\<lparr>card_answer_field := ''hello''\<rparr>)) = []
      \<or> js_trim (card_answer_field (init_state\<lparr>card_answer_field := ''hello''\<rparr>)) = [])
   \<and> requests (create_card 0 (Http_error []) (init_state\<lparr>card_answer_field := ''hello''\<rparr>)) = []"
  using create_card_blank_field [of "init_state\<lparr>card_answer_field := ''hello''\<rparr>" 0 "Http_error []"]
  by (simp add: js_trim_def init_state_def)

text \<open>
  C18. A card the server refuses to create leaves no ghost entry: \<open>cards\<close>, the card
  list and the form stay as they were, and an error notification carries the error.
\<close>

theorem create_card_rejected_no_ghost:
  assumes "create_card_start s = (s1, True)" and "api_result r = Inl e"
  shows "create_card now r s = show_notification (Msg_card_create_failed e) Note_error s1
    \<and> cards (create_card now r s) = cards s \<and> cards_list (create_card now r s) = cards_list s"
proof -
  from create_card_start_sent [OF assms(1)] obtain did where
    "s1 = send (api_create_card did (js_trim (card_question_field s)) (js_trim (card_answer_field s))) s"
    by blast
  with assms show ?thesis by (simp add: create_card_def create_card_resume_def)
qed

theorem create_card_rejected_no_ghost_witness:
  "create_card_start (init_state\<lparr>current_deck_id := Some (JStr ''7''), card_question_field := ''hola'',
      card_answer_field := ''hello''\<rparr>)
     = (send (api_create_card (JStr ''7'') ''hola'' ''hello'')
         (init_state\<lparr>current_deck_id := Some (JStr ''7''), card_question_field := ''hola'',
          card_answer_field := ''hello''\<rparr>), True)
   \<and> api_result (Fetch_failed ''offline'' :: card response) = Inl (Error_msg ''offline'')
   \<and> cards (create_card 0 (Fetch_failed ''offline'') (init_state\<lparr>current_deck_id := Some (JStr ''7''),
      card_question_field := ''hola'', card_answer_field := ''hello''\<rparr>)) = []"
proof -
  have st: "create_card_start (init_state\<lparr>current_deck_id := Some (JStr ''7''), card_question_field := ''hola'',
      card_answer_field := ''hello''\<rparr>)
     = (send (api_create_card (JStr ''7'') ''hola'' ''hello'')
         (init_state\<lparr>current_deck_id := Some (JStr ''7''), card_question_field := ''hola'',
          card_answer_field := ''hello''\<rparr>), True)"
    by (simp add: create_card_start_def js_trim_def js_whitespace_def Let_def)
  show ?thesis
    using create_card_rejected_no_ghost [OF st, of "Fetch_failed ''offline''" "Error_msg ''offline''" 0] st
    by (simp add: init_state_def)
qed

text \<open>
  C24. Adding a card re-renders the card list only: the deck list, and so the card
  count it shows for the deck, is left as it was.
\<close>

theorem create_card_keeps_deck_list: "decks_list (create_card now r s) = decks_list s"
  by (simp add: create_card_def create_card_start_def create_card_resume_def Let_def
      split: sum.splits option.splits)

end
