(* ===== verification/Deck_Handlers.thy ===== *)
theory Deck_Handlers
  imports Card_Handlers
begin

text \<open>
  The deck handlers of \<^verbatim>\<open>src/web/js/script.js\<close>: \<open>createDeck\<close> (lines 53--75),
  \<open>loadDecks\<close> (lines 78--90), \<open>selectDeck\<close> (lines 129--139) and
  \<open>deleteDeck\<close> (lines 142--160), split at their \<open>await\<close> as in
  \<open>Card_Handlers\<close>. \<open>updateDecksList\<close> may throw inside the \<open>try\<close> blocks
  (a deck with a \<open>null\<close> description); its exception goes to the handler's
  \<open>catch\<close>, after the state changes that precede it.
\<close>

section \<open>createDeck\<close>

definition create_deck_start :: "app_state \<Rightarrow> app_state \<times> bool" where
  "create_deck_start s =
     (let name = js_trim (deck_name_field s); description = js_trim (deck_description_field s) in
      if name = [] then (show_notification Msg_enter_deck_name Note_error s, False)
      else (send (api_create_deck name description) s, True))"

definition create_deck_resume :: "deck response \<Rightarrow> app_state \<Rightarrow> app_state" where
  "create_deck_resume r s =
     (case api_result r of
        Inl e \<Rightarrow> show_notification (Msg_deck_create_failed e) Note_error s
      | Inr d \<Rightarrow>
          (let (s1, err) = update_decks_list (s\<lparr>decks := decks s @ [d]\<rparr>) in
           case err of
             Some e \<Rightarrow> show_notification (Msg_deck_create_failed e) Note_error s1
           | None \<Rightarrow>
               show_notification (Msg_deck_created (object_to_string [(''name'', JString (deck_name d))]))
                 Note_info (s1\<lparr>deck_name_field := [], deck_description_field := []\<rparr>)))"

definition create_deck :: "deck response \<Rightarrow> app_state \<Rightarrow> app_state" where
  "create_deck r s =
     (let (s1, go) = create_deck_start s in if go then create_deck_resume r s1 else s1)"

section \<open>loadDecks\<close>

definition load_decks_start :: "app_state \<Rightarrow> app_state" where
  "load_decks_start s = send load_decks_request s"

definition load_decks_resume :: "deck list response \<Rightarrow> app_state \<Rightarrow> app_state" where
  "load_decks_resume r s =
     (case load_result Load_decks_error r of
        Inl e \<Rightarrow> show_notification (Msg_decks_load_failed e) Note_error s
      | Inr ds \<Rightarrow>
          (let (s1, err) = update_decks_list (s\<lparr>decks := ds\<rparr>) in
           case err of
             None \<Rightarrow> s1
           | Some e \<Rightarrow> show_notification (Msg_decks_load_failed e) Note_error s1))"

definition load_decks :: "deck list response \<Rightarrow> app_state \<Rightarrow> app_state" where
  "load_decks r s = load_decks_resume r (load_decks_start s)"

section \<open>selectDeck\<close>

text \<open>
  \<open>currentDeckId\<close> is set before the lookup; only a deck found with \<open>===\<close> shows
  the card panel and loads its cards.
\<close>

definition select_deck_start :: "jid \<Rightarrow> app_state \<Rightarrow> app_state \<times> bool" where
  "select_deck_start did s =
     (let s1 = s\<lparr>current_deck_id := Some did\<rparr> in
      case find (\<lambda>d. deck_id d = did) (decks s) of
        None \<Rightarrow> (s1, False)
      | Some d \<Rightarrow>
          (load_cards_start did
             (s1\<lparr>selected_deck_name := deck_name d, no_deck_selected_hidden := True,
                 deck_selected_hidden := False\<rparr>), True))"

definition select_deck :: "timestamp \<Rightarrow> jid \<Rightarrow> card list response \<Rightarrow> app_state \<Rightarrow> app_state" where
  "select_deck now did r s =
     (let (s1, go) = select_deck_start did s in if go then load_cards_resume now r s1 else s1)"

section \<open>deleteDeck\<close>

definition delete_deck_start :: "jid \<Rightarrow> bool \<Rightarrow> app_state \<Rightarrow> app_state \<times> bool" where
  "delete_deck_start did ok s = (if \<not> ok then (s, False) else (send (api_delete_deck did) s, True))"

definition delete_deck_resume :: "jid \<Rightarrow> unit response \<Rightarrow> app_state \<Rightarrow> app_state" where
  "delete_deck_resume did r s =
     (case api_result r of
        Inl e \<Rightarrow> show_notification (Msg_delete_failed e) Note_error s
      | Inr _ \<Rightarrow>
          (let (s1, err) = update_decks_list (s\<lparr>decks := filter (\<lambda>d. deck_id d \<noteq> did) (decks s)\<rparr>) in
           case err of
             Some e \<Rightarrow> show_notification (Msg_delete_failed e) Note_error s1
           | None \<Rightarrow>
               show_notification Msg_deck_deleted Note_success
                 (if current_deck_id s1 = Some did
                  then s1\<lparr>current_deck_id := None, no_deck_selected_hidden := False,
                          deck_selected_hidden := True\<rparr>
                  else s1)))"

definition delete_deck :: "jid \<Rightarrow> bool \<Rightarrow> unit response \<Rightarrow> app_state \<Rightarrow> app_state" where
  "delete_deck did ok r s =
     (let (s1, go) = delete_deck_start did ok s in if go then delete_deck_resume did r s1 else s1)"

section \<open>Properties\<close>

lemmas deck_handler_defs [handler_defs] =
  create_deck_start_def create_deck_resume_def create_deck_def
  load_decks_start_def load_decks_resume_def load_decks_def
  select_deck_start_def select_deck_def
  delete_deck_start_def delete_deck_resume_def delete_deck_def

lemma render_decks_ok_iff:
  "snd (render_decks cs ds) = None \<longleftrightarrow> (\<forall>d \<in> set ds. deck_description d \<noteq> None)"
proof -
  have "snd (render_deck_rows cs ds) = None \<longleftrightarrow> (\<forall>d \<in> set ds. deck_description d \<noteq> None)"
    by (induction ds) (auto simp: render_deck_row_def split: option.splits prod.splits)
  then show ?thesis by (auto simp: render_decks_def split: prod.splits)
qed

lemma render_decks_ok_filter:
  "\<forall>d \<in> set ds. deck_description d \<noteq> None \<Longrightarrow> snd (render_decks cs (filter P ds)) = None"
  by (simp add: render_decks_ok_iff)

lemma find_numeric_ids:
  "\<forall>d \<in> set ds. \<exists>n. deck_id d = JNum n \<Longrightarrow> find (\<lambda>d. deck_id d = onclick_arg i) ds = None"
  by (auto simp: find_None_iff onclick_arg_def)

subsection \<open>Claims\<close>

text \<open>
  C14. Deleting the deck that is currently selected, confirmed and accepted by the
  server, removes it from the list, clears the selection and returns the page to the
  "no deck selected" view, with a success notice (when every remaining deck renders).
\<close>

theorem delete_selected_deck_clears_selection:
  assumes "current_deck_id s = Some did"
    and "\<forall>d \<in> set (decks s). deck_description d \<noteq> None"
  shows "current_deck_id (delete_deck did True (Ok ()) s) = None
    \<and> \<not> no_deck_selected_hidden (delete_deck did True (Ok ()) s)
    \<and> deck_selected_hidden (delete_deck did True (Ok ()) s)
    \<and> decks (delete_deck did True (Ok ()) s) = filter (\<lambda>d. deck_id d \<noteq> did) (decks s)
    \<and> requests (delete_deck did True (Ok ()) s) = requests s @ [api_delete_deck did]
    \<and> toast_message (last (notifications (delete_deck did True (Ok ()) s))) = Msg_deck_deleted"
  using assms render_decks_ok_filter [OF assms(2), of "cards s" "\<lambda>d. deck_id d \<noteq> did"]
  by (simp add: delete_deck_def delete_deck_start_def delete_deck_resume_def update_decks_list_eq
      split: prod.splits)

theorem delete_selected_deck_clears_selection_witness:
  "current_deck_id (init_state\<lparr>current_deck_id := Some (JStr ''7''),
      decks := [\<lparr>deck_id = JStr ''7'', deck_name = ''Spanish'', deck_description = Some [],
                 deck_created_at = ''2024-01-01''\<rparr>]\<rparr>) = Some (JStr ''7'')
   \<and> deck_description \<lparr>deck_id = JStr ''7'', deck_name = ''Spanish'', deck_description = Some [],
                 deck_created_at = ''2024-01-01''\<rparr> \<noteq> None
   \<and> current_deck_id (delete_deck (JStr ''7'') True (Ok ())
       (init_state\<lparr>current_deck_id := Some (JStr ''7''),
      decks := [\<lparr>deck_id = JStr ''7'', deck_name = ''Spanish'', deck_description = Some [],
                 deck_created_at = ''2024-01-01''\<rparr>]\<rparr>)) = None"
  using delete_selected_deck_clears_selection [of "init_state\<lparr>current_deck_id := Some (JStr ''7''),
      decks := [\<lparr>deck_id = JStr ''7'', deck_name = ''Spanish'', deck_description = Some [],
                 deck_created_at = ''2024-01-01''\<rparr>]\<rparr>" "JStr ''7''"]
  by simp

text \<open>
  C15. A deletion the user does not confirm changes nothing: no request is sent and
  the deck (or card) stays, whatever the server would have answered.
\<close>

theorem delete_declined_no_effect:
  "delete_deck did False r s = s \<and> delete_card now cid False r' s = s"
  by (simp add: delete_deck_def delete_deck_start_def delete_card_def delete_card_start_def)

text \<open>
  C17. A deck the server refuses to create leaves no ghost entry: the deck list, its
  rendering and the form are unchanged, the request was sent once, and an error
  notification carries the server's message.
\<close>

theorem create_deck_rejected_no_ghost:
  assumes "js_trim (deck_name_field s) \<noteq> []" and "api_result r = Inl e"
  shows "create_deck r s =
    show_notification (Msg_deck_create_failed e) Note_error
      (send (api_create_deck (js_trim (deck_name_field s)) (js_trim (deck_description_field s))) s)"
  using assms by (simp add: create_deck_def create_deck_start_def create_deck_resume_def Let_def)

theorem create_deck_rejected_no_ghost_witness:
  "js_trim (deck_name_field (init_state\<lparr>deck_name_field := ''Spanish''\<rparr>)) \<noteq> []
   \<and> api_result (Http_error [] :: deck response) = Inl Server_error
   \<and> decks (create_deck (Http_error []) (init_state\<lparr>deck_name_field := ''Spanish''\<rparr>)) = []"
  using create_deck_rejected_no_ghost [of "init_state\<lparr>deck_name_field := ''Spanish''\<rparr>"
      "Http_error []" Server_error]
  by (simp add: js_trim_def js_whitespace_def init_state_def)

text \<open>
  C20. \<open>createDeck\<close> commits before it renders: when a deck of the list (or the new
  one) has a \<open>null\<close> description, the new deck is in \<open>decks\<close> but the rendering
  throws and the user is told that creating the deck failed; the form is not cleared.
\<close>

theorem create_deck_reports_failure_after_commit:
  assumes "js_trim (deck_name_field s) \<noteq> []"
    and "\<exists>d \<in> set (decks s @ [d0]). deck_description d = None"
  shows "decks (create_deck (Ok d0) s) = decks s @ [d0]
    \<and> toast_message (last (notifications (create_deck (Ok d0) s))) = Msg_deck_create_failed Type_error
    \<and> deck_name_field (create_deck (Ok d0) s) = deck_name_field s"
proof -
  have "snd (render_decks (cards s) (decks s @ [d0])) \<noteq> None"
    using assms(2) render_decks_ok_iff by blast
  moreover have "\<And>e. snd (render_decks (cards s) (decks s @ [d0])) = Some e \<Longrightarrow> e = Type_error"
  proof -
    fix e assume "snd (render_decks (cards s) (decks s @ [d0])) = Some e"
    then obtain rs where "render_deck_rows (cards s) (decks s @ [d0]) = (rs, Some e)"
      by (auto simp: render_decks_def split: if_splits prod.splits)
    moreover have "\<And>ds rs e. render_deck_rows (cards s) ds = (rs, Some e) \<Longrightarrow> e = Type_error"
    proof -
      fix ds rs e show "render_deck_rows (cards s) ds = (rs, Some e) \<Longrightarrow> e = Type_error"
        by (induction ds arbitrary: rs)
           (auto simp: render_deck_row_def split: option.splits prod.splits)
    qed
    ultimately show "e = Type_error" by blast
  qed
  ultimately show ?thesis
    using assms(1)
    by (auto simp: create_deck_def create_deck_start_def create_deck_resume_def Let_def
        update_decks_list_eq split: option.splits)
qed

theorem create_deck_reports_failure_after_commit_witness:
  "js_trim (deck_name_field (init_state\<lparr>deck_name_field := ''Spanish''\<rparr>)) \<noteq> []
   \<and> (\<exists>d \<in> set (decks (init_state\<lparr>deck_name_field := ''Spanish''\<rparr>) @
        [\<lparr>deck_id = JNum 1, deck_name = ''Spanish'', deck_description = None, deck_created_at = []\<rparr>]).
        deck_description d = None)
   \<and> decks (create_deck (Ok \<lparr>deck_id = JNum 1, deck_name = ''Spanish'', deck_description = None,
        deck_created_at = []\<rparr>) (init_state\<lparr>deck_name_field := ''Spanish''\<rparr>))
      = [\<lparr>deck_id = JNum 1, deck_name = ''Spanish'', deck_description = None, deck_created_at = []\<rparr>]"
  using create_deck_reports_failure_after_commit [of "init_state\<lparr>deck_name_field := ''Spanish''\<rparr>"
      "\<lparr>deck_id = JNum 1, deck_name = ''Spanish'', deck_description = None, deck_created_at = []\<rparr>"]
  by (simp add: js_trim_def js_whitespace_def init_state_def)

text \<open>
  C22. When the server's deck ids are numbers, opening a deck from its row never
  works: the row passes the id as a string, \<open>===\<close> finds no deck, so only
  \<open>currentDeckId\<close> changes: the card panel stays hidden and no cards are loaded.
\<close>

theorem select_deck_numeric_ids:
  assumes "\<forall>d \<in> set (decks s). \<exists>n. deck_id d = JNum n"
  shows "select_deck now (onclick_arg i) r s = s\<lparr>current_deck_id := Some (onclick_arg i)\<rparr>"
  using find_numeric_ids [OF assms, of i]
  by (simp add: select_deck_def select_deck_start_def)

theorem select_deck_numeric_ids_witness:
  "deck_id \<lparr>deck_id = JNum 1, deck_name = ''Spanish'', deck_description = Some [],
      deck_created_at = []\<rparr> = JNum 1
   \<and> deck_selected_hidden (select_deck 0 (onclick_arg (JNum 1)) (Ok [])
      (init_state\<lparr>decks := [\<lparr>deck_id = JNum 1, deck_name = ''Spanish'', deck_description = Some [],
      deck_created_at = []\<rparr>]\<rparr>))"
  using select_deck_numeric_ids [of "init_state\<lparr>decks := [\<lparr>deck_id = JNum 1, deck_name = ''Spanish'',
      deck_description = Some [], deck_created_at = []\<rparr>]\<rparr>" 0 "JNum 1" "Ok []"]
  by (simp add: init_state_def)

text \<open>
  C23. When the server's deck ids are numbers, a confirmed deletion that the server
  accepts leaves the local deck list as it was: the filter \<open>d.id !== deckId\<close>
  compares a number with the row's string id and keeps every deck.
\<close>

theorem delete_deck_numeric_ids_kept:
  assumes "\<forall>d \<in> set (decks s). \<exists>n. deck_id d = JNum n"
  shows "decks (delete_deck (onclick_arg i) True (Ok ()) s) = decks s"
proof -
  have "filter (\<lambda>d. deck_id d \<noteq> onclick_arg i) (decks s) = decks s"
    using assms by (auto simp: onclick_arg_def filter_id_conv)
  then show ?thesis
    by (simp add: delete_deck_def delete_deck_start_def delete_deck_resume_def update_decks_list_eq
        split: prod.splits option.splits)
qed

theorem delete_deck_numeric_ids_kept_witness:
  "deck_id \<lparr>deck_id = JNum 1, deck_name = ''Spanish'', deck_description = Some [],
      deck_created_at = []\<rparr> = JNum 1
   \<and> decks (delete_deck (onclick_arg (JNum 1)) True (Ok ())
      (init_state\<lparr>decks := [\<lparr>deck_id = JNum 1, deck_name = ''Spanish'', deck_description = Some [],
      deck_created_at = []\<rparr>]\<rparr>)) \<noteq> []"
  using delete_deck_numeric_ids_kept [of "init_state\<lparr>decks := [\<lparr>deck_id = JNum 1, deck_name = ''Spanish'',
      deck_description = Some [], deck_created_at = []\<rparr>]\<rparr>" "JNum 1"]
  by (simp add: init_state_def)

text \<open>
  C34. The notice of a successful \<open>createDeck\<close> does not name the deck: the message
  concatenates the object \<open>{name}\<close>, which prints as \<open>[object Object]\<close> whatever the
  name, and the toast's class is the literal text \<open>notification notification-${type}\<close>
  of a single-quoted template.
\<close>

theorem create_deck_notice_omits_name:
  assumes "js_trim (deck_name_field s) \<noteq> []"
    and "\<forall>x \<in> set (decks s @ [d]). deck_description x \<noteq> None"
  shows "last (notifications (create_deck (Ok d) s)) =
    \<lparr>toast_message = Msg_deck_created ''[object Object]'',
     toast_class = ''notification notification-${type}'', toast_color = notification_color Note_info\<rparr>"
proof -
  have "snd (render_decks (cards s) (decks s @ [d])) = None"
    using assms(2) render_decks_ok_iff by blast
  then show ?thesis using assms(1)
    by (simp add: create_deck_def create_deck_start_def create_deck_resume_def update_decks_list_eq
        show_notification_def object_to_string_def send_def split: prod.splits)
qed

theorem create_deck_notice_omits_name_witness:
  "js_trim (deck_name_field (init_state\<lparr>deck_name_field := ''Spanish''\<rparr>)) \<noteq> []
   \<and> last (notifications (create_deck (Ok \<lparr>deck_id = JNum 1, deck_name = ''Spanish'',
        deck_description = Some [], deck_created_at = []\<rparr>) (init_state\<lparr>deck_name_field := ''Spanish''\<rparr>)))
     = \<lparr>toast_message = Msg_deck_created ''[object Object]'',
        toast_class = ''notification notification-${type}'', toast_color = notification_color Note_info\<rparr>"
proof -
  have "js_trim ''Spanish'' \<noteq> []" by (simp add: js_trim_def js_whitespace_def)
  moreover have "\<forall>x \<in> set (decks init_state @ [\<lparr>deck_id = JNum 1, deck_name = ''Spanish'',
      deck_description = Some [], deck_created_at = []\<rparr>]). deck_description x \<noteq> None"
    by (simp add: init_state_def)
  ultimately show ?thesis
    using create_deck_notice_omits_name [of "init_state\<lparr>deck_name_field := ''Spanish''\<rparr>"
        "\<lparr>deck_id = JNum 1, deck_name = ''Spanish'', deck_description = Some [], deck_created_at = []\<rparr>"]
    by simp
qed

text \<open>
  C26. \<open>createDeck\<close> sends the name as typed without the white space around it, on
  both sides: a name field made of white space \<open>a\<close>, a name \<open>n\<close> that starts and ends
  with a visible character, and white space \<open>b\<close> sends exactly \<open>n\<close>, and the one
  request is the creation of that deck.
\<close>

theorem create_deck_sends_trimmed_name:
  assumes "deck_name_field s = a @ n @ b"
    and "list_all js_whitespace a" and "list_all js_whitespace b"
    and "n \<noteq> []" and "\<not> js_whitespace (hd n)" and "\<not> js_whitespace (last n)"
  shows "requests (create_deck r s) = requests s @ [api_create_deck n (js_trim (deck_description_field s))]"
proof -
  have "js_trim (deck_name_field s) = n" using assms js_trim_decomp by simp
  with assms(4) show ?thesis
    by (simp add: create_deck_def create_deck_start_def create_deck_resume_def update_decks_list_eq
        send_def split: sum.splits option.splits prod.splits)
qed

theorem create_deck_sends_trimmed_name_witness:
  "deck_name_field (init_state\<lparr>deck_name_field := [CHR 0x20, CHR 0xA0] @ ''Spanish'' @ [CHR 0x09]\<rparr>)
     = [CHR 0x20, CHR 0xA0] @ ''Spanish'' @ [CHR 0x09]
   \<and> list_all js_whitespace [CHR 0x20, CHR 0xA0] \<and> list_all js_whitespace [CHR 0x09]
   \<and> ''Spanish'' \<noteq> [] \<and> \<not> js_whitespace (hd ''Spanish'') \<and> \<not> js_whitespace (last ''Spanish'')
   \<and> requests (create_deck (Ok \<lparr>deck_id = JStr ''1'', deck_name = ''Spanish'', deck_description = Some [],
        deck_created_at = []\<rparr>) (init_state\<lparr>deck_name_field := [CHR 0x20, CHR 0xA0] @ ''Spanish'' @ [CHR 0x09]\<rparr>))
     = [api_create_deck ''Spanish'' (js_trim [])]"
  using create_deck_sends_trimmed_name [of "init_state\<lparr>deck_name_field := [CHR 0x20, CHR 0xA0] @ ''Spanish'' @ [CHR 0x09]\<rparr>"
      "[CHR 0x20, CHR 0xA0]" "''Spanish''" "[CHR 0x09]"
      "Ok \<lparr>deck_id = JStr ''1'', deck_name = ''Spanish'', deck_description = Some [], deck_created_at = []\<rparr>"]
  by (simp add: js_whitespace_def init_state_def)

end
