(* ===== verification/Fisher_Yates.thy ===== *)
theory Fisher_Yates
  imports Prelude
begin

text \<open>
  \<open>shuffleArray\<close> of \<^verbatim>\<open>src/web/js/script.js\<close> (lines 462--469): a copy of the
  array, then for \<open>i\<close> from \<open>length - 1\<close> down to \<open>1\<close> an index
  \<open>j = Math.floor(Math.random() * (i + 1))\<close> and a swap of positions \<open>i\<close> and \<open>j\<close>.
  The values of \<open>Math.random()\<close> are the stream \<open>rs\<close>, consumed one per iteration
  and read as reals in \<open>[0, 1)\<close>. The theory proves the index bound, that the result
  is a permutation of the input for every random stream, and that every permutation of
  the input is produced by some stream of admissible random values.
\<close>

section \<open>The loop\<close>

definition fy_index :: "real \<Rightarrow> nat \<Rightarrow> nat" where
  "fy_index r i = nat \<lfloor>r * real (i + 1)\<rfloor>"

fun fy_loop :: "random_source \<Rightarrow> nat \<Rightarrow> 'a list \<Rightarrow> 'a list" where
  "fy_loop rs 0 xs = xs"
| "fy_loop rs (Suc i) xs =
     (let j = fy_index (shd rs) (Suc i)
      in fy_loop (stl rs) i (xs[Suc i := xs ! j, j := xs ! Suc i]))"

text \<open>\<open>for (let i = newArray.length - 1; i > 0; i--)\<close>: on an empty array the loop
  starts at \<open>-1\<close> and does nothing, as \<open>fy_loop rs 0\<close> does.\<close>

definition shuffle_array :: "random_source \<Rightarrow> 'a list \<Rightarrow> 'a list" where
  "shuffle_array rs xs = fy_loop rs (length xs - 1) xs"

text \<open>\<open>Math.random()\<close> returns values in \<open>[0, 1)\<close>.\<close>

definition random_values :: "random_source \<Rightarrow> bool" where
  "random_values rs \<longleftrightarrow> (\<forall>r \<in> sset rs. 0 \<le> r \<and> r < 1)"

section \<open>Properties\<close>

lemma random_values_stl: "random_values rs \<Longrightarrow> random_values (stl rs)"
  by (simp add: random_values_def stl_sset)

lemma random_values_shd: "random_values rs \<Longrightarrow> 0 \<le> shd rs \<and> shd rs < 1"
  by (simp add: random_values_def shd_sset)

lemma random_values_SCons: "random_values (r ## rs) \<longleftrightarrow> 0 \<le> r \<and> r < 1 \<and> random_values rs"
  by (auto simp: random_values_def)

lemma fy_index_le:
  assumes "0 \<le> r" "r < 1"
  shows "fy_index r i \<le> i"
proof -
  have "r * real (i + 1) < real (i + 1)" using assms by simp
  then have "\<lfloor>r * real (i + 1)\<rfloor> < int (i + 1)"
    by (simp add: floor_less_iff)
  then show ?thesis by (simp add: fy_index_def)
qed

lemma fy_index_exact: "j \<le> i \<Longrightarrow> fy_index (real j / real (i + 1)) i = j"
  by (simp add: fy_index_def)

lemma mset_fy_loop:
  "random_values rs \<Longrightarrow> i < length xs \<Longrightarrow> mset (fy_loop rs i xs) = mset xs"
proof (induction rs i xs rule: fy_loop.induct)
  case (1 rs xs)
  then show ?case by simp
next
  case (2 rs i xs)
  let ?j = "fy_index (shd rs) (Suc i)"
  have "?j \<le> Suc i" using random_values_shd [OF "2.prems"(1)] fy_index_le by blast
  with "2.prems" have "mset (xs[Suc i := xs ! ?j, ?j := xs ! Suc i]) = mset xs" by simp
  moreover have "mset (fy_loop (stl rs) i (xs[Suc i := xs ! ?j, ?j := xs ! Suc i]))
      = mset (xs[Suc i := xs ! ?j, ?j := xs ! Suc i])"
    using "2.IH" [OF refl] "2.prems" random_values_stl by simp
  ultimately show ?case by (simp add: Let_def)
qed

lemma random_values_sconst: "0 \<le> r \<Longrightarrow> r < 1 \<Longrightarrow> random_values (sconst r)"
  by (simp add: random_values_def)

text \<open>
  The loop at index \<open>i\<close> leaves the suffix after \<open>i\<close> alone and can put any
  arrangement of the prefix up to \<open>i\<close> in place: choose for position \<open>i\<close> an index
  \<open>j\<close> that holds the wanted element, and the random value \<open>j / (i + 1)\<close>.
\<close>

lemma fy_loop_reaches:
  assumes "length ys = length xs" "i < length xs"
    and "drop (Suc i) xs = drop (Suc i) ys" "mset (take (Suc i) xs) = mset (take (Suc i) ys)"
  shows "\<exists>rs. random_values rs \<and> fy_loop rs i xs = ys"
  using assms
proof (induction i arbitrary: xs)
  case 0
  from "0.prems"(1,2) obtain a xs1 b ys1 where xs: "xs = a # xs1" and ys: "ys = b # ys1"
    by (metis length_greater_0_conv neq_Nil_conv)
  with "0.prems"(3,4) have "xs = ys" by simp
  then show ?case using random_values_sconst [of 0] by auto
next
  case (Suc i)
  let ?n = "Suc i"
  have "ys ! ?n \<in> set (take (Suc ?n) ys)"
    using Suc.prems(1,2) by (simp add: in_set_conv_nth) (metis lessI nth_take)
  then have "ys ! ?n \<in> set (take (Suc ?n) xs)"
    using Suc.prems(4) by (metis set_mset_mset)
  then obtain j where j: "j < Suc ?n" "xs ! j = ys ! ?n"
    using Suc.prems(2) by (auto simp: in_set_conv_nth)
  define xs' where "xs' = xs[?n := xs ! j, j := xs ! ?n]"
  have len': "length xs' = length xs" by (simp add: xs'_def)
  have at_n: "xs' ! ?n = ys ! ?n"
    using j Suc.prems(2) by (cases "j = Suc i") (simp_all add: xs'_def nth_list_update)
  have drop': "drop (Suc ?n) xs' = drop (Suc ?n) ys"
    using j Suc.prems(3) by (simp add: xs'_def drop_swap)
  have "mset (take (Suc ?n) xs') = mset (take (Suc ?n) xs)"
  proof -
    have "take (Suc ?n) xs' = (take (Suc ?n) xs)[?n := take (Suc ?n) xs ! j, j := take (Suc ?n) xs ! ?n]"
      using j(1) by (simp add: xs'_def take_swap)
    then show ?thesis using mset_swap_in_range [of ?n "take (Suc ?n) xs" j] j(1) Suc.prems(2) by simp
  qed
  with Suc.prems(4) have take': "mset (take (Suc ?n) xs') = mset (take (Suc ?n) ys)" by simp
  have "mset (take (Suc i) xs') = mset (take (Suc i) ys)"
    using mset_take_Suc_cancel [OF _ _ take' at_n] Suc.prems(1,2) len' by simp
  moreover have "drop (Suc i) xs' = drop (Suc i) ys"
    using drop_eq_Suc [OF _ _ drop' at_n] Suc.prems(1,2) len' by simp
  ultimately obtain rs where rs: "random_values rs" "fy_loop rs i xs' = ys"
    using Suc.IH [of xs'] Suc.prems(1,2) len' by auto
  let ?r = "real j / real (?n + 1)"
  have "0 \<le> ?r" "?r < 1" using j by simp_all
  with rs(1) have "random_values (?r ## rs)" by (simp add: random_values_SCons)
  moreover have "fy_loop (?r ## rs) ?n xs = ys"
  proof -
    have jr: "fy_index ?r ?n = j" using fy_index_exact [of j ?n] j(1) by simp
    have "fy_loop (?r ## rs) ?n xs = fy_loop rs i xs'"
      by (simp only: fy_loop.simps stream.sel Let_def jr xs'_def)
    with rs(2) show ?thesis by simp
  qed
  ultimately show ?case by blast
qed

lemma mset_shuffle_array: "random_values rs \<Longrightarrow> mset (shuffle_array rs xs) = mset xs"
  by (cases xs) (simp_all add: shuffle_array_def mset_fy_loop)

subsection \<open>Claims\<close>

text \<open>
  C8. Every arrangement of the input is a possible result of \<open>shuffleArray\<close>: for
  each permutation of the array there are values in \<open>[0, 1)\<close> for \<open>Math.random()\<close>
  that make the loop produce it.
\<close>

theorem shuffle_array_every_permutation:
  assumes "mset ys = mset xs"
  shows "\<exists>rs. random_values rs \<and> shuffle_array rs xs = ys"
proof (cases "xs = []")
  case True
  with assms have "ys = []" by simp
  with True show ?thesis
    using random_values_sconst [of 0] by (auto simp: shuffle_array_def)
next
  case False
  have len: "length ys = length xs" using assms by (metis size_mset)
  from False have lt: "length xs - 1 < length xs" by simp
  from False have suc: "Suc (length xs - 1) = length xs" by simp
  have d: "drop (Suc (length xs - 1)) xs = drop (Suc (length xs - 1)) ys"
    using suc len by simp
  have t: "mset (take (Suc (length xs - 1)) xs) = mset (take (Suc (length xs - 1)) ys)"
    using suc len assms by simp
  have "\<exists>rs. random_values rs \<and> fy_loop rs (length xs - 1) xs = ys"
    by (rule fy_loop_reaches [OF len lt d t])
  then show ?thesis by (simp add: shuffle_array_def)
qed

theorem shuffle_array_every_permutation_witness:
  "mset [2, 1 :: nat] = mset [1, 2] \<and> (\<exists>rs. random_values rs \<and> shuffle_array rs [1, 2 :: nat] = [2, 1])"
  using shuffle_array_every_permutation [of "[2, 1 :: nat]" "[1, 2]"] by simp

text \<open>
  C9. The index \<open>Math.floor(Math.random() * (i + 1))\<close> ranges exactly over
  \<open>0..i\<close> when the random value ranges over \<open>[0, 1)\<close>: the swap never leaves the
  unshuffled prefix, and every position of it can be chosen.
\<close>

theorem fy_index_range: "(\<lambda>r. fy_index r i) ` {r. 0 \<le> r \<and> r < 1} = {0..i}"
proof
  show "(\<lambda>r. fy_index r i) ` {r. 0 \<le> r \<and> r < 1} \<subseteq> {0..i}"
    using fy_index_le by auto
next
  show "{0..i} \<subseteq> (\<lambda>r. fy_index r i) ` {r. 0 \<le> r \<and> r < 1}"
  proof
    fix j assume "j \<in> {0..i}"
    then have j: "j \<le> i" by simp
    then have "real j / real (i + 1) \<in> {r. 0 \<le> r \<and> r < 1}" by simp
    moreover have "j = fy_index (real j / real (i + 1)) i" using j by (simp only: fy_index_exact)
    ultimately show "j \<in> (\<lambda>r. fy_index r i) ` {r. 0 \<le> r \<and> r < 1}" by (rule rev_image_eqI)
  qed
qed

end
