(* ===== verification/Review_Session.thy ===== *)
theory Review_Session
  imports Card_Handlers Fisher_Yates
begin

text \<open>
  The review mode of \<^verbatim>\<open>src/web/js/script.js\<close>: \<open>startReview\<close> (lines
  255--281), \<open>showNextReviewCard\<close> (lines 284--299), \<open>flipCard\<close> (lines
  302--305), \<open>rateCard\<close> (lines 308--318), \<open>exitReview\<close> (lines 321--329) and
  \<open>endReview\<close> (lines 332--335). \<open>exitReview\<close> starts \<open>loadCards\<close> without
  awaiting it, so every function that may end the session returns, beside the state,
  whether a card reload is in flight.
\<close>

section \<open>Due cards\<close>

text \<open>
  \<open>!card.nextReviewDate || new Date(card.nextReviewDate) <= new Date()\<close>: an
  invalid date compares false and is never due. The code evaluates \<open>new Date()\<close>
  once per card; the model reads one \<open>now\<close> for the whole filter, which differs only
  for a card that falls due while the filter runs.
\<close>

fun is_due :: "timestamp \<Rightarrow> card \<Rightarrow> bool" where
  "is_due now c =
     (case card_next_review_date c of
        No_date \<Rightarrow> True
      | At_time t \<Rightarrow> t \<le> now
      | Invalid_date \<Rightarrow> False)"

section \<open>Leaving and ending a session\<close>

definition exit_review :: "app_state \<Rightarrow> app_state \<times> bool" where
  "exit_review s =
     (let s1 = s\<lparr>review_mode_hidden := True, deck_selected_hidden := False\<rparr> in
      case current_deck_id s1 of
        None \<Rightarrow> (s1, False)
      | Some did \<Rightarrow> if jid_truthy (Some did) then (load_cards_start did s1, True) else (s1, False))"

definition end_review :: "app_state \<Rightarrow> app_state \<times> bool" where
  "end_review s = exit_review (show_notification Msg_review_finished Note_success s)"

section \<open>Showing, flipping, rating\<close>

definition show_next_review_card :: "app_state \<Rightarrow> app_state \<times> bool" where
  "show_next_review_card s =
     (if length (review_cards s) \<le> current_review_index s then end_review s
      else (let c = review_cards s ! current_review_index s in
            (s\<lparr>card_question_side := card_question c, card_answer_side := card_answer c,
               card_answer_side_hidden := True,
               review_progress := (current_review_index s + 1, length (review_cards s)),
               is_card_flipped := False\<rparr>, False)))"

definition start_review :: "timestamp \<Rightarrow> random_source \<Rightarrow> app_state \<Rightarrow> app_state \<times> bool" where
  "start_review now rs s =
     (if cards s = [] then (show_notification Msg_no_cards_to_review Note_error s, False)
      else (let due = filter (is_due now) (cards s); s1 = s\<lparr>review_cards := due\<rparr> in
            if due = [] then (show_notification Msg_all_reviewed Note_info s1, False)
            else show_next_review_card
                   (s1\<lparr>review_cards := shuffle_array rs due, current_review_index := 0,
                       is_card_flipped := False, deck_selected_hidden := True,
                       review_mode_hidden := False\<rparr>)))"

definition flip_card :: "app_state \<Rightarrow> app_state" where
  "flip_card s =
     s\<lparr>is_card_flipped := \<not> is_card_flipped s,
       card_answer_side_hidden := \<not> card_answer_side_hidden s\<rparr>"

text \<open>
  \<open>reviewCards[currentReviewIndex]\<close> is \<open>undefined\<close> past the end; reading its
  \<open>id\<close> inside the \<open>try\<close> throws a \<open>TypeError\<close>, which the \<open>catch\<close> reports.
\<close>

definition rate_card_start :: "int \<Rightarrow> app_state \<Rightarrow> app_state \<times> bool" where
  "rate_card_start quality s =
     (if current_review_index s < length (review_cards s)
      then (send (api_update_card (card_id (review_cards s ! current_review_index s)) quality) s, True)
      else (show_notification (Msg_card_update_failed Type_error) Note_error s, False))"

definition rate_card_resume :: "card response \<Rightarrow> app_state \<Rightarrow> app_state \<times> bool" where
  "rate_card_resume r s =
     (case api_result r of
        Inl e \<Rightarrow> (show_notification (Msg_card_update_failed e) Note_error s, False)
      | Inr _ \<Rightarrow> show_next_review_card (s\<lparr>current_review_index := current_review_index s + 1\<rparr>))"

section \<open>Runs with all responses arriving at once\<close>

text \<open>A reload started by \<open>exitReview\<close>, completed with the response \<open>rl\<close>.\<close>

definition finish_reload :: "timestamp \<Rightarrow> card list response \<Rightarrow> app_state \<times> bool \<Rightarrow> app_state" where
  "finish_reload now rl p = (if snd p then load_cards_resume now rl (fst p) else fst p)"

definition rate_card :: "timestamp \<Rightarrow> int \<Rightarrow> card response \<Rightarrow> card list response \<Rightarrow> app_state \<Rightarrow> app_state" where
  "rate_card now quality r rl s =
     (let (s1, go) = rate_card_start quality s in
      if go then finish_reload now rl (rate_card_resume r s1) else s1)"

section \<open>Properties\<close>

lemmas review_defs [handler_defs] =
  exit_review_def end_review_def show_next_review_card_def start_review_def flip_card_def
  rate_card_start_def rate_card_resume_def finish_reload_def rate_card_def

lemma exit_review_fields [simp]:
  "review_cards (fst (exit_review s)) = review_cards s"
  "current_review_index (fst (exit_review s)) = current_review_index s"
  "is_card_flipped (fst (exit_review s)) = is_card_flipped s"
  "card_answer_side_hidden (fst (exit_review s)) = card_answer_side_hidden s"
  "card_question_side (fst (exit_review s)) = card_question_side s"
  "card_answer_side (fst (exit_review s)) = card_answer_side s"
  "review_mode_hidden (fst (exit_review s))"
  "cards (fst (exit_review s)) = cards s"
  "current_deck_id (fst (exit_review s)) = current_deck_id s"
  by (simp_all add: exit_review_def load_cards_start_def Let_def split: option.splits)

lemma end_review_fields [simp]:
  "review_cards (fst (end_review s)) = review_cards s"
  "current_review_index (fst (end_review s)) = current_review_index s"
  "is_card_flipped (fst (end_review s)) = is_card_flipped s"
  "card_answer_side_hidden (fst (end_review s)) = card_answer_side_hidden s"
  "review_mode_hidden (fst (end_review s))"
  "cards (fst (end_review s)) = cards s"
  by (simp_all add: end_review_def)

lemma show_next_review_cards [simp]:
  "review_cards (fst (show_next_review_card s)) = review_cards s"
  "current_review_index (fst (show_next_review_card s)) = current_review_index s"
  by (simp_all add: show_next_review_card_def Let_def)

lemma show_next_in_range:
  "current_review_index s < length (review_cards s) \<Longrightarrow>
     show_next_review_card s =
       (s\<lparr>card_question_side := card_question (review_cards s ! current_review_index s),
          card_answer_side := card_answer (review_cards s ! current_review_index s),
          card_answer_side_hidden := True,
          review_progress := (current_review_index s + 1, length (review_cards s)),
          is_card_flipped := False\<rparr>, False)"
  by (simp add: show_next_review_card_def Let_def)

lemma exit_review_reload:
  "current_deck_id s = Some did \<Longrightarrow> jid_truthy (Some did) \<Longrightarrow>
     exit_review s = (send (load_cards_request did)
                        (s\<lparr>review_mode_hidden := True, deck_selected_hidden := False\<rparr>), True)"
  by (simp add: exit_review_def load_cards_start_def)

lemma length_fy_loop [simp]: "length (fy_loop rs i xs) = length xs"
  by (induction rs i xs rule: fy_loop.induct) (simp_all add: Let_def)

lemma length_shuffle_array [simp]: "length (shuffle_array rs xs) = length xs"
  by (simp add: shuffle_array_def)

lemma shuffle_array_Nil_iff [simp]: "shuffle_array rs xs = [] \<longleftrightarrow> xs = []"
  by (metis length_0_conv length_shuffle_array)

lemma start_review_started:
  assumes "filter (is_due now) (cards s) \<noteq> []"
  shows "start_review now rs s =
    show_next_review_card
      (s\<lparr>review_cards := shuffle_array rs (filter (is_due now) (cards s)), current_review_index := 0,
         is_card_flipped := False, deck_selected_hidden := True, review_mode_hidden := False\<rparr>)"
proof -
  from assms have "cards s \<noteq> []" by auto
  with assms show ?thesis by (simp add: start_review_def Let_def)
qed

subsection \<open>Claims\<close>

text \<open>
  C2. The queue \<open>startReview\<close> builds from a non-empty card list is a permutation of
  the cards that are due at the start time: the same multiset, every due card exactly
  as often as in the deck, whatever values \<open>Math.random()\<close> returns.
\<close>

theorem start_review_queue_permutation:
  assumes "cards s \<noteq> []" and "random_values rs"
  shows "mset (review_cards (fst (start_review now rs s))) = mset (filter (is_due now) (cards s))"
proof (cases "filter (is_due now) (cards s) = []")
  case True
  with assms(1) show ?thesis by (simp add: start_review_def Let_def)
next
  case False
  then show ?thesis using assms(2) by (simp add: start_review_started mset_shuffle_array)
qed

theorem start_review_queue_permutation_witness:
  "cards (init_state\<lparr>cards := [\<lparr>card_id = JNum 1, card_deck_id = JNum 7, card_question = ''hola'',
      card_answer = ''hello'', card_repetition_count = None, card_interval = None,
      card_next_review_date = No_date\<rparr>]\<rparr>) \<noteq> [] \<and> random_values (sconst 0)
   \<and> mset (review_cards (fst (start_review 0 (sconst 0) (init_state\<lparr>cards := [\<lparr>card_id = JNum 1,
       card_deck_id = JNum 7, card_question = ''hola'', card_answer = ''hello'',
       card_repetition_count = None, card_interval = None, card_next_review_date = No_date\<rparr>]\<rparr>))))
     = mset (filter (is_due 0) [\<lparr>card_id = JNum 1, card_deck_id = JNum 7, card_question = ''hola'',
       card_answer = ''hello'', card_repetition_count = None, card_interval = None,
       card_next_review_date = No_date\<rparr>])"
  using start_review_queue_permutation [of "init_state\<lparr>cards := [\<lparr>card_id = JNum 1,
      card_deck_id = JNum 7, card_question = ''hola'', card_answer = ''hello'',
      card_repetition_count = None, card_interval = None, card_next_review_date = No_date\<rparr>]\<rparr>"
      "sconst 0" 0]
  by (simp add: random_values_def)

text \<open>
  C3. \<open>startReview\<close> on a deck with no cards never enters the review session: the
  review panel stays hidden, the queue is untouched and no request is sent.
\<close>

theorem start_review_empty_deck:
  assumes "cards s = []" and "review_mode_hidden s"
  shows "review_mode_hidden (fst (start_review now rs s))
    \<and> review_cards (fst (start_review now rs s)) = review_cards s
    \<and> requests (fst (start_review now rs s)) = requests s
    \<and> toast_message (last (notifications (fst (start_review now rs s)))) = Msg_no_cards_to_review"
  using assms by (simp add: start_review_def)

theorem start_review_empty_deck_witness:
  "cards init_state = [] \<and> review_mode_hidden init_state
   \<and> review_mode_hidden (fst (start_review 0 (sconst 0) init_state))"
  using start_review_empty_deck [of init_state 0 "sconst 0"] by (simp add: init_state_def)

text \<open>
  C4. When some card is due, \<open>startReview\<close> enters the session: the review panel is
  shown and the card panel hidden, the index is 0, the question of the first queued
  card is shown with its answer hidden and unflipped, and the progress reads
  \<open>1/n\<close>; no reload is started.
\<close>

theorem start_review_enters_session:
  assumes "\<exists>c \<in> set (cards s). is_due now c"
  shows "\<not> review_mode_hidden (fst (start_review now rs s))
    \<and> deck_selected_hidden (fst (start_review now rs s))
    \<and> current_review_index (fst (start_review now rs s)) = 0
    \<and> review_cards (fst (start_review now rs s)) \<noteq> []
    \<and> card_question_side (fst (start_review now rs s))
        = card_question (hd (review_cards (fst (start_review now rs s))))
    \<and> card_answer_side_hidden (fst (start_review now rs s))
    \<and> \<not> is_card_flipped (fst (start_review now rs s))
    \<and> review_progress (fst (start_review now rs s)) = (1, length (review_cards (fst (start_review now rs s))))
    \<and> \<not> snd (start_review now rs s)"
proof -
  from assms have due: "filter (is_due now) (cards s) \<noteq> []" by (simp add: filter_empty_conv)
  then have ne: "shuffle_array rs (filter (is_due now) (cards s)) \<noteq> []" by simp
  then have "0 < length (shuffle_array rs (filter (is_due now) (cards s)))" by simp
  with due ne show ?thesis
    by (simp add: start_review_started show_next_in_range hd_conv_nth)
qed

theorem start_review_enters_session_witness:
  "(\<exists>c \<in> set [\<lparr>card_id = JNum 1, card_deck_id = JNum 7, card_question = ''hola'',
      card_answer = ''hello'', card_repetition_count = None, card_interval = None,
      card_next_review_date = At_time 5\<rparr>]. is_due 10 c)
   \<and> \<not> review_mode_hidden (fst (start_review 10 (sconst 0) (init_state\<lparr>cards :=
       [\<lparr>card_id = JNum 1, card_deck_id = JNum 7, card_question = ''hola'', card_answer = ''hello'',
         card_repetition_count = None, card_interval = None, card_next_review_date = At_time 5\<rparr>]\<rparr>)))"
  using start_review_enters_session [of "init_state\<lparr>cards := [\<lparr>card_id = JNum 1,
      card_deck_id = JNum 7, card_question = ''hola'', card_answer = ''hello'',
      card_repetition_count = None, card_interval = None, card_next_review_date = At_time 5\<rparr>]\<rparr>"
      10 "sconst 0"]
  by simp

text \<open>
  C13. The card list and the review filter agree: at the same instant, a card is due
  for review exactly when its "next review" caption reads today, yesterday or
  overdue; an unparsable date is neither due nor labelled so.
\<close>

theorem is_due_iff_label:
  "is_due now c \<longleftrightarrow>
     format_next_review_date now (card_next_review_date c) \<in> {Label_today, Label_yesterday, Label_overdue}"
proof (cases "card_next_review_date c")
  case (At_time t)
  have "t \<le> now \<longleftrightarrow> ceil_div (t - now) ms_per_day \<le> 0"
    using ceil_div_nonpos_iff [of ms_per_day "t - now"] by simp
  with At_time show ?thesis by (auto simp: Let_def)
qed simp_all

text \<open>
  C5. Grading the last card of the queue successfully ends the session: the review
  panel is hidden and the card panel shown, the page sends the review of exactly that
  card followed by the reload of the selected deck's cards, reports completion, and
  takes the reloaded cards.
\<close>

theorem rate_last_card_ends_session:
  assumes "review_cards s \<noteq> []"
    and "current_review_index s = length (review_cards s) - 1"
    and "current_deck_id s = Some did" and "jid_truthy (Some did)"
  shows "review_mode_hidden (rate_card now q (Ok c) (Ok cs) s)
    \<and> \<not> deck_selected_hidden (rate_card now q (Ok c) (Ok cs) s)
    \<and> requests (rate_card now q (Ok c) (Ok cs) s)
        = requests s @ [api_update_card (card_id (last (review_cards s))) q, load_cards_request did]
    \<and> toast_message (last (notifications (rate_card now q (Ok c) (Ok cs) s))) = Msg_review_finished
    \<and> cards (rate_card now q (Ok c) (Ok cs) s) = cs"
proof -
  let ?i = "current_review_index s"
  have lt: "?i < length (review_cards s)" using assms(1,2) by simp
  have last: "review_cards s ! ?i = last (review_cards s)"
    using assms(1,2) by (simp add: last_conv_nth)
  have end_: "\<not> Suc ?i < length (review_cards s)" using assms(2) by simp
  show ?thesis
    using lt last end_ assms(3,4)
    by (simp add: rate_card_def rate_card_start_def rate_card_resume_def finish_reload_def
        show_next_review_card_def end_review_def exit_review_reload load_cards_resume_def)
qed

theorem rate_last_card_ends_session_witness:
  "review_cards (init_state\<lparr>review_cards := [\<lparr>card_id = JNum 1, card_deck_id = JNum 7,
      card_question = ''hola'', card_answer = ''hello'', card_repetition_count = None,
      card_interval = None, card_next_review_date = No_date\<rparr>], current_deck_id := Some (JStr ''7'')\<rparr>) \<noteq> []
   \<and> jid_truthy (Some (JStr ''7''))
   \<and> review_mode_hidden (rate_card 0 5 (Ok \<lparr>card_id = JNum 1, card_deck_id = JNum 7,
      card_question = ''hola'', card_answer = ''hello'', card_repetition_count = Some 1,
      card_interval = Some 1, card_next_review_date = At_time 86400000\<rparr>) (Ok [])
      (init_state\<lparr>review_cards := [\<lparr>card_id = JNum 1, card_deck_id = JNum 7,
      card_question = ''hola'', card_answer = ''hello'', card_repetition_count = None,
      card_interval = None, card_next_review_date = No_date\<rparr>], current_deck_id := Some (JStr ''7'')\<rparr>))"
  using rate_last_card_ends_session [of "init_state\<lparr>review_cards := [\<lparr>card_id = JNum 1,
      card_deck_id = JNum 7, card_question = ''hola'', card_answer = ''hello'',
      card_repetition_count = None, card_interval = None, card_next_review_date = No_date\<rparr>],
      current_deck_id := Some (JStr ''7'')\<rparr>" "JStr ''7''" 0 5]
  by (simp add: init_state_def)

text \<open>
  C6. Grading a card that is not the last one sends the review of the card at the
  current index with the given quality, advances the index by one and shows the next
  card's question, answer hidden, unflipped, with progress \<open>(i + 2)/n\<close>; nothing
  else changes.
\<close>

theorem rate_card_advances:
  assumes "Suc (current_review_index s) < length (review_cards s)"
  shows "rate_card now q (Ok c) rl s =
    (send (api_update_card (card_id (review_cards s ! current_review_index s)) q) s)
      \<lparr>current_review_index := Suc (current_review_index s),
       card_question_side := card_question (review_cards s ! Suc (current_review_index s)),
       card_answer_side := card_answer (review_cards s ! Suc (current_review_index s)),
       card_answer_side_hidden := True,
       review_progress := (Suc (Suc (current_review_index s)), length (review_cards s)),
       is_card_flipped := False\<rparr>"
  using assms
  by (simp add: rate_card_def rate_card_start_def rate_card_resume_def finish_reload_def
      show_next_review_card_def send_def Let_def)

theorem rate_card_advances_witness:
  "Suc (current_review_index (init_state\<lparr>review_cards := [\<lparr>card_id = JNum 1, card_deck_id = JNum 7,
      card_question = ''a'', card_answer = ''b'', card_repetition_count = None,
      card_interval = None, card_next_review_date = No_date\<rparr>, \<lparr>card_id = JNum 2, card_deck_id = JNum 7,
      card_question = ''c'', card_answer = ''d'', card_repetition_count = None,
      card_interval = None, card_next_review_date = No_date\<rparr>]\<rparr>))
     < length (review_cards (init_state\<lparr>review_cards := [\<lparr>card_id = JNum 1, card_deck_id = JNum 7,
      card_question = ''a'', card_answer = ''b'', card_repetition_count = None,
      card_interval = None, card_next_review_date = No_date\<rparr>, \<lparr>card_id = JNum 2, card_deck_id = JNum 7,
      card_question = ''c'', card_answer = ''d'', card_repetition_count = None,
      card_interval = None, card_next_review_date = No_date\<rparr>]\<rparr>))
   \<and> card_question_side (rate_card 0 4 (Ok \<lparr>card_id = JNum 1, card_deck_id = JNum 7,
      card_question = ''a'', card_answer = ''b'', card_repetition_count = None,
      card_interval = None, card_next_review_date = No_date\<rparr>) (Ok [])
      (init_state\<lparr>review_cards := [\<lparr>card_id = JNum 1, card_deck_id = JNum 7,
      card_question = ''a'', card_answer = ''b'', card_repetition_count = None,
      card_interval = None, card_next_review_date = No_date\<rparr>, \<lparr>card_id = JNum 2, card_deck_id = JNum 7,
      card_question = ''c'', card_answer = ''d'', card_repetition_count = None,
      card_interval = None, card_next_review_date = No_date\<rparr>]\<rparr>)) = ''c''"
  using rate_card_advances [of "init_state\<lparr>review_cards := [\<lparr>card_id = JNum 1, card_deck_id = JNum 7,
      card_question = ''a'', card_answer = ''b'', card_repetition_count = None,
      card_interval = None, card_next_review_date = No_date\<rparr>, \<lparr>card_id = JNum 2, card_deck_id = JNum 7,
      card_question = ''c'', card_answer = ''d'', card_repetition_count = None,
      card_interval = None, card_next_review_date = No_date\<rparr>]\<rparr>" 0 4]
  by (simp add: init_state_def)

text \<open>
  C7. A grade the server rejects leaves the session where it was: the review was sent,
  an error notification carries the error, and no other part of the state changes (the
  same card stays shown; there is no retry).
\<close>

theorem rate_card_rejected:
  assumes "current_review_index s < length (review_cards s)" and "api_result r = Inl e"
  shows "rate_card now q r rl s =
    show_notification (Msg_card_update_failed e) Note_error
      (send (api_update_card (card_id (review_cards s ! current_review_index s)) q) s)"
  using assms
  by (simp add: rate_card_def rate_card_start_def rate_card_resume_def finish_reload_def)

theorem rate_card_rejected_witness:
  "current_review_index (init_state\<lparr>review_cards := [\<lparr>card_id = JNum 1, card_deck_id = JNum 7,
      card_question = ''a'', card_answer = ''b'', card_repetition_count = None,
      card_interval = None, card_next_review_date = No_date\<rparr>]\<rparr>)
     < length (review_cards (init_state\<lparr>review_cards := [\<lparr>card_id = JNum 1, card_deck_id = JNum 7,
      card_question = ''a'', card_answer = ''b'', card_repetition_count = None,
      card_interval = None, card_next_review_date = No_date\<rparr>]\<rparr>))
   \<and> api_result (Http_error ''boom'' :: card response) = Inl (Error_msg ''boom'')
   \<and> current_review_index (rate_card 0 3 (Http_error ''boom'') (Ok [])
       (init_state\<lparr>review_cards := [\<lparr>card_id = JNum 1, card_deck_id = JNum 7,
      card_question = ''a'', card_answer = ''b'', card_repetition_count = None,
      card_interval = None, card_next_review_date = No_date\<rparr>]\<rparr>)) = 0"
  using rate_card_rejected [of "init_state\<lparr>review_cards := [\<lparr>card_id = JNum 1, card_deck_id = JNum 7,
      card_question = ''a'', card_answer = ''b'', card_repetition_count = None,
      card_interval = None, card_next_review_date = No_date\<rparr>]\<rparr>" "Http_error ''boom''"
      "Error_msg ''boom''" 0 3 "Ok []"]
  by (simp add: init_state_def)

end
