(* ===== verification/Page_Events.thy ===== *)
theory Page_Events
  imports Deck_Handlers Review_Session
begin

text \<open>
  The wiring of \<^verbatim>\<open>src/web/js/script.js\<close>: \<open>DOMContentLoaded\<close> calls
  \<open>loadDecks\<close> (lines 19--23), \<open>setupEventListeners\<close> binds the buttons, the
  review card and the rating buttons (lines 27--43), and the rows of the two lists call
  \<open>selectDeck\<close>, \<open>deleteDeck\<close>, \<open>deleteCard\<close> through \<open>globalThis\<close> with the
  id string the row was rendered with (lines 114--115, 231, 494--496). An event of the
  page carries the responses of the requests it causes: this is the sequential reading
  of the program, in which every response arrives before the next user action.
  \<open>Event_Loop\<close> drops that assumption.
\<close>

section \<open>Events\<close>

datatype event =
    Page_loaded "deck list response"
  | Input_deck_name string
  | Input_deck_description string
  | Input_card_question string
  | Input_card_answer string
  | Click_create_deck "deck response"
  | Click_open_deck nat "card list response"
  | Click_delete_deck nat bool "unit response"
  | Click_create_card "card response"
  | Click_delete_card nat bool "unit response"
  | Click_start_review random_source "card list response"
  | Click_review_card
  | Click_rate int "card response" "card list response"
  | Click_exit_review "card list response"

text \<open>The \<open>k\<close>-th rendered row, if the list shows one.\<close>

fun deck_row_at :: "deck_list_view \<Rightarrow> nat \<Rightarrow> deck_row option" where
  "deck_row_at Decks_placeholder k = None"
| "deck_row_at (Deck_rows rs) k = (if k < length rs then Some (rs ! k) else None)"

fun card_row_at :: "card_list_view \<Rightarrow> nat \<Rightarrow> card_row option" where
  "card_row_at Cards_placeholder k = None"
| "card_row_at (Card_rows rs) k = (if k < length rs then Some (rs ! k) else None)"

fun handle :: "timestamp \<Rightarrow> event \<Rightarrow> app_state \<Rightarrow> app_state" where
  "handle now (Page_loaded r) s = load_decks r s"
| "handle now (Input_deck_name v) s = s\<lparr>deck_name_field := v\<rparr>"
| "handle now (Input_deck_description v) s = s\<lparr>deck_description_field := v\<rparr>"
| "handle now (Input_card_question v) s = s\<lparr>card_question_field := v\<rparr>"
| "handle now (Input_card_answer v) s = s\<lparr>card_answer_field := v\<rparr>"
| "handle now (Click_create_deck r) s = create_deck r s"
| "handle now (Click_open_deck k r) s =
     (case deck_row_at (decks_list s) k of None \<Rightarrow> s | Some row \<Rightarrow> select_deck now (dr_open_arg row) r s)"
| "handle now (Click_delete_deck k ok r) s =
     (case deck_row_at (decks_list s) k of None \<Rightarrow> s | Some row \<Rightarrow> delete_deck (dr_delete_arg row) ok r s)"
| "handle now (Click_create_card r) s = create_card now r s"
| "handle now (Click_delete_card k ok r) s =
     (case card_row_at (cards_list s) k of None \<Rightarrow> s | Some row \<Rightarrow> delete_card now (cr_delete_arg row) ok r s)"
| "handle now (Click_start_review rs rl) s = finish_reload now rl (start_review now rs s)"
| "handle now Click_review_card s = flip_card s"
| "handle now (Click_rate q r rl) s = rate_card now q r rl s"
| "handle now (Click_exit_review rl) s = finish_reload now rl (exit_review s)"

fun run :: "(timestamp \<times> event) list \<Rightarrow> app_state \<Rightarrow> app_state" where
  "run [] s = s"
| "run ((now, e) # es) s = run es (handle now e s)"

section \<open>The review invariant\<close>

text \<open>
  What the review fields keep true between events: a non-empty queue is never indexed
  past its end, a shown card is the card at the index, and the flag
  \<open>isCardFlipped\<close> agrees with the visibility of the answer side.
\<close>

definition session_inv :: "app_state \<Rightarrow> bool" where
  "session_inv s \<longleftrightarrow>
     (review_cards s \<noteq> [] \<longrightarrow> current_review_index s \<le> length (review_cards s))
   \<and> (\<not> review_mode_hidden s \<and> current_review_index s < length (review_cards s) \<longrightarrow>
        card_question_side s = card_question (review_cards s ! current_review_index s)
      \<and> card_answer_side s = card_answer (review_cards s ! current_review_index s))
   \<and> (is_card_flipped s \<longleftrightarrow> \<not> card_answer_side_hidden s)"

text \<open>The review fields of two states agree.\<close>

definition review_frame :: "app_state \<Rightarrow> app_state \<Rightarrow> bool" where
  "review_frame s t \<longleftrightarrow>
     review_cards t = review_cards s \<and> current_review_index t = current_review_index s
   \<and> is_card_flipped t = is_card_flipped s \<and> card_answer_side_hidden t = card_answer_side_hidden s
   \<and> review_mode_hidden t = review_mode_hidden s
   \<and> card_question_side t = card_question_side s \<and> card_answer_side t = card_answer_side s"

section \<open>Properties\<close>

lemma review_frame_inv: "review_frame s t \<Longrightarrow> session_inv s \<Longrightarrow> session_inv t"
  by (simp add: review_frame_def session_inv_def)

lemma load_cards_resume_frame: "review_frame s (load_cards_resume now r s)"
  by (simp add: review_frame_def load_cards_resume_def split: sum.splits)

lemma create_deck_frame: "review_frame s (create_deck r s)"
  by (simp add: review_frame_def create_deck_def create_deck_start_def create_deck_resume_def
      Let_def update_decks_list_eq split: sum.splits option.splits)

lemma load_decks_frame: "review_frame s (load_decks r s)"
  by (simp add: review_frame_def load_decks_def load_decks_start_def load_decks_resume_def
      Let_def update_decks_list_eq split: sum.splits option.splits)

lemma select_deck_frame: "review_frame s (select_deck now did r s)"
proof -
  have "review_frame s (fst (select_deck_start did s))"
    by (simp add: review_frame_def select_deck_start_def load_cards_start_def Let_def split: option.splits)
  then show ?thesis
    using load_cards_resume_frame
    by (auto simp: select_deck_def review_frame_def split: prod.splits)
qed

lemma delete_deck_frame: "review_frame s (delete_deck did ok r s)"
  by (simp add: review_frame_def delete_deck_def delete_deck_start_def delete_deck_resume_def
      Let_def update_decks_list_eq split: sum.splits option.splits)

lemma create_card_frame: "review_frame s (create_card now r s)"
  by (simp add: review_frame_def create_card_def create_card_start_def create_card_resume_def
      Let_def split: sum.splits option.splits)

lemma delete_card_frame: "review_frame s (delete_card now cid ok r s)"
  by (simp add: review_frame_def delete_card_def delete_card_start_def delete_card_resume_def
      split: sum.splits)

lemma notification_frame: "review_frame s (show_notification m ty s)"
  by (simp add: review_frame_def)

lemma finish_reload_inv: "session_inv (fst p) \<Longrightarrow> session_inv (finish_reload now rl p)"
  by (auto simp: finish_reload_def intro: review_frame_inv [OF load_cards_resume_frame])

lemma exit_review_inv: "session_inv s \<Longrightarrow> session_inv (fst (exit_review s))"
  by (simp add: session_inv_def)

lemma end_review_inv: "session_inv s \<Longrightarrow> session_inv (fst (end_review s))"
  by (simp add: session_inv_def)

lemma show_next_inv:
  assumes "current_review_index s \<le> length (review_cards s)"
    and "is_card_flipped s \<longleftrightarrow> \<not> card_answer_side_hidden s"
  shows "session_inv (fst (show_next_review_card s))"
proof (cases "current_review_index s < length (review_cards s)")
  case True
  then show ?thesis by (simp add: show_next_in_range session_inv_def)
next
  case False
  with assms show ?thesis
    by (simp add: show_next_review_card_def session_inv_def)
qed

lemma start_review_inv: "session_inv s \<Longrightarrow> session_inv (fst (start_review now rs s))"
  unfolding start_review_def Let_def
  by (auto simp: session_inv_def show_next_in_range split: if_splits)

lemma flip_card_inv: "session_inv s \<Longrightarrow> session_inv (flip_card s)"
  by (simp add: flip_card_def session_inv_def)

lemma rate_card_inv: "session_inv s \<Longrightarrow> session_inv (rate_card now q r rl s)"
proof -
  assume inv: "session_inv s"
  show ?thesis
  proof (cases "current_review_index s < length (review_cards s)")
    case False
    with inv show ?thesis by (simp add: rate_card_def rate_card_start_def session_inv_def)
  next
    case True
    let ?s1 = "send (api_update_card (card_id (review_cards s ! current_review_index s)) q) s"
    have "session_inv (fst (rate_card_resume r ?s1))"
    proof (cases "api_result r")
      case (Inl e)
      with inv show ?thesis by (simp add: rate_card_resume_def session_inv_def)
    next
      case (Inr c)
      have "session_inv (fst (show_next_review_card
          (?s1\<lparr>current_review_index := current_review_index s + 1\<rparr>)))"
        using True inv by (intro show_next_inv) (simp_all add: session_inv_def)
      with Inr show ?thesis by (simp add: rate_card_resume_def)
    qed
    with True show ?thesis by (simp add: rate_card_def rate_card_start_def finish_reload_inv)
  qed
qed

lemma input_frames:
  "review_frame s (s\<lparr>deck_name_field := v\<rparr>)"
  "review_frame s (s\<lparr>deck_description_field := v\<rparr>)"
  "review_frame s (s\<lparr>card_question_field := v\<rparr>)"
  "review_frame s (s\<lparr>card_answer_field := v\<rparr>)"
  by (simp_all add: review_frame_def)

lemma handle_inv:
  assumes that: "session_inv s"
  shows "session_inv (handle now e s)"
proof (cases e)
  case (Click_open_deck k r)
  with that show ?thesis
    by (auto split: option.splits intro: review_frame_inv [OF select_deck_frame])
next
  case (Click_delete_deck k ok r)
  with that show ?thesis
    by (auto split: option.splits intro: review_frame_inv [OF delete_deck_frame])
next
  case (Click_delete_card k ok r)
  with that show ?thesis
    by (auto split: option.splits intro: review_frame_inv [OF delete_card_frame])
next
  case (Click_start_review rs rl)
  then show ?thesis using that by (simp add: start_review_inv finish_reload_inv)
next
  case (Click_exit_review rl)
  then show ?thesis using that by (simp add: exit_review_inv finish_reload_inv)
qed (use that in \<open>simp_all add: flip_card_inv rate_card_inv review_frame_inv [OF create_deck_frame]
       review_frame_inv [OF load_decks_frame] review_frame_inv [OF create_card_frame]
       review_frame_inv [OF input_frames(1)] review_frame_inv [OF input_frames(2)]
       review_frame_inv [OF input_frames(3)] review_frame_inv [OF input_frames(4)]\<close>)

lemma init_state_inv: "session_inv init_state"
  by (simp add: init_state_def session_inv_def)

lemma run_inv: "session_inv s \<Longrightarrow> session_inv (run es s)"
  by (induction es arbitrary: s) (auto simp: handle_inv)

subsection \<open>Claims\<close>

text \<open>
  C1. In every run of the page in which each action's responses arrive before the next
  action, starting from the loaded page, a non-empty review queue is never indexed past
  its end, the review card shows the question and answer of the card at the index, and
  the flag \<open>isCardFlipped\<close> agrees with the visibility of the answer.
\<close>

theorem page_run_session_inv: "session_inv (run es init_state)"
  by (rule run_inv [OF init_state_inv])

end
