(* ===== verification/Event_Loop.thy ===== *)
theory Event_Loop
  imports Page_Events
begin

text \<open>
  The page as JavaScript runs it: a handler runs synchronously up to its first
  \<open>await\<close> and leaves a continuation waiting for its response; the user may act again
  before the response arrives, and responses arrive in any order. A state of the loop is
  the page state with the list of continuations in flight; a step either runs a user
  action up to its \<open>await\<close>s or delivers a response to one waiting continuation. The
  handlers are the \<open>..._start\<close>/\<open>..._resume\<close> halves of \<open>Card_Handlers\<close>,
  \<open>Deck_Handlers\<close> and \<open>Review_Session\<close>.
\<close>

section \<open>Continuations and responses\<close>

text \<open>The continuations an \<open>await\<close> of the script leaves behind, with what their closures
  captured: the deck id of \<open>loadCards(deckId)\<close> and \<open>deleteDeck(deckId)\<close>, the card id
  of \<open>deleteCard(cardId)\<close>, the card \<open>rateCard\<close> read before its \<open>await\<close>.\<close>

datatype pending =
    Await_load_decks
  | Await_create_deck
  | Await_delete_deck jid
  | Await_load_cards jid
  | Await_create_card
  | Await_delete_card jid
  | Await_rate_card jid

datatype reply =
    Reply_decks "deck list response"
  | Reply_deck "deck response"
  | Reply_unit "unit response"
  | Reply_cards "card list response"
  | Reply_card "card response"

text \<open>User actions: the events of \<open>Page_Events\<close> without the responses.\<close>

datatype action =
    Act_page_loaded
  | Act_input_deck_name string
  | Act_input_deck_description string
  | Act_input_card_question string
  | Act_input_card_answer string
  | Act_create_deck
  | Act_open_deck nat
  | Act_delete_deck nat bool
  | Act_create_card
  | Act_delete_card nat bool
  | Act_start_review random_source
  | Act_review_card
  | Act_rate int
  | Act_exit_review

definition awaiting :: "pending \<Rightarrow> app_state \<times> bool \<Rightarrow> app_state \<times> pending list" where
  "awaiting p r = (fst r, if snd r then [p] else [])"

text \<open>\<open>exitReview\<close> calls \<open>loadCards(currentDeckId)\<close>: the continuation waits for the
  cards of the deck selected when it ran.\<close>

definition reloading :: "app_state \<times> bool \<Rightarrow> app_state \<times> pending list" where
  "reloading r =
     (fst r, if snd r then (case current_deck_id (fst r) of None \<Rightarrow> [] | Some did \<Rightarrow> [Await_load_cards did])
             else [])"

text \<open>The synchronous part of an action: the new state and the continuations it leaves.\<close>

fun dispatch :: "timestamp \<Rightarrow> action \<Rightarrow> app_state \<Rightarrow> app_state \<times> pending list" where
  "dispatch now Act_page_loaded s = (load_decks_start s, [Await_load_decks])"
| "dispatch now (Act_input_deck_name v) s = (s\<lparr>deck_name_field := v\<rparr>, [])"
| "dispatch now (Act_input_deck_description v) s = (s\<lparr>deck_description_field := v\<rparr>, [])"
| "dispatch now (Act_input_card_question v) s = (s\<lparr>card_question_field := v\<rparr>, [])"
| "dispatch now (Act_input_card_answer v) s = (s\<lparr>card_answer_field := v\<rparr>, [])"
| "dispatch now Act_create_deck s = awaiting Await_create_deck (create_deck_start s)"
| "dispatch now (Act_open_deck k) s =
     (case deck_row_at (decks_list s) k of
        None \<Rightarrow> (s, [])
      | Some row \<Rightarrow> awaiting (Await_load_cards (dr_open_arg row)) (select_deck_start (dr_open_arg row) s))"
| "dispatch now (Act_delete_deck k ok) s =
     (case deck_row_at (decks_list s) k of
        None \<Rightarrow> (s, [])
      | Some row \<Rightarrow> awaiting (Await_delete_deck (dr_delete_arg row)) (delete_deck_start (dr_delete_arg row) ok s))"
| "dispatch now Act_create_card s = awaiting Await_create_card (create_card_start s)"
| "dispatch now (Act_delete_card k ok) s =
     (case card_row_at (cards_list s) k of
        None \<Rightarrow> (s, [])
      | Some row \<Rightarrow> awaiting (Await_delete_card (cr_delete_arg row)) (delete_card_start (cr_delete_arg row) ok s))"
| "dispatch now (Act_start_review rs) s = reloading (start_review now rs s)"
| "dispatch now Act_review_card s = (flip_card s, [])"
| "dispatch now (Act_rate q) s = awaiting (Await_rate_card (card_id (review_cards s ! current_review_index s))) (rate_card_start q s)"
| "dispatch now Act_exit_review s = reloading (exit_review s)"

text \<open>A response delivered to a continuation; \<open>None\<close> when the response is not of the
  kind the continuation waits for.\<close>

fun resume :: "timestamp \<Rightarrow> pending \<Rightarrow> reply \<Rightarrow> app_state \<Rightarrow> (app_state \<times> pending list) option" where
  "resume now Await_load_decks (Reply_decks r) s = Some (load_decks_resume r s, [])"
| "resume now Await_create_deck (Reply_deck r) s = Some (create_deck_resume r s, [])"
| "resume now (Await_delete_deck did) (Reply_unit r) s = Some (delete_deck_resume did r s, [])"
| "resume now (Await_load_cards did) (Reply_cards r) s = Some (load_cards_resume now r s, [])"
| "resume now Await_create_card (Reply_card r) s = Some (create_card_resume now r s, [])"
| "resume now (Await_delete_card cid) (Reply_unit r) s = Some (delete_card_resume now cid r s, [])"
| "resume now (Await_rate_card cid) (Reply_card r) s = Some (reloading (rate_card_resume r s))"
| "resume now p rp s = None"

section \<open>Steps and reachable states\<close>

text \<open>
  A step runs an action to its \<open>await\<close>s, or delivers a response to the \<open>i\<close>-th
  continuation in flight, in any order.
\<close>

inductive loop_step :: "app_state \<times> pending list \<Rightarrow> app_state \<times> pending list \<Rightarrow> bool" where
  act: "dispatch now a s = (s', new) \<Longrightarrow> loop_step (s, ps) (s', ps @ new)"
| deliver: "i < length ps \<Longrightarrow> resume now (ps ! i) rp s = Some (s', new) \<Longrightarrow>
     loop_step (s, ps) (s', take i ps @ drop (Suc i) ps @ new)"

inductive loop_reach :: "app_state \<times> pending list \<Rightarrow> bool" where
  init: "loop_reach (init_state, [])"
| step: "loop_reach c \<Longrightarrow> loop_step c c' \<Longrightarrow> loop_reach c'"

inductive_cases loop_step_cases: "loop_step (s, ps) c'"

section \<open>Properties\<close>

lemma fst_reloading: "fst (reloading r) = fst r"
  by (simp add: reloading_def)

lemma loop_deliver_last:
  "resume now p rp s = Some (s', new) \<Longrightarrow> loop_step (s, ps @ [p]) (s', ps @ new)"
  using loop_step.deliver [of "length ps" "ps @ [p]" now rp s s' new] by simp

lemma loop_deliver_first:
  "resume now p rp s = Some (s', new) \<Longrightarrow> loop_step (s, p # ps) (s', ps @ new)"
  using loop_step.deliver [of 0 "p # ps" now rp s s' new] by simp

lemma act_step: "loop_step (s, ps) (fst (dispatch now a s), ps @ snd (dispatch now a s))"
  using loop_step.act [of now a s "fst (dispatch now a s)" "snd (dispatch now a s)" ps] by simp

lemma act_path: "dispatch now a s = (t, []) \<Longrightarrow> loop_step\<^sup>*\<^sup>* (s, ps) (t, ps)"
  using loop_step.act [of now a s t "[]" ps] by simp

lemma awaiting_path:
  assumes "dispatch now a s = awaiting p r"
    and "snd r \<Longrightarrow> resume now p rp (fst r) = Some (t, [])"
  shows "loop_step\<^sup>*\<^sup>* (s, ps) (if snd r then t else fst r, ps)"
proof (cases "snd r")
  case True
  have "loop_step (s, ps) (fst r, ps @ [p])"
    using loop_step.act [of now a s] assms(1) True by (simp add: awaiting_def)
  moreover have "loop_step (fst r, ps @ [p]) (t, ps)"
    using loop_deliver_last [OF assms(2) [OF True]] by simp
  ultimately show ?thesis using True by simp
next
  case False
  then show ?thesis using act_path [of now a s "fst r"] assms(1) by (simp add: awaiting_def)
qed

lemma reloading_step:
  assumes "snd r \<longrightarrow> current_deck_id (fst r) \<noteq> None"
  shows "loop_step\<^sup>*\<^sup>* (fst r, ps @ snd (reloading r)) (finish_reload now rl r, ps)"
proof (cases "snd r")
  case True
  then obtain did where "current_deck_id (fst r) = Some did" using assms by auto
  with True show ?thesis
    using loop_deliver_last [of now "Await_load_cards did" "Reply_cards rl" "fst r"]
    by (auto simp: reloading_def finish_reload_def)
next
  case False
  then show ?thesis by (simp add: reloading_def finish_reload_def)
qed

lemma reloading_path:
  assumes "dispatch now a s = reloading r" and "snd r \<longrightarrow> current_deck_id (fst r) \<noteq> None"
  shows "loop_step\<^sup>*\<^sup>* (s, ps) (finish_reload now rl r, ps)"
proof -
  have "loop_step (s, ps) (fst r, ps @ snd (reloading r))"
    using loop_step.act [of now a s] assms(1) by (simp add: reloading_def)
  then show ?thesis using reloading_step [OF assms(2)] by (rule converse_rtranclp_into_rtranclp)
qed

lemma exit_review_deck: "snd (exit_review s) \<longrightarrow> current_deck_id (fst (exit_review s)) \<noteq> None"
  by (simp add: exit_review_def Let_def load_cards_start_def send_def split: option.splits)

lemma end_review_deck: "snd (end_review s) \<longrightarrow> current_deck_id (fst (end_review s)) \<noteq> None"
  using exit_review_deck [of "show_notification Msg_review_finished Note_success s"]
  by (simp add: end_review_def)

lemma show_next_deck:
  "snd (show_next_review_card s) \<longrightarrow> current_deck_id (fst (show_next_review_card s)) \<noteq> None"
  using end_review_deck by (simp add: show_next_review_card_def Let_def)

lemma start_review_deck: "snd (start_review now rs s) \<longrightarrow> current_deck_id (fst (start_review now rs s)) \<noteq> None"
  using show_next_deck by (simp add: start_review_def Let_def)

lemma rate_card_resume_deck:
  "snd (rate_card_resume r s) \<longrightarrow> current_deck_id (fst (rate_card_resume r s)) \<noteq> None"
  using show_next_deck by (simp add: rate_card_resume_def split: sum.splits)

lemma row_path:
  assumes "\<And>row. x = Some row \<Longrightarrow> loop_step\<^sup>*\<^sup>* (s, ps) (f row, ps)"
  shows "loop_step\<^sup>*\<^sup>* (s, ps) (case x of None \<Rightarrow> s | Some row \<Rightarrow> f row, ps)"
  using assms by (cases x) simp_all

lemma start_resume_path:
  assumes "dispatch now a s = awaiting p r"
    and "snd r \<Longrightarrow> resume now p rp (fst r) = Some (t (fst r), [])"
  shows "loop_step\<^sup>*\<^sup>* (s, ps) (let (s1, go) = r in if go then t s1 else s1, ps)"
  using awaiting_path [OF assms] by (simp add: split_beta)

lemma open_deck_path:
  "deck_row_at (decks_list s) k = Some row \<Longrightarrow>
     loop_step\<^sup>*\<^sup>* (s, ps) (select_deck now (dr_open_arg row) r s, ps)"
  using start_resume_path [of now "Act_open_deck k" s "Await_load_cards (dr_open_arg row)"
      "select_deck_start (dr_open_arg row) s" "Reply_cards r" "load_cards_resume now r"]
  by (simp add: select_deck_def)

lemma delete_deck_path:
  "deck_row_at (decks_list s) k = Some row \<Longrightarrow>
     loop_step\<^sup>*\<^sup>* (s, ps) (delete_deck (dr_delete_arg row) ok r s, ps)"
  using start_resume_path [of now "Act_delete_deck k ok" s "Await_delete_deck (dr_delete_arg row)"
      "delete_deck_start (dr_delete_arg row) ok s" "Reply_unit r" "delete_deck_resume (dr_delete_arg row) r"]
  by (simp add: delete_deck_def)

lemma delete_card_path:
  "card_row_at (cards_list s) k = Some row \<Longrightarrow>
     loop_step\<^sup>*\<^sup>* (s, ps) (delete_card now (cr_delete_arg row) ok r s, ps)"
  using start_resume_path [of now "Act_delete_card k ok" s "Await_delete_card (cr_delete_arg row)"
      "delete_card_start (cr_delete_arg row) ok s" "Reply_unit r" "delete_card_resume now (cr_delete_arg row) r"]
  by (simp add: delete_card_def)

lemma rate_card_path: "loop_step\<^sup>*\<^sup>* (s, ps) (rate_card now q r rl s, ps)"
proof (cases "snd (rate_card_start q s)")
  case True
  let ?cid = "card_id (review_cards s ! current_review_index s)"
  let ?r1 = "rate_card_resume r (fst (rate_card_start q s))"
  have "loop_step (s, ps) (fst (rate_card_start q s), ps @ [Await_rate_card ?cid])"
    using loop_step.act [of now "Act_rate q" s] True by (simp add: awaiting_def)
  moreover have "loop_step (fst (rate_card_start q s), ps @ [Await_rate_card ?cid]) (fst ?r1, ps @ snd (reloading ?r1))"
    using loop_deliver_last [of now "Await_rate_card ?cid" "Reply_card r"] by (simp add: reloading_def)
  moreover have "loop_step\<^sup>*\<^sup>* (fst ?r1, ps @ snd (reloading ?r1)) (finish_reload now rl ?r1, ps)"
    using reloading_step rate_card_resume_deck by blast
  ultimately show ?thesis using True by (simp add: rate_card_def split_beta)
next
  case False
  then show ?thesis
    using act_path [of now "Act_rate q" s "fst (rate_card_start q s)" ps]
    by (simp add: rate_card_def split_beta awaiting_def)
qed

lemma handle_loop_path: "loop_step\<^sup>*\<^sup>* (s, ps) (handle now e s, ps)"
proof (cases e)
  case (Page_loaded r)
  have "loop_step (s, ps) (load_decks_start s, ps @ [Await_load_decks])"
    using loop_step.act [of now Act_page_loaded s] by simp
  moreover have "loop_step (load_decks_start s, ps @ [Await_load_decks]) (load_decks r s, ps)"
    using loop_deliver_last [of now Await_load_decks "Reply_decks r"] by (simp add: load_decks_def)
  ultimately show ?thesis using Page_loaded by simp
next
  case (Click_create_deck r)
  then show ?thesis
    using start_resume_path [of now Act_create_deck s Await_create_deck "create_deck_start s" "Reply_deck r" "create_deck_resume r"]
    by (simp add: create_deck_def)
next
  case (Click_open_deck k r)
  then show ?thesis
    by (auto intro: row_path open_deck_path)
next
  case (Click_delete_deck k ok r)
  then show ?thesis
    by (auto intro: row_path delete_deck_path)
next
  case (Click_create_card r)
  then show ?thesis
    using start_resume_path [of now Act_create_card s Await_create_card "create_card_start s" "Reply_card r" "create_card_resume now r"]
    by (simp add: create_card_def)
next
  case (Click_delete_card k ok r)
  then show ?thesis
    by (auto intro: row_path delete_card_path)
next
  case (Click_start_review rs rl)
  then show ?thesis
    using reloading_path [of now "Act_start_review rs" s] start_review_deck by simp
next
  case (Click_exit_review rl)
  then show ?thesis
    using reloading_path [of now Act_exit_review s] exit_review_deck by simp
next
  case (Click_rate q r rl)
  then show ?thesis using rate_card_path by simp
qed (simp_all add: act_path [OF dispatch.simps(2)] act_path [OF dispatch.simps(3)]
    act_path [OF dispatch.simps(4)] act_path [OF dispatch.simps(5)] act_path [OF dispatch.simps(12)])

lemma run_loop_path: "loop_step\<^sup>*\<^sup>* (s, ps) (run es s, ps)"
proof (induction es arbitrary: s)
  case (Cons x es)
  obtain now e where "x = (now, e)" by fastforce
  then show ?case using rtranclp_trans [OF handle_loop_path Cons.IH] by simp
qed simp

lemma loop_reach_path: "loop_step\<^sup>*\<^sup>* c c' \<Longrightarrow> loop_reach c \<Longrightarrow> loop_reach c'"
  by (induction rule: rtranclp_induct) (auto intro: loop_reach.step)

subsection \<open>The sequential model is one schedule of the loop\<close>

text \<open>
  Every run of the sequential model \<open>Page_Events.run\<close>, in which each action's
  responses arrive before the next action, is a run of the event loop.
\<close>

lemma sequential_run_reachable: "loop_reach (run es init_state, [])"
  using loop_reach_path [OF run_loop_path loop_reach.init] .

subsection \<open>Grading while a grade is in flight\<close>

lemma rate_click_step:
  assumes "current_review_index s < length (review_cards s)"
  shows "loop_step (s, ps)
           (send (api_update_card (card_id (review_cards s ! current_review_index s)) q) s,
            ps @ [Await_rate_card (card_id (review_cards s ! current_review_index s))])"
  using loop_step.act [of now "Act_rate q" s] assms by (simp add: awaiting_def rate_card_start_def)

lemma rate_reply_step:
  "loop_step (s, Await_rate_card cid # ps)
     (fst (show_next_review_card (s\<lparr>current_review_index := Suc (current_review_index s)\<rparr>)),
      ps @ snd (reloading (show_next_review_card (s\<lparr>current_review_index := Suc (current_review_index s)\<rparr>))))"
  using loop_deliver_first [of now "Await_rate_card cid" "Reply_card (Ok c)" s] fst_reloading
  by (simp add: rate_card_resume_def) (metis prod.collapse)

lemma exit_review_requests:
  "requests (fst (exit_review s)) = requests s @
     (case current_deck_id s of None \<Rightarrow> [] | Some did \<Rightarrow> if jid_truthy (Some did) then [load_cards_request did] else [])"
  by (simp add: exit_review_def Let_def load_cards_start_def send_def split: option.splits)

lemma load_cards_request_GET: "req_method (load_cards_request did) = GET"
  by (simp add: load_cards_request_def)

text \<open>
  C28. \<open>rateCard\<close> reads the card at \<open>currentReviewIndex\<close> and advances the index
  only when the grading request returns. Two clicks on a rating button before the first
  response arrives grade the first card twice; the two responses then advance past the
  second card, which ends the session without the second card ever being graded.
\<close>

theorem double_rate_grades_first_twice:
  assumes "review_cards s = [c1, c2]" and "current_review_index s = 0"
  shows "\<exists>s' ps'. loop_step\<^sup>*\<^sup>* (s, []) (s', ps')
     \<and> filter (\<lambda>x. req_method x = POST) (drop (length (requests s)) (requests s'))
         = [api_update_card (card_id c1) q, api_update_card (card_id c1) q]
     \<and> review_mode_hidden s'"
proof -
  let ?u = "api_update_card (card_id c1) q" and ?a = "Await_rate_card (card_id c1)"
  define s2 where "s2 = send ?u (send ?u s)"
  have "loop_step (s, []) (send ?u s, [?a])"
    using rate_click_step [of s "[]" q] assms by simp
  moreover have "loop_step (send ?u s, [?a]) (s2, [?a, ?a])"
    using rate_click_step [of "send ?u s" "[?a]" q] assms by (simp add: s2_def)
  moreover define s3 where "s3 = fst (show_next_review_card (s2\<lparr>current_review_index := 1\<rparr>))"
  have "loop_step (s2, [?a, ?a]) (s3, [?a])"
    using rate_reply_step [of s2 "card_id c1" "[?a]"] assms
    by (simp add: s2_def s3_def show_next_in_range reloading_def)
  moreover define r4 where "r4 = show_next_review_card (s3\<lparr>current_review_index := 2\<rparr>)"
  have "loop_step (s3, [?a]) (fst r4, snd (reloading r4))"
    using rate_reply_step [of s3 "card_id c1" "[]"] assms
    by (simp add: s2_def s3_def r4_def show_next_in_range numeral_2_eq_2)
  moreover have "requests s3 = requests s @ [?u, ?u]"
    using assms by (simp add: s2_def s3_def show_next_in_range)
  moreover have "fst r4 = fst (end_review (s3\<lparr>current_review_index := 2\<rparr>))"
    using assms by (simp add: r4_def s2_def s3_def show_next_in_range show_next_review_card_def)
  ultimately show ?thesis
    by (intro exI [of _ "fst r4"] exI [of _ "snd (reloading r4)"])
       (auto simp: end_review_def exit_review_requests load_cards_request_GET api_update_card_def
         split: option.splits)
qed

lemma rate_reply_index:
  "current_review_index (fst (show_next_review_card (s\<lparr>current_review_index := Suc (current_review_index s)\<rparr>)))
     = Suc (current_review_index s)
   \<and> review_cards (fst (show_next_review_card (s\<lparr>current_review_index := Suc (current_review_index s)\<rparr>)))
     = review_cards s"
  by simp

lemma triple_rate_path:
  assumes "review_cards s = [c1, c2]" and "current_review_index s = 0"
  shows "\<exists>s' ps'. loop_step\<^sup>*\<^sup>* (s, []) (s', ps') \<and> review_cards s' = [c1, c2] \<and> current_review_index s' = 3"
proof -
  let ?u = "api_update_card (card_id c1) q" and ?a = "Await_rate_card (card_id c1)"
  define s3 where "s3 = send ?u (send ?u (send ?u s))"
  have "loop_step\<^sup>*\<^sup>* (s, []) (s3, [?a, ?a, ?a])"
    using rate_click_step [of s "[]" q] rate_click_step [of "send ?u s" "[?a]" q]
      rate_click_step [of "send ?u (send ?u s)" "[?a, ?a]" q] assms
    by (simp add: s3_def)
  moreover obtain t1 p1 where "loop_step (s3, [?a, ?a, ?a]) (t1, [?a, ?a] @ p1)"
      and t1: "review_cards t1 = [c1, c2]" "current_review_index t1 = 1"
    using rate_reply_step [of s3 "card_id c1" "[?a, ?a]"] rate_reply_index [of s3] assms by (simp add: s3_def)
  moreover obtain t2 p2 where "loop_step (t1, [?a, ?a] @ p1) (t2, [?a] @ p1 @ p2)"
      and t2: "review_cards t2 = [c1, c2]" "current_review_index t2 = 2"
    using rate_reply_step [of t1 "card_id c1" "[?a] @ p1"] rate_reply_index [of t1] t1 by simp
  moreover obtain t3 p3 where "loop_step (t2, [?a] @ p1 @ p2) (t3, p1 @ p2 @ p3)"
      and t3: "review_cards t3 = [c1, c2]" "current_review_index t3 = 3"
    using rate_reply_step [of t2 "card_id c1" "p1 @ p2"] rate_reply_index [of t2] t2 by simp
  ultimately show ?thesis by (meson rtranclp.rtrancl_into_rtrancl)
qed

lemma two_card_session_reachable:
  "\<exists>s. loop_step\<^sup>*\<^sup>* (init_state, []) (s, []) \<and> length (review_cards s) = 2 \<and> current_review_index s = 0"
proof -
  define dk where "dk = \<lparr>deck_id = JStr ''d'', deck_name = ''Spanish'', deck_description = Some [],
    deck_created_at = []\<rparr>"
  define c1 where "c1 = \<lparr>card_id = JStr ''1'', card_deck_id = JStr ''d'', card_question = ''hola'',
    card_answer = ''hello'', card_repetition_count = None, card_interval = None, card_next_review_date = No_date\<rparr>"
  define c2 where "c2 = \<lparr>card_id = JStr ''2'', card_deck_id = JStr ''d'', card_question = ''adios'',
    card_answer = ''bye'', card_repetition_count = None, card_interval = None, card_next_review_date = No_date\<rparr>"
  define sB where "sB = load_decks_resume (Ok [dk]) (load_decks_start init_state)"
  have "loop_step (init_state, []) (load_decks_start init_state, [Await_load_decks])"
    using loop_step.act [of 0 Act_page_loaded init_state "load_decks_start init_state" "[Await_load_decks]" "[]"]
    by simp
  moreover have "loop_step (load_decks_start init_state, [Await_load_decks]) (sB, [])"
    using loop_deliver_first [of 0 Await_load_decks "Reply_decks (Ok [dk])"] by (simp add: sB_def)
  moreover have decks_B: "decks sB = [dk]"
    by (simp add: sB_def load_decks_resume_def load_decks_start_def update_decks_list_eq dk_def
        render_decks_def render_deck_row_def split: prod.splits)
  moreover have rows_B: "decks_list sB = Deck_rows [\<lparr>dr_name = escape_html ''Spanish'', dr_open_arg = JStr ''d'',
      dr_delete_arg = JStr ''d'', dr_description = escape_html [], dr_created = [],
      dr_card_count = get_deck_card_count [] (JStr ''d'')\<rparr>]"
    by (simp add: sB_def load_decks_resume_def load_decks_start_def update_decks_list_def dk_def
        render_decks_def render_deck_row_def onclick_arg_def init_state_def send_def)
  moreover define sC where "sC = fst (select_deck_start (JStr ''d'') sB)"
  have "loop_step (sB, []) (sC, [Await_load_cards (JStr ''d'')])"
    using loop_step.act [of 0 "Act_open_deck 0" sB sC "[Await_load_cards (JStr ''d'')]" "[]"] rows_B decks_B
    by (simp add: sC_def awaiting_def select_deck_start_def dk_def)
  moreover define sD where "sD = load_cards_resume 0 (Ok [c1, c2]) sC"
  have "loop_step (sC, [Await_load_cards (JStr ''d'')]) (sD, [])"
    using loop_deliver_first [of 0 "Await_load_cards (JStr ''d'')" "Reply_cards (Ok [c1, c2])" sC sD "[]" "[]"]
    by (simp add: sD_def)
  moreover have cards_D: "cards sD = [c1, c2]"
    by (simp add: sD_def load_cards_resume_def update_cards_list_def)
  moreover define sE where "sE = fst (start_review 0 (sconst 0) sD)"
  have "loop_step (sD, []) (sE, [])"
    using loop_step.act [of 0 "Act_start_review (sconst 0)" sD sE "[]" "[]"] cards_D
    by (simp add: sE_def reloading_def start_review_started c1_def c2_def show_next_in_range)
  moreover have "length (review_cards sE) = 2" "current_review_index sE = 0"
    using cards_D by (simp_all add: sE_def start_review_started c1_def c2_def)
  ultimately have "loop_step\<^sup>*\<^sup>* (init_state, []) (sE, [])"
    and "length (review_cards sE) = 2" and "current_review_index sE = 0"
    by (meson rtranclp.rtrancl_into_rtrancl rtranclp.rtrancl_refl)+
  then show ?thesis by blast
qed

text \<open>
  C29. The review invariant of C1 does not hold for the page as it runs: from the loaded
  page, opening a deck, starting a review of two cards and clicking a rating button three
  times before the responses arrive reaches a state whose non-empty queue is indexed past
  its end.
\<close>

theorem loop_breaks_session_inv: "\<exists>c. loop_reach c \<and> \<not> session_inv (fst c)"
proof -
  obtain sE where to_session: "loop_step\<^sup>*\<^sup>* (init_state, []) (sE, [])"
    and len: "length (review_cards sE) = 2" and idx: "current_review_index sE = 0"
    using two_card_session_reachable by blast
  obtain x y where "review_cards sE = [x, y]"
    using len by (metis length_0_conv length_Suc_conv numeral_2_eq_2)
  then obtain s' ps' where path: "loop_step\<^sup>*\<^sup>* (sE, []) (s', ps')"
    and s': "review_cards s' = [x, y]" "current_review_index s' = 3"
    using triple_rate_path idx by blast
  have "loop_reach (s', ps')"
    using loop_reach_path [OF rtranclp_trans [OF to_session path] loop_reach.init] .
  moreover have "\<not> session_inv s'"
    using s' by (simp add: session_inv_def)
  ultimately show ?thesis by auto
qed

subsection \<open>Responses that arrive late\<close>

lemma open_deck_step:
  assumes "deck_row_at (decks_list s) k = Some row" and "find (\<lambda>d. deck_id d = dr_open_arg row) (decks s) = Some d"
  shows "loop_step (s, ps)
           (load_cards_start (dr_open_arg row) (s\<lparr>current_deck_id := Some (dr_open_arg row),
               selected_deck_name := deck_name d, no_deck_selected_hidden := True, deck_selected_hidden := False\<rparr>),
            ps @ [Await_load_cards (dr_open_arg row)])"
  using loop_step.act [of now "Act_open_deck k" s] assms by (simp add: awaiting_def select_deck_start_def)

text \<open>
  C30. Opening deck A and then deck B before A's cards arrive: when B's response comes
  first, A's late response replaces the card list, and the page shows deck B's name and
  id with deck A's cards. \<open>loadCards\<close> does not check that its deck is still
  \<open>currentDeckId\<close>.
\<close>

theorem stale_cards_overwrite_selection:
  assumes "deck_row_at (decks_list s) ka = Some ra" and "deck_row_at (decks_list s) kb = Some rb"
    and "find (\<lambda>d. deck_id d = dr_open_arg ra) (decks s) = Some da"
    and "find (\<lambda>d. deck_id d = dr_open_arg rb) (decks s) = Some db"
  shows "\<exists>t t' s'. loop_step\<^sup>*\<^sup>* (s, []) (t, [Await_load_cards (dr_open_arg ra), Await_load_cards (dr_open_arg rb)])
     \<and> resume now (Await_load_cards (dr_open_arg rb)) (Reply_cards (Ok csb)) t = Some (t', [])
     \<and> resume now (Await_load_cards (dr_open_arg ra)) (Reply_cards (Ok csa)) t' = Some (s', [])
     \<and> current_deck_id s' = Some (dr_open_arg rb) \<and> selected_deck_name s' = deck_name db \<and> cards s' = csa"
proof -
  define t1 where "t1 = load_cards_start (dr_open_arg ra) (s\<lparr>current_deck_id := Some (dr_open_arg ra),
      selected_deck_name := deck_name da, no_deck_selected_hidden := True, deck_selected_hidden := False\<rparr>)"
  define t where "t = load_cards_start (dr_open_arg rb) (t1\<lparr>current_deck_id := Some (dr_open_arg rb),
      selected_deck_name := deck_name db, no_deck_selected_hidden := True, deck_selected_hidden := False\<rparr>)"
  have st1: "loop_step (s, []) (t1, [Await_load_cards (dr_open_arg ra)])"
    using open_deck_step [OF assms(1,3), of "[]"] by (simp add: t1_def)
  have st2: "loop_step (t1, [Await_load_cards (dr_open_arg ra)])
      (t, [Await_load_cards (dr_open_arg ra), Await_load_cards (dr_open_arg rb)])"
    using open_deck_step [of t1 kb rb db "[Await_load_cards (dr_open_arg ra)]"] assms(2,4)
    by (simp add: t1_def t_def load_cards_start_def send_def)
  have "current_deck_id t = Some (dr_open_arg rb)" "selected_deck_name t = deck_name db"
    by (simp_all add: t_def load_cards_start_def send_def)
  moreover have "loop_step\<^sup>*\<^sup>* (s, []) (t, [Await_load_cards (dr_open_arg ra), Await_load_cards (dr_open_arg rb)])"
    using st1 st2 by (meson rtranclp.rtrancl_into_rtrancl r_into_rtranclp)
  ultimately show ?thesis
    by (auto simp: load_cards_resume_def update_cards_list_def)
qed

lemma exit_review_dispatch: "loop_step (s, ps) (fst (exit_review s), ps @ snd (reloading (exit_review s)))"
  using act_step [of s ps now Act_exit_review] by (simp add: fst_reloading)

lemma start_review_step:
  assumes "2 \<le> length (filter (is_due now) (cards s))"
  shows "loop_step (s, ps)
    (s\<lparr>review_cards := shuffle_array rs (filter (is_due now) (cards s)), current_review_index := 0,
        is_card_flipped := False, deck_selected_hidden := True, review_mode_hidden := False,
        card_question_side := card_question (shuffle_array rs (filter (is_due now) (cards s)) ! 0),
        card_answer_side := card_answer (shuffle_array rs (filter (is_due now) (cards s)) ! 0),
        card_answer_side_hidden := True,
        review_progress := (1, length (filter (is_due now) (cards s)))\<rparr>, ps)"
proof -
  have "filter (is_due now) (cards s) \<noteq> []" using assms by auto
  then show ?thesis
    using loop_step.act [of now "Act_start_review rs" s] assms
    by (simp add: start_review_started show_next_in_range reloading_def)
qed

text \<open>
  C31. A grading response that arrives after the user left the session and started a
  new one advances the new session: its first card is skipped without a grade, and the
  only grade sent is for the card of the old session.
\<close>

theorem stale_grade_advances_new_session:
  assumes "current_review_index s < length (review_cards s)"
    and "2 \<le> length (filter (is_due now) (cards s))"
  shows "\<exists>s' ps'. loop_step\<^sup>*\<^sup>* (s, []) (s', ps')
     \<and> \<not> review_mode_hidden s'
     \<and> review_cards s' = shuffle_array rs (filter (is_due now) (cards s))
     \<and> current_review_index s' = 1
     \<and> filter (\<lambda>x. req_method x = POST) (drop (length (requests s)) (requests s'))
         = [api_update_card (card_id (review_cards s ! current_review_index s)) q]"
proof -
  let ?cid = "card_id (review_cards s ! current_review_index s)"
  let ?s1 = "send (api_update_card ?cid q) s"
  let ?r2 = "exit_review ?s1"
  have st1: "loop_step (s, []) (?s1, [Await_rate_card ?cid])"
    using rate_click_step [OF assms(1), of "[]" q] by simp
  have st2: "loop_step (?s1, [Await_rate_card ?cid]) (fst ?r2, Await_rate_card ?cid # snd (reloading ?r2))"
    using exit_review_dispatch [of ?s1 "[Await_rate_card ?cid]"] by simp
  obtain s3 where st3: "loop_step (fst ?r2, Await_rate_card ?cid # snd (reloading ?r2))
      (s3, Await_rate_card ?cid # snd (reloading ?r2))"
    and s3: "\<not> review_mode_hidden s3" "current_review_index s3 = 0"
      "review_cards s3 = shuffle_array rs (filter (is_due now) (cards s))"
      "requests s3 = requests (fst ?r2)"
    using start_review_step [where now = now and s = "fst ?r2" and rs = rs and ps = "Await_rate_card ?cid # snd (reloading ?r2)"] assms(2)
    by (simp add: send_def)
  define s4 where "s4 = fst (show_next_review_card (s3\<lparr>current_review_index := Suc 0\<rparr>))"
  have in_range: "Suc 0 < length (review_cards s3)" using s3 assms(2) by simp
  have st4: "loop_step (s3, Await_rate_card ?cid # snd (reloading ?r2)) (s4, snd (reloading ?r2))"
    using rate_reply_step [of s3 ?cid "snd (reloading ?r2)"] in_range s3
    by (simp add: s4_def show_next_in_range reloading_def)
  have "requests s4 = requests s @ [api_update_card ?cid q] @
     (case current_deck_id s of None \<Rightarrow> [] | Some did \<Rightarrow> if jid_truthy (Some did) then [load_cards_request did] else [])"
    using in_range s3 by (simp add: s4_def show_next_in_range exit_review_requests send_def)
  moreover have "\<not> review_mode_hidden s4 \<and> current_review_index s4 = 1
      \<and> review_cards s4 = shuffle_array rs (filter (is_due now) (cards s))"
    using in_range s3 by (simp add: s4_def show_next_in_range)
  moreover have "loop_step\<^sup>*\<^sup>* (s, []) (s4, snd (reloading ?r2))"
    using st1 st2 st3 st4 by (meson rtranclp.rtrancl_into_rtrancl r_into_rtranclp)
  ultimately show ?thesis
    by (intro exI [of _ s4] exI [of _ "snd (reloading ?r2)"])
       (auto simp: load_cards_request_GET api_update_card_def split: option.splits)
qed

lemma create_card_step:
  assumes "js_trim (card_question_field s) \<noteq> []" and "js_trim (card_answer_field s) \<noteq> []"
    and "current_deck_id s = Some a" and "jid_truthy (Some a)"
  shows "loop_step (s, ps)
    (send (api_create_card a (js_trim (card_question_field s)) (js_trim (card_answer_field s))) s,
     ps @ [Await_create_card])"
  using loop_step.act [of now Act_create_card s] assms by (simp add: awaiting_def create_card_start_def)

text \<open>
  C36. A card is added to whichever deck is open when the server's answer arrives: adding
  a card to deck A and opening deck B before the answer, the card created in A is
  appended to B's card list, and the page shows it under deck B.
\<close>

theorem late_card_joins_open_deck:
  assumes "js_trim (card_question_field s) \<noteq> []" and "js_trim (card_answer_field s) \<noteq> []"
    and "current_deck_id s = Some a" and "jid_truthy (Some a)"
    and "deck_row_at (decks_list s) kb = Some rb"
    and "find (\<lambda>d. deck_id d = dr_open_arg rb) (decks s) = Some db"
  shows "\<exists>t t' s'. loop_step\<^sup>*\<^sup>* (s, []) (t, [Await_create_card, Await_load_cards (dr_open_arg rb)])
     \<and> requests t = requests s @
         [api_create_card a (js_trim (card_question_field s)) (js_trim (card_answer_field s)),
          load_cards_request (dr_open_arg rb)]
     \<and> resume now (Await_load_cards (dr_open_arg rb)) (Reply_cards (Ok csb)) t = Some (t', [])
     \<and> resume now Await_create_card (Reply_card (Ok c)) t' = Some (s', [])
     \<and> current_deck_id s' = Some (dr_open_arg rb) \<and> cards s' = csb @ [c]"
proof -
  let ?u = "api_create_card a (js_trim (card_question_field s)) (js_trim (card_answer_field s))"
  have st1: "loop_step (s, []) (send ?u s, [Await_create_card])"
    using create_card_step [OF assms(1-4), of "[]"] by simp
  define t where "t = load_cards_start (dr_open_arg rb) (send ?u s\<lparr>current_deck_id := Some (dr_open_arg rb),
      selected_deck_name := deck_name db, no_deck_selected_hidden := True, deck_selected_hidden := False\<rparr>)"
  have st2: "loop_step (send ?u s, [Await_create_card]) (t, [Await_create_card, Await_load_cards (dr_open_arg rb)])"
    using open_deck_step [of "send ?u s" kb rb db "[Await_create_card]"] assms(5,6)
    by (simp add: t_def send_def)
  have "loop_step\<^sup>*\<^sup>* (s, []) (t, [Await_create_card, Await_load_cards (dr_open_arg rb)])"
    using st1 st2 by (meson rtranclp.rtrancl_into_rtrancl r_into_rtranclp)
  moreover have "requests t = requests s @ [?u, load_cards_request (dr_open_arg rb)]"
    by (simp add: t_def load_cards_start_def send_def)
  moreover have "current_deck_id t = Some (dr_open_arg rb)"
    by (simp add: t_def load_cards_start_def send_def)
  ultimately show ?thesis
    by (auto simp: load_cards_resume_def create_card_resume_def update_cards_list_def)
qed

subsection \<open>Decks created while the page loads\<close>

lemma create_deck_step:
  assumes "js_trim (deck_name_field s) \<noteq> []"
  shows "loop_step (s, ps)
    (send (api_create_deck (js_trim (deck_name_field s)) (js_trim (deck_description_field s))) s,
     ps @ [Await_create_deck])"
  using loop_step.act [of now Act_create_deck s] assms by (simp add: awaiting_def create_deck_start_def Let_def)

lemma create_deck_resume_ok:
  "decks (create_deck_resume (Ok d) s) = decks s @ [d]
   \<and> requests (create_deck_resume (Ok d) s) = requests s"
  by (simp add: create_deck_resume_def update_decks_list_eq split: option.splits)

lemma load_decks_resume_ok:
  "decks (load_decks_resume (Ok ds) s) = ds \<and> requests (load_decks_resume (Ok ds) s) = requests s"
  by (simp add: load_decks_resume_def update_decks_list_eq split: option.splits)

text \<open>
  C27. A deck created before the page's first deck list arrives disappears from the
  page: the page loads, the user types a name and clicks create, the server confirms the
  new deck \<open>d\<close> and the page shows it; then the answer to the initial \<open>GET /decks\<close>,
  which the server may have computed before the creation, replaces the list, and nothing
  asks for the list again.
\<close>

theorem created_deck_lost_to_initial_load:
  assumes "js_trim v \<noteq> []"
  shows "\<exists>s s'. loop_reach (s, [Await_load_decks]) \<and> decks s = [d]
     \<and> resume now Await_load_decks (Reply_decks (Ok ds)) s = Some (s', [])
     \<and> loop_reach (s', []) \<and> decks s' = ds
     \<and> requests s' = [load_decks_request, api_create_deck (js_trim v) []]"
proof -
  define s2 where "s2 = (load_decks_start init_state)\<lparr>deck_name_field := v\<rparr>"
  define s3 where "s3 = send (api_create_deck (js_trim v) []) s2"
  have r1: "loop_reach (load_decks_start init_state, [Await_load_decks])"
    using loop_reach.step [OF loop_reach.init loop_step.act [of now Act_page_loaded]] by simp
  have r2: "loop_reach (s2, [Await_load_decks])"
    using loop_reach.step [OF r1 loop_step.act [of now "Act_input_deck_name v"]] by (simp add: s2_def)
  have "loop_step (s2, [Await_load_decks]) (s3, [Await_load_decks, Await_create_deck])"
    using create_deck_step [of s2 "[Await_load_decks]"] assms
    by (simp add: s2_def s3_def load_decks_start_def send_def init_state_def js_trim_def)
  with r2 have r3: "loop_reach (s3, [Await_load_decks, Await_create_deck])"
    by (rule loop_reach.step)
  define s where "s = create_deck_resume (Ok d) s3"
  have "loop_step (s3, [Await_load_decks, Await_create_deck]) (s, [Await_load_decks])"
    using loop_deliver_last [of now Await_create_deck "Reply_deck (Ok d)" s3 s "[]" "[Await_load_decks]"]
    by (simp add: s_def)
  with r3 have r4: "loop_reach (s, [Await_load_decks])" by (rule loop_reach.step)
  define s' where "s' = load_decks_resume (Ok ds) s"
  have res: "resume now Await_load_decks (Reply_decks (Ok ds)) s = Some (s', [])" by (simp add: s'_def)
  have "loop_reach (s', [])"
    using loop_reach.step [OF r4 loop_deliver_first [OF res, of "[]"]] by simp
  moreover have "decks s = [d]" "requests s = [load_decks_request, api_create_deck (js_trim v) []]"
    using create_deck_resume_ok [of d s3]
    by (simp_all add: s_def s3_def s2_def load_decks_start_def send_def init_state_def)
  ultimately show ?thesis
    using r4 res load_decks_resume_ok [of ds s] by (auto simp: s'_def)
qed

lemma create_twice_path:
  assumes "js_trim (deck_name_field s) \<noteq> []"
  defines "q \<equiv> api_create_deck (js_trim (deck_name_field s)) (js_trim (deck_description_field s))"
  shows "loop_step\<^sup>*\<^sup>* (s, ps) (send q (send q s), ps @ [Await_create_deck, Await_create_deck])"
proof -
  have "loop_step (s, ps) (send q s, ps @ [Await_create_deck])"
    using create_deck_step [OF assms(1)] by (simp add: q_def)
  moreover have "loop_step (send q s, ps @ [Await_create_deck]) (send q (send q s), ps @ [Await_create_deck, Await_create_deck])"
    using create_deck_step [of "send q s" "ps @ [Await_create_deck]"] assms(1) by (simp add: q_def send_def)
  ultimately show ?thesis by (meson rtranclp.rtrancl_into_rtrancl r_into_rtranclp)
qed

text \<open>
  C35. \<open>createDeck\<close> does not guard against a second click while the first request is
  in flight: two clicks on the create button send two identical \<open>POST /decks\<close>
  requests, and when both succeed the page holds two decks, \<open>d1\<close> and \<open>d2\<close>, for one
  name typed once.
\<close>

theorem double_create_makes_two_decks:
  assumes "js_trim (deck_name_field s) \<noteq> []"
  shows "\<exists>s'. loop_step\<^sup>*\<^sup>* (s, ps) (s', ps)
     \<and> requests s' = requests s @
         [api_create_deck (js_trim (deck_name_field s)) (js_trim (deck_description_field s)),
          api_create_deck (js_trim (deck_name_field s)) (js_trim (deck_description_field s))]
     \<and> decks s' = decks s @ [d1, d2]"
proof -
  let ?q = "api_create_deck (js_trim (deck_name_field s)) (js_trim (deck_description_field s))"
  define t1 where "t1 = create_deck_resume (Ok d1) (send ?q (send ?q s))"
  define t2 where "t2 = create_deck_resume (Ok d2) t1"
  have "loop_step (send ?q (send ?q s), ps @ [Await_create_deck, Await_create_deck]) (t1, ps @ [Await_create_deck])"
    using loop_deliver_last [of 0 Await_create_deck "Reply_deck (Ok d1)" "send ?q (send ?q s)" t1 "[]"
        "ps @ [Await_create_deck]"] by (simp add: t1_def)
  moreover have "loop_step (t1, ps @ [Await_create_deck]) (t2, ps)"
    using loop_deliver_last [of 0 Await_create_deck "Reply_deck (Ok d2)" t1 t2 "[]" ps] by (simp add: t2_def)
  ultimately have "loop_step\<^sup>*\<^sup>* (s, ps) (t2, ps)"
    using create_twice_path [OF assms, of ps] by (simp add: rtranclp.rtrancl_into_rtrancl)
  moreover have "decks t2 = decks s @ [d1, d2]" "requests t2 = requests s @ [?q, ?q]"
    using create_deck_resume_ok [of d1] create_deck_resume_ok [of d2] by (simp_all add: t1_def t2_def send_def)
  ultimately show ?thesis by blast
qed

subsection \<open>Witnesses\<close>

theorem double_rate_grades_first_twice_witness:
  "review_cards (init_state\<lparr>review_cards := [\<lparr>card_id = JStr ''1'', card_deck_id = JStr ''d'', card_question = ''hola'', card_answer = ''hello'',
        card_repetition_count = None, card_interval = None, card_next_review_date = No_date\<rparr>, \<lparr>card_id = JStr ''2'', card_deck_id = JStr ''d'', card_question = ''adios'', card_answer = ''bye'',
        card_repetition_count = None, card_interval = None, card_next_review_date = No_date\<rparr>]\<rparr>) = [\<lparr>card_id = JStr ''1'', card_deck_id = JStr ''d'', card_question = ''hola'', card_answer = ''hello'',
        card_repetition_count = None, card_interval = None, card_next_review_date = No_date\<rparr>, \<lparr>card_id = JStr ''2'', card_deck_id = JStr ''d'', card_question = ''adios'', card_answer = ''bye'',
        card_repetition_count = None, card_interval = None, card_next_review_date = No_date\<rparr>]
   \<and> current_review_index (init_state\<lparr>review_cards := [\<lparr>card_id = JStr ''1'', card_deck_id = JStr ''d'', card_question = ''hola'', card_answer = ''hello'',
        card_repetition_count = None, card_interval = None, card_next_review_date = No_date\<rparr>, \<lparr>card_id = JStr ''2'', card_deck_id = JStr ''d'', card_question = ''adios'', card_answer = ''bye'',
        card_repetition_count = None, card_interval = None, card_next_review_date = No_date\<rparr>]\<rparr>) = 0
   \<and> (\<exists>s' ps'. loop_step\<^sup>*\<^sup>* (init_state\<lparr>review_cards := [\<lparr>card_id = JStr ''1'', card_deck_id = JStr ''d'', card_question = ''hola'', card_answer = ''hello'',
        card_repetition_count = None, card_interval = None, card_next_review_date = No_date\<rparr>, \<lparr>card_id = JStr ''2'', card_deck_id = JStr ''d'', card_question = ''adios'', card_answer = ''bye'',
        card_repetition_count = None, card_interval = None, card_next_review_date = No_date\<rparr>]\<rparr>, []) (s', ps')
     \<and> filter (\<lambda>x. req_method x = POST)
         (drop (length (requests (init_state\<lparr>review_cards := [\<lparr>card_id = JStr ''1'', card_deck_id = JStr ''d'', card_question = ''hola'', card_answer = ''hello'',
        card_repetition_count = None, card_interval = None, card_next_review_date = No_date\<rparr>, \<lparr>card_id = JStr ''2'', card_deck_id = JStr ''d'', card_question = ''adios'', card_answer = ''bye'',
        card_repetition_count = None, card_interval = None, card_next_review_date = No_date\<rparr>]\<rparr>))) (requests s'))
         = [api_update_card (JStr ''1'') 5, api_update_card (JStr ''1'') 5]
     \<and> review_mode_hidden s')"
  using double_rate_grades_first_twice [of "init_state\<lparr>review_cards := [\<lparr>card_id = JStr ''1'', card_deck_id = JStr ''d'', card_question = ''hola'', card_answer = ''hello'',
        card_repetition_count = None, card_interval = None, card_next_review_date = No_date\<rparr>, \<lparr>card_id = JStr ''2'', card_deck_id = JStr ''d'', card_question = ''adios'', card_answer = ''bye'',
        card_repetition_count = None, card_interval = None, card_next_review_date = No_date\<rparr>]\<rparr>" "\<lparr>card_id = JStr ''1'', card_deck_id = JStr ''d'', card_question = ''hola'', card_answer = ''hello'',
        card_repetition_count = None, card_interval = None, card_next_review_date = No_date\<rparr>" "\<lparr>card_id = JStr ''2'', card_deck_id = JStr ''d'', card_question = ''adios'', card_answer = ''bye'',
        card_repetition_count = None, card_interval = None, card_next_review_date = No_date\<rparr>" 5]
  by (simp add: init_state_def)

theorem stale_cards_overwrite_selection_witness:
  "deck_row_at (decks_list (init_state\<lparr>decks := [\<lparr>deck_id = JStr ''a'', deck_name = ''A'', deck_description = Some [], deck_created_at = []\<rparr>, \<lparr>deck_id = JStr ''b'', deck_name = ''B'', deck_description = Some [], deck_created_at = []\<rparr>], decks_list := Deck_rows [\<lparr>dr_name = ''A'', dr_open_arg = JStr ''a'', dr_delete_arg = JStr ''a'', dr_description = [], dr_created = [], dr_card_count = 0\<rparr>, \<lparr>dr_name = ''B'', dr_open_arg = JStr ''b'', dr_delete_arg = JStr ''b'', dr_description = [], dr_created = [], dr_card_count = 0\<rparr>]\<rparr>)) 0 = Some \<lparr>dr_name = ''A'', dr_open_arg = JStr ''a'', dr_delete_arg = JStr ''a'', dr_description = [], dr_created = [], dr_card_count = 0\<rparr>
   \<and> deck_row_at (decks_list (init_state\<lparr>decks := [\<lparr>deck_id = JStr ''a'', deck_name = ''A'', deck_description = Some [], deck_created_at = []\<rparr>, \<lparr>deck_id = JStr ''b'', deck_name = ''B'', deck_description = Some [], deck_created_at = []\<rparr>], decks_list := Deck_rows [\<lparr>dr_name = ''A'', dr_open_arg = JStr ''a'', dr_delete_arg = JStr ''a'', dr_description = [], dr_created = [], dr_card_count = 0\<rparr>, \<lparr>dr_name = ''B'', dr_open_arg = JStr ''b'', dr_delete_arg = JStr ''b'', dr_description = [], dr_created = [], dr_card_count = 0\<rparr>]\<rparr>)) 1 = Some \<lparr>dr_name = ''B'', dr_open_arg = JStr ''b'', dr_delete_arg = JStr ''b'', dr_description = [], dr_created = [], dr_card_count = 0\<rparr>
   \<and> find (\<lambda>d. deck_id d = JStr ''a'') [\<lparr>deck_id = JStr ''a'', deck_name = ''A'', deck_description = Some [], deck_created_at = []\<rparr>, \<lparr>deck_id = JStr ''b'', deck_name = ''B'', deck_description = Some [], deck_created_at = []\<rparr>] = Some \<lparr>deck_id = JStr ''a'', deck_name = ''A'', deck_description = Some [], deck_created_at = []\<rparr>
   \<and> find (\<lambda>d. deck_id d = JStr ''b'') [\<lparr>deck_id = JStr ''a'', deck_name = ''A'', deck_description = Some [], deck_created_at = []\<rparr>, \<lparr>deck_id = JStr ''b'', deck_name = ''B'', deck_description = Some [], deck_created_at = []\<rparr>] = Some \<lparr>deck_id = JStr ''b'', deck_name = ''B'', deck_description = Some [], deck_created_at = []\<rparr>
   \<and> (\<exists>t t' s'. loop_step\<^sup>*\<^sup>* (init_state\<lparr>decks := [\<lparr>deck_id = JStr ''a'', deck_name = ''A'', deck_description = Some [], deck_created_at = []\<rparr>, \<lparr>deck_id = JStr ''b'', deck_name = ''B'', deck_description = Some [], deck_created_at = []\<rparr>], decks_list := Deck_rows [\<lparr>dr_name = ''A'', dr_open_arg = JStr ''a'', dr_delete_arg = JStr ''a'', dr_description = [], dr_created = [], dr_card_count = 0\<rparr>, \<lparr>dr_name = ''B'', dr_open_arg = JStr ''b'', dr_delete_arg = JStr ''b'', dr_description = [], dr_created = [], dr_card_count = 0\<rparr>]\<rparr>, [])
          (t, [Await_load_cards (JStr ''a''), Await_load_cards (JStr ''b'')])
     \<and> resume 0 (Await_load_cards (JStr ''b'')) (Reply_cards (Ok [])) t = Some (t', [])
     \<and> resume 0 (Await_load_cards (JStr ''a'')) (Reply_cards (Ok [\<lparr>card_id = JStr ''1'', card_deck_id = JStr ''d'', card_question = ''hola'', card_answer = ''hello'',
        card_repetition_count = None, card_interval = None, card_next_review_date = No_date\<rparr>])) t' = Some (s', [])
     \<and> current_deck_id s' = Some (JStr ''b'') \<and> selected_deck_name s' = ''B'' \<and> cards s' = [\<lparr>card_id = JStr ''1'', card_deck_id = JStr ''d'', card_question = ''hola'', card_answer = ''hello'',
        card_repetition_count = None, card_interval = None, card_next_review_date = No_date\<rparr>])"
  using stale_cards_overwrite_selection [where s = "init_state\<lparr>decks := [\<lparr>deck_id = JStr ''a'', deck_name = ''A'', deck_description = Some [], deck_created_at = []\<rparr>, \<lparr>deck_id = JStr ''b'', deck_name = ''B'', deck_description = Some [], deck_created_at = []\<rparr>], decks_list := Deck_rows [\<lparr>dr_name = ''A'', dr_open_arg = JStr ''a'', dr_delete_arg = JStr ''a'', dr_description = [], dr_created = [], dr_card_count = 0\<rparr>, \<lparr>dr_name = ''B'', dr_open_arg = JStr ''b'', dr_delete_arg = JStr ''b'', dr_description = [], dr_created = [], dr_card_count = 0\<rparr>]\<rparr>"
      and ka = 0 and ra = "\<lparr>dr_name = ''A'', dr_open_arg = JStr ''a'', dr_delete_arg = JStr ''a'', dr_description = [], dr_created = [], dr_card_count = 0\<rparr>" and kb = 1 and rb = "\<lparr>dr_name = ''B'', dr_open_arg = JStr ''b'', dr_delete_arg = JStr ''b'', dr_description = [], dr_created = [], dr_card_count = 0\<rparr>" and da = "\<lparr>deck_id = JStr ''a'', deck_name = ''A'', deck_description = Some [], deck_created_at = []\<rparr>" and db = "\<lparr>deck_id = JStr ''b'', deck_name = ''B'', deck_description = Some [], deck_created_at = []\<rparr>"
      and now = 0 and csb = "[]" and csa = "[\<lparr>card_id = JStr ''1'', card_deck_id = JStr ''d'', card_question = ''hola'', card_answer = ''hello'',
        card_repetition_count = None, card_interval = None, card_next_review_date = No_date\<rparr>]"]
  by simp

theorem stale_grade_advances_new_session_witness:
  "current_review_index (init_state\<lparr>cards := [\<lparr>card_id = JStr ''1'', card_deck_id = JStr ''d'', card_question = ''hola'', card_answer = ''hello'',
        card_repetition_count = None, card_interval = None, card_next_review_date = No_date\<rparr>, \<lparr>card_id = JStr ''2'', card_deck_id = JStr ''d'', card_question = ''adios'', card_answer = ''bye'',
        card_repetition_count = None, card_interval = None, card_next_review_date = No_date\<rparr>], review_cards := [\<lparr>card_id = JStr ''1'', card_deck_id = JStr ''d'', card_question = ''hola'', card_answer = ''hello'',
        card_repetition_count = None, card_interval = None, card_next_review_date = No_date\<rparr>, \<lparr>card_id = JStr ''2'', card_deck_id = JStr ''d'', card_question = ''adios'', card_answer = ''bye'',
        card_repetition_count = None, card_interval = None, card_next_review_date = No_date\<rparr>]\<rparr>) < 2
   \<and> 2 \<le> length (filter (is_due 0) [\<lparr>card_id = JStr ''1'', card_deck_id = JStr ''d'', card_question = ''hola'', card_answer = ''hello'',
        card_repetition_count = None, card_interval = None, card_next_review_date = No_date\<rparr>, \<lparr>card_id = JStr ''2'', card_deck_id = JStr ''d'', card_question = ''adios'', card_answer = ''bye'',
        card_repetition_count = None, card_interval = None, card_next_review_date = No_date\<rparr>])
   \<and> (\<exists>s' ps'. loop_step\<^sup>*\<^sup>* (init_state\<lparr>cards := [\<lparr>card_id = JStr ''1'', card_deck_id = JStr ''d'', card_question = ''hola'', card_answer = ''hello'',
        card_repetition_count = None, card_interval = None, card_next_review_date = No_date\<rparr>, \<lparr>card_id = JStr ''2'', card_deck_id = JStr ''d'', card_question = ''adios'', card_answer = ''bye'',
        card_repetition_count = None, card_interval = None, card_next_review_date = No_date\<rparr>], review_cards := [\<lparr>card_id = JStr ''1'', card_deck_id = JStr ''d'', card_question = ''hola'', card_answer = ''hello'',
        card_repetition_count = None, card_interval = None, card_next_review_date = No_date\<rparr>, \<lparr>card_id = JStr ''2'', card_deck_id = JStr ''d'', card_question = ''adios'', card_answer = ''bye'',
        card_repetition_count = None, card_interval = None, card_next_review_date = No_date\<rparr>]\<rparr>, []) (s', ps')
     \<and> \<not> review_mode_hidden s'
     \<and> review_cards s' = shuffle_array (sconst 0) (filter (is_due 0) [\<lparr>card_id = JStr ''1'', card_deck_id = JStr ''d'', card_question = ''hola'', card_answer = ''hello'',
        card_repetition_count = None, card_interval = None, card_next_review_date = No_date\<rparr>, \<lparr>card_id = JStr ''2'', card_deck_id = JStr ''d'', card_question = ''adios'', card_answer = ''bye'',
        card_repetition_count = None, card_interval = None, card_next_review_date = No_date\<rparr>])
     \<and> current_review_index s' = 1
     \<and> filter (\<lambda>x. req_method x = POST)
         (drop (length (requests (init_state\<lparr>cards := [\<lparr>card_id = JStr ''1'', card_deck_id = JStr ''d'', card_question = ''hola'', card_answer = ''hello'',
        card_repetition_count = None, card_interval = None, card_next_review_date = No_date\<rparr>, \<lparr>card_id = JStr ''2'', card_deck_id = JStr ''d'', card_question = ''adios'', card_answer = ''bye'',
        card_repetition_count = None, card_interval = None, card_next_review_date = No_date\<rparr>], review_cards := [\<lparr>card_id = JStr ''1'', card_deck_id = JStr ''d'', card_question = ''hola'', card_answer = ''hello'',
        card_repetition_count = None, card_interval = None, card_next_review_date = No_date\<rparr>, \<lparr>card_id = JStr ''2'', card_deck_id = JStr ''d'', card_question = ''adios'', card_answer = ''bye'',
        card_repetition_count = None, card_interval = None, card_next_review_date = No_date\<rparr>]\<rparr>))) (requests s'))
         = [api_update_card (JStr ''1'') 3])"
  using stale_grade_advances_new_session [where s = "init_state\<lparr>cards := [\<lparr>card_id = JStr ''1'', card_deck_id = JStr ''d'', card_question = ''hola'', card_answer = ''hello'',
        card_repetition_count = None, card_interval = None, card_next_review_date = No_date\<rparr>, \<lparr>card_id = JStr ''2'', card_deck_id = JStr ''d'', card_question = ''adios'', card_answer = ''bye'',
        card_repetition_count = None, card_interval = None, card_next_review_date = No_date\<rparr>], review_cards := [\<lparr>card_id = JStr ''1'', card_deck_id = JStr ''d'', card_question = ''hola'', card_answer = ''hello'',
        card_repetition_count = None, card_interval = None, card_next_review_date = No_date\<rparr>, \<lparr>card_id = JStr ''2'', card_deck_id = JStr ''d'', card_question = ''adios'', card_answer = ''bye'',
        card_repetition_count = None, card_interval = None, card_next_review_date = No_date\<rparr>]\<rparr>"
      and now = 0 and rs = "sconst 0" and q = 3]
  by (simp add: init_state_def)

theorem late_card_joins_open_deck_witness:
  "js_trim (card_question_field (init_state\<lparr>decks := [\<lparr>deck_id = JStr ''a'', deck_name = ''A'', deck_description = Some [], deck_created_at = []\<rparr>, \<lparr>deck_id = JStr ''b'', deck_name = ''B'', deck_description = Some [], deck_created_at = []\<rparr>], decks_list := Deck_rows [\<lparr>dr_name = ''A'', dr_open_arg = JStr ''a'', dr_delete_arg = JStr ''a'', dr_description = [], dr_created = [], dr_card_count = 0\<rparr>, \<lparr>dr_name = ''B'', dr_open_arg = JStr ''b'', dr_delete_arg = JStr ''b'', dr_description = [], dr_created = [], dr_card_count = 0\<rparr>],
      current_deck_id := Some (JStr ''a''), card_question_field := ''hola'', card_answer_field := ''hello''\<rparr>)) \<noteq> [] \<and> js_trim (card_answer_field (init_state\<lparr>decks := [\<lparr>deck_id = JStr ''a'', deck_name = ''A'', deck_description = Some [], deck_created_at = []\<rparr>, \<lparr>deck_id = JStr ''b'', deck_name = ''B'', deck_description = Some [], deck_created_at = []\<rparr>], decks_list := Deck_rows [\<lparr>dr_name = ''A'', dr_open_arg = JStr ''a'', dr_delete_arg = JStr ''a'', dr_description = [], dr_created = [], dr_card_count = 0\<rparr>, \<lparr>dr_name = ''B'', dr_open_arg = JStr ''b'', dr_delete_arg = JStr ''b'', dr_description = [], dr_created = [], dr_card_count = 0\<rparr>],
      current_deck_id := Some (JStr ''a''), card_question_field := ''hola'', card_answer_field := ''hello''\<rparr>)) \<noteq> []
   \<and> current_deck_id (init_state\<lparr>decks := [\<lparr>deck_id = JStr ''a'', deck_name = ''A'', deck_description = Some [], deck_created_at = []\<rparr>, \<lparr>deck_id = JStr ''b'', deck_name = ''B'', deck_description = Some [], deck_created_at = []\<rparr>], decks_list := Deck_rows [\<lparr>dr_name = ''A'', dr_open_arg = JStr ''a'', dr_delete_arg = JStr ''a'', dr_description = [], dr_created = [], dr_card_count = 0\<rparr>, \<lparr>dr_name = ''B'', dr_open_arg = JStr ''b'', dr_delete_arg = JStr ''b'', dr_description = [], dr_created = [], dr_card_count = 0\<rparr>],
      current_deck_id := Some (JStr ''a''), card_question_field := ''hola'', card_answer_field := ''hello''\<rparr>) = Some (JStr ''a'') \<and> jid_truthy (Some (JStr ''a''))
   \<and> deck_row_at (decks_list (init_state\<lparr>decks := [\<lparr>deck_id = JStr ''a'', deck_name = ''A'', deck_description = Some [], deck_created_at = []\<rparr>, \<lparr>deck_id = JStr ''b'', deck_name = ''B'', deck_description = Some [], deck_created_at = []\<rparr>], decks_list := Deck_rows [\<lparr>dr_name = ''A'', dr_open_arg = JStr ''a'', dr_delete_arg = JStr ''a'', dr_description = [], dr_created = [], dr_card_count = 0\<rparr>, \<lparr>dr_name = ''B'', dr_open_arg = JStr ''b'', dr_delete_arg = JStr ''b'', dr_description = [], dr_created = [], dr_card_count = 0\<rparr>],
      current_deck_id := Some (JStr ''a''), card_question_field := ''hola'', card_answer_field := ''hello''\<rparr>)) 1 = Some \<lparr>dr_name = ''B'', dr_open_arg = JStr ''b'', dr_delete_arg = JStr ''b'', dr_description = [], dr_created = [], dr_card_count = 0\<rparr>
   \<and> find (\<lambda>d. deck_id d = JStr ''b'') (decks (init_state\<lparr>decks := [\<lparr>deck_id = JStr ''a'', deck_name = ''A'', deck_description = Some [], deck_created_at = []\<rparr>, \<lparr>deck_id = JStr ''b'', deck_name = ''B'', deck_description = Some [], deck_created_at = []\<rparr>], decks_list := Deck_rows [\<lparr>dr_name = ''A'', dr_open_arg = JStr ''a'', dr_delete_arg = JStr ''a'', dr_description = [], dr_created = [], dr_card_count = 0\<rparr>, \<lparr>dr_name = ''B'', dr_open_arg = JStr ''b'', dr_delete_arg = JStr ''b'', dr_description = [], dr_created = [], dr_card_count = 0\<rparr>],
      current_deck_id := Some (JStr ''a''), card_question_field := ''hola'', card_answer_field := ''hello''\<rparr>)) = Some \<lparr>deck_id = JStr ''b'', deck_name = ''B'', deck_description = Some [], deck_created_at = []\<rparr>
   \<and> (\<exists>t t' s'. loop_step\<^sup>*\<^sup>* (init_state\<lparr>decks := [\<lparr>deck_id = JStr ''a'', deck_name = ''A'', deck_description = Some [], deck_created_at = []\<rparr>, \<lparr>deck_id = JStr ''b'', deck_name = ''B'', deck_description = Some [], deck_created_at = []\<rparr>], decks_list := Deck_rows [\<lparr>dr_name = ''A'', dr_open_arg = JStr ''a'', dr_delete_arg = JStr ''a'', dr_description = [], dr_created = [], dr_card_count = 0\<rparr>, \<lparr>dr_name = ''B'', dr_open_arg = JStr ''b'', dr_delete_arg = JStr ''b'', dr_description = [], dr_created = [], dr_card_count = 0\<rparr>],
      current_deck_id := Some (JStr ''a''), card_question_field := ''hola'', card_answer_field := ''hello''\<rparr>, []) (t, [Await_create_card, Await_load_cards (JStr ''b'')])
     \<and> requests t = [api_create_card (JStr ''a'') ''hola'' ''hello'', load_cards_request (JStr ''b'')]
     \<and> resume 0 (Await_load_cards (JStr ''b'')) (Reply_cards (Ok [])) t = Some (t', [])
     \<and> resume 0 Await_create_card (Reply_card (Ok \<lparr>card_id = JStr ''1'', card_deck_id = JStr ''a'', card_question = ''hola'', card_answer = ''hello'',
        card_repetition_count = None, card_interval = None, card_next_review_date = No_date\<rparr>)) t' = Some (s', [])
     \<and> current_deck_id s' = Some (JStr ''b'') \<and> cards s' = [\<lparr>card_id = JStr ''1'', card_deck_id = JStr ''a'', card_question = ''hola'', card_answer = ''hello'',
        card_repetition_count = None, card_interval = None, card_next_review_date = No_date\<rparr>])"
proof -
  have "js_trim ''hola'' = ''hola''" "js_trim ''hello'' = ''hello''"
    by (simp_all add: js_trim_def js_whitespace_def)
  then show ?thesis
    using late_card_joins_open_deck [of "init_state\<lparr>decks := [\<lparr>deck_id = JStr ''a'', deck_name = ''A'', deck_description = Some [], deck_created_at = []\<rparr>, \<lparr>deck_id = JStr ''b'', deck_name = ''B'', deck_description = Some [], deck_created_at = []\<rparr>], decks_list := Deck_rows [\<lparr>dr_name = ''A'', dr_open_arg = JStr ''a'', dr_delete_arg = JStr ''a'', dr_description = [], dr_created = [], dr_card_count = 0\<rparr>, \<lparr>dr_name = ''B'', dr_open_arg = JStr ''b'', dr_delete_arg = JStr ''b'', dr_description = [], dr_created = [], dr_card_count = 0\<rparr>],
      current_deck_id := Some (JStr ''a''), card_question_field := ''hola'', card_answer_field := ''hello''\<rparr>" "JStr ''a''" 1 "\<lparr>dr_name = ''B'', dr_open_arg = JStr ''b'', dr_delete_arg = JStr ''b'', dr_description = [], dr_created = [], dr_card_count = 0\<rparr>" "\<lparr>deck_id = JStr ''b'', deck_name = ''B'', deck_description = Some [], deck_created_at = []\<rparr>" 0 "[]" "\<lparr>card_id = JStr ''1'', card_deck_id = JStr ''a'', card_question = ''hola'', card_answer = ''hello'',
        card_repetition_count = None, card_interval = None, card_next_review_date = No_date\<rparr>"]
    by (simp add: init_state_def)
qed

theorem created_deck_lost_to_initial_load_witness:
  "js_trim ''Spanish'' \<noteq> []
   \<and> (\<exists>s s'. loop_reach (s, [Await_load_decks]) \<and> decks s = [\<lparr>deck_id = JNum 1, deck_name = ''Spanish'', deck_description = None, deck_created_at = []\<rparr>]
     \<and> resume 0 Await_load_decks (Reply_decks (Ok [])) s = Some (s', [])
     \<and> loop_reach (s', []) \<and> decks s' = []
     \<and> requests s' = [load_decks_request, api_create_deck ''Spanish'' []])"
proof -
  have "js_trim ''Spanish'' = ''Spanish''" by (simp add: js_trim_def js_whitespace_def)
  then show ?thesis
    using created_deck_lost_to_initial_load [of "''Spanish''" "\<lparr>deck_id = JNum 1, deck_name = ''Spanish'', deck_description = None, deck_created_at = []\<rparr>" 0 "[]"] by simp
qed

theorem double_create_makes_two_decks_witness:
  "js_trim (deck_name_field (init_state\<lparr>deck_name_field := ''Spanish''\<rparr>)) \<noteq> []
   \<and> (\<exists>s'. loop_step\<^sup>*\<^sup>* (init_state\<lparr>deck_name_field := ''Spanish''\<rparr>, []) (s', [])
     \<and> requests s' = [api_create_deck ''Spanish'' [], api_create_deck ''Spanish'' []]
     \<and> decks s' = [\<lparr>deck_id = JNum 1, deck_name = ''Spanish'', deck_description = None, deck_created_at = []\<rparr>, \<lparr>deck_id = JNum 2, deck_name = ''Spanish'', deck_description = None, deck_created_at = []\<rparr>])"
proof -
  have "js_trim ''Spanish'' = ''Spanish''" "js_trim [] = []" by (simp_all add: js_trim_def js_whitespace_def)
  then show ?thesis
    using double_create_makes_two_decks [of "init_state\<lparr>deck_name_field := ''Spanish''\<rparr>" "[]" "\<lparr>deck_id = JNum 1, deck_name = ''Spanish'', deck_description = None, deck_created_at = []\<rparr>" "\<lparr>deck_id = JNum 2, deck_name = ''Spanish'', deck_description = None, deck_created_at = []\<rparr>"] by (simp add: init_state_def)
qed

end
