(* ===== verification/View_Safety.thy ===== *)
theory View_Safety
  imports Event_Loop
begin

text \<open>
  The spec's rule for the renderer (section 4.4): user-supplied text is escaped before
  it is embedded in markup. \<open>updateDecksList\<close> and \<open>updateCardsList\<close> put the deck's
  name and description and the card's question and answer into \<open>innerHTML\<close> through
  \<open>escapeHtml\<close>; ids, dates and counts are interpolated as they are. The theory shows
  that in every state the event loop reaches, no text of a rendered row contains a raw
  \<open><\<close>, \<open>>\<close>, \<open>"\<close> or \<open>'\<close>.
\<close>

section \<open>Safe views\<close>

definition markup_free :: "string \<Rightarrow> bool" where
  "markup_free t \<longleftrightarrow> set t \<inter> {lt_char, gt_char, quot_char, apos_char} = {}"

fun deck_view_safe :: "deck_list_view \<Rightarrow> bool" where
  "deck_view_safe Decks_placeholder = True"
| "deck_view_safe (Deck_rows rs) = list_all (\<lambda>r. markup_free (dr_name r) \<and> markup_free (dr_description r)) rs"

fun card_view_safe :: "card_list_view \<Rightarrow> bool" where
  "card_view_safe Cards_placeholder = True"
| "card_view_safe (Card_rows rs) = list_all (\<lambda>r. markup_free (cr_question r) \<and> markup_free (cr_answer r)) rs"

definition view_safe :: "app_state \<Rightarrow> bool" where
  "view_safe s \<longleftrightarrow> deck_view_safe (decks_list s) \<and> card_view_safe (cards_list s)"

section \<open>Properties\<close>

lemma markup_free_escape [simp]: "markup_free (escape_html t)"
  by (simp add: markup_free_def escape_html_markup_free)

lemma render_deck_rows_safe: "list_all (\<lambda>r. markup_free (dr_name r) \<and> markup_free (dr_description r)) (fst (render_deck_rows cs ds))"
  by (induction ds) (auto simp: render_deck_row_def split: option.splits prod.splits)

lemma render_decks_safe [simp]: "deck_view_safe (fst (render_decks cs ds))"
  using render_deck_rows_safe [of cs ds] by (cases "render_deck_rows cs ds") (simp add: render_decks_def)

lemma render_cards_safe [simp]: "card_view_safe (render_cards now cs)"
  by (simp add: render_cards_def render_card_row_def list_all_iff)

lemma view_safe_update_decks_list [simp]: "view_safe (fst (update_decks_list s)) = card_view_safe (cards_list s)"
  by (simp add: update_decks_list_eq view_safe_def)

lemma view_safe_update_cards_list [simp]: "view_safe (update_cards_list now s) = deck_view_safe (decks_list s)"
  by (simp add: update_cards_list_def view_safe_def)

lemmas view_safe_simps = view_safe_def show_notification_def send_def load_cards_start_def
  load_decks_start_def

lemma dispatch_view_safe: "view_safe s \<Longrightarrow> view_safe (fst (dispatch now a s))"
  by (cases a)
     (auto simp: view_safe_simps awaiting_def reloading_def create_deck_start_def select_deck_start_def
        delete_deck_start_def create_card_start_def delete_card_start_def start_review_def
        show_next_review_card_def end_review_def exit_review_def flip_card_def rate_card_start_def
        Let_def split: option.splits)

lemma resume_view_safe: "view_safe s \<Longrightarrow> resume now p rp s = Some (s', new) \<Longrightarrow> view_safe s'"
  by (induction now p rp s rule: resume.induct)
     (auto simp: view_safe_simps reloading_def load_decks_resume_def create_deck_resume_def
        delete_deck_resume_def load_cards_resume_def create_card_resume_def delete_card_resume_def
        rate_card_resume_def show_next_review_card_def end_review_def exit_review_def Let_def
        update_decks_list_eq split: sum.splits option.splits)

lemma loop_step_view_safe: "loop_step c c' \<Longrightarrow> view_safe (fst c) \<Longrightarrow> view_safe (fst c')"
proof (induction rule: loop_step.induct)
  case (act now a s s' new ps)
  then show ?case using dispatch_view_safe [of s now a] by simp
next
  case (deliver i ps now rp s s' new)
  then show ?case using resume_view_safe by fastforce
qed

lemma init_state_view_safe: "view_safe init_state"
  by (simp add: init_state_def view_safe_def)

subsection \<open>Claims\<close>

text \<open>
  C37. In every state the page reaches, with actions and responses in any order and any
  text in the decks and cards the server returns, the rendered deck and card lists show
  names, descriptions, questions and answers only escaped: none of them contains a raw
  \<open><\<close>, \<open>>\<close>, \<open>"\<close> or \<open>'\<close>.
\<close>

theorem reachable_views_escaped: "loop_reach c \<Longrightarrow> view_safe (fst c)"
  by (induction rule: loop_reach.induct) (simp_all add: init_state_view_safe loop_step_view_safe)

theorem reachable_views_escaped_witness:
  "loop_reach (init_state, []) \<and> view_safe init_state"
  using reachable_views_escaped [of "(init_state, [])"] loop_reach.init by simp

end
