(* ===== verification/Review_Spec.thy ===== *)
theory Review_Spec
  imports Page_Events
begin

text \<open>
  The review session of the spec (section 4.3) as an abstract machine, and its
  refinement by the review controller of \<^verbatim>\<open>src/web/js/script.js\<close> in the sequential
  model. The machine is in \<open>Idle\<close> or \<open>In_session q i f\<close> with the queue \<open>q\<close>, the index
  \<open>i\<close> and the flag \<open>f\<close>; its steps are labelled with the operation of the spec. The page
  state is read as a machine state through the visibility of the review panel; every
  event the spec allows either takes a step of the machine with its label or leaves the
  abstract state as it is.
\<close>

section \<open>The machine of the spec\<close>

datatype review_phase = Idle | In_session "card list" nat bool

datatype review_label = L_start "card list" | L_flip | L_grade_ok | L_grade_fail | L_exit

text \<open>\<open>start(cards)\<close>, \<open>flip()\<close>, \<open>grade(quality)\<close> with its two outcomes, and
  \<open>end()\<close>/\<open>exit()\<close>; the due subset uses the spec's rule (no date, or a date not after
  now), which is \<open>is_due\<close>.\<close>

inductive spec_review :: "timestamp \<Rightarrow> review_label \<Rightarrow> review_phase \<Rightarrow> review_phase \<Rightarrow> bool" where
  start_no_cards: "spec_review now (L_start []) Idle Idle"
| start_none_due: "cs \<noteq> [] \<Longrightarrow> filter (is_due now) cs = [] \<Longrightarrow> spec_review now (L_start cs) Idle Idle"
| start: "filter (is_due now) cs \<noteq> [] \<Longrightarrow> mset q = mset (filter (is_due now) cs) \<Longrightarrow>
    spec_review now (L_start cs) Idle (In_session q 0 False)"
| flip: "spec_review now L_flip (In_session q i f) (In_session q i (\<not> f))"
| grade_next: "Suc i < length q \<Longrightarrow> spec_review now L_grade_ok (In_session q i f) (In_session q (Suc i) False)"
| grade_last: "i < length q \<Longrightarrow> length q \<le> Suc i \<Longrightarrow> spec_review now L_grade_ok (In_session q i f) Idle"
| grade_fail: "spec_review now L_grade_fail p p"
| exit: "spec_review now L_exit (In_session q i f) Idle"

section \<open>Abstraction and the operations the spec allows\<close>

definition review_abs :: "app_state \<Rightarrow> review_phase" where
  "review_abs s =
     (if review_mode_hidden s then Idle
      else In_session (review_cards s) (current_review_index s) (is_card_flipped s))"

text \<open>A shown review panel shows a card of the queue.\<close>

definition review_ok :: "app_state \<Rightarrow> bool" where
  "review_ok s \<longleftrightarrow> (\<not> review_mode_hidden s \<longrightarrow> current_review_index s < length (review_cards s))"

text \<open>The operation of the machine an event performs, if any: \<open>start\<close> on the loaded
  cards; a grade's outcome is the response of its request.\<close>

fun review_label_of :: "event \<Rightarrow> app_state \<Rightarrow> review_label option" where
  "review_label_of (Click_start_review rs rl) s = Some (L_start (cards s))"
| "review_label_of Click_review_card s = Some L_flip"
| "review_label_of (Click_rate q r rl) s =
     Some (case api_result r of Inl e \<Rightarrow> L_grade_fail | Inr c \<Rightarrow> L_grade_ok)"
| "review_label_of (Click_exit_review rl) s = Some L_exit"
| "review_label_of e s = None"

text \<open>The spec's preconditions: a session starts from \<open>Idle\<close>; flip, grade and exit act
  in a session. \<open>Math.random\<close> returns values in \<open>[0, 1)\<close>.\<close>

fun spec_enabled :: "event \<Rightarrow> app_state \<Rightarrow> bool" where
  "spec_enabled (Click_start_review rs rl) s = (review_mode_hidden s \<and> random_values rs)"
| "spec_enabled Click_review_card s = (\<not> review_mode_hidden s)"
| "spec_enabled (Click_rate q r rl) s = (\<not> review_mode_hidden s)"
| "spec_enabled (Click_exit_review rl) s = (\<not> review_mode_hidden s)"
| "spec_enabled e s = True"

text \<open>The labels of a run, and the runs of the machine with their labels.\<close>

fun run_labels :: "(timestamp \<times> event) list \<Rightarrow> app_state \<Rightarrow> (timestamp \<times> review_label) list" where
  "run_labels [] s = []"
| "run_labels ((now, e) # es) s =
     (case review_label_of e s of None \<Rightarrow> [] | Some l \<Rightarrow> [(now, l)]) @ run_labels es (handle now e s)"

inductive spec_trace :: "review_phase \<Rightarrow> (timestamp \<times> review_label) list \<Rightarrow> review_phase \<Rightarrow> bool" where
  nil: "spec_trace p [] p"
| cons: "spec_review now l p p' \<Longrightarrow> spec_trace p' ls p'' \<Longrightarrow> spec_trace p ((now, l) # ls) p''"

fun enabled_run :: "(timestamp \<times> event) list \<Rightarrow> app_state \<Rightarrow> bool" where
  "enabled_run [] s = True"
| "enabled_run ((now, e) # es) s = (spec_enabled e s \<and> enabled_run es (handle now e s))"

section \<open>Refinement\<close>

lemma review_frame_abs: "review_frame s t \<Longrightarrow> review_abs t = review_abs s \<and> review_ok t = review_ok s"
  by (simp add: review_frame_def review_abs_def review_ok_def)

lemma finish_reload_abs:
  "review_abs (finish_reload now rl p) = review_abs (fst p) \<and> review_ok (finish_reload now rl p) = review_ok (fst p)"
  using review_frame_abs [OF load_cards_resume_frame] by (simp add: finish_reload_def)

lemma start_review_refines:
  assumes "review_mode_hidden s" and "random_values rs"
  shows "spec_review now (L_start (cards s)) Idle (review_abs (fst (start_review now rs s)))
    \<and> review_ok (fst (start_review now rs s))"
proof (cases "filter (is_due now) (cards s) = []")
  case True
  then show ?thesis using assms
    by (cases "cards s = []")
       (auto simp: start_review_def review_abs_def review_ok_def intro: spec_review.intros)
next
  case False
  then show ?thesis using assms(2)
    by (auto simp: start_review_started show_next_in_range review_abs_def review_ok_def mset_shuffle_array
        intro!: spec_review.start)
qed

lemma flip_card_refines:
  "\<not> review_mode_hidden s \<Longrightarrow> review_ok s \<Longrightarrow>
     spec_review now L_flip (review_abs s) (review_abs (flip_card s)) \<and> review_ok (flip_card s)"
  by (simp add: flip_card_def review_abs_def review_ok_def spec_review.flip)

lemma exit_review_refines:
  "\<not> review_mode_hidden s \<Longrightarrow>
     spec_review now L_exit (review_abs s) (review_abs (fst (exit_review s))) \<and> review_ok (fst (exit_review s))"
  by (simp add: review_abs_def review_ok_def spec_review.exit)

lemma rate_card_refines:
  assumes "\<not> review_mode_hidden s" and "review_ok s"
  shows "spec_review now (case api_result r of Inl e \<Rightarrow> L_grade_fail | Inr c \<Rightarrow> L_grade_ok)
      (review_abs s) (review_abs (rate_card now q r rl s)) \<and> review_ok (rate_card now q r rl s)"
proof -
  have lt: "current_review_index s < length (review_cards s)" using assms by (simp add: review_ok_def)
  let ?s1 = "send (api_update_card (card_id (review_cards s ! current_review_index s)) q) s"
  have rc: "rate_card now q r rl s = finish_reload now rl (rate_card_resume r ?s1)"
    using lt by (simp add: rate_card_def rate_card_start_def)
  have ab: "review_abs (rate_card now q r rl s) = review_abs (fst (rate_card_resume r ?s1))"
    "review_ok (rate_card now q r rl s) = review_ok (fst (rate_card_resume r ?s1))"
    using finish_reload_abs by (simp_all add: rc)
  show ?thesis
  proof (cases "api_result r")
    case (Inl e)
    then show ?thesis using assms
      by (simp only: ab) (simp add: rate_card_resume_def review_abs_def review_ok_def spec_review.grade_fail)
  next
    case (Inr c)
    show ?thesis
    proof (cases "Suc (current_review_index s) < length (review_cards s)")
      case True
      then show ?thesis using assms Inr
        by (simp only: ab) (simp add: rate_card_resume_def show_next_in_range review_abs_def
            review_ok_def spec_review.grade_next)
    next
      case False
      then show ?thesis using assms Inr lt
        by (simp only: ab) (simp add: rate_card_resume_def show_next_review_card_def review_abs_def
            review_ok_def spec_review.grade_last)
    qed
  qed
qed

lemma frame_refines:
  "review_frame s t \<Longrightarrow> review_ok s \<Longrightarrow> review_ok t \<and> review_abs t = review_abs s"
  using review_frame_abs by blast

lemma review_frame_refl: "review_frame s s"
  by (simp add: review_frame_def)

lemma handle_refines:
  assumes ok: "review_ok s" and en: "spec_enabled e s"
  shows "review_ok (handle now e s)
    \<and> (case review_label_of e s of
         None \<Rightarrow> review_abs (handle now e s) = review_abs s
       | Some l \<Rightarrow> spec_review now l (review_abs s) (review_abs (handle now e s)))"
proof (cases e)
  case (Click_start_review rs rl)
  then have "review_abs s = Idle" using en by (simp add: review_abs_def)
  then show ?thesis using Click_start_review en start_review_refines [of s rs now]
    by (simp add: finish_reload_abs)
next
  case Click_review_card
  then show ?thesis using en ok flip_card_refines [of s now] by simp
next
  case (Click_rate q r rl)
  then show ?thesis using en ok rate_card_refines [of s now r q rl] by simp
next
  case (Click_exit_review rl)
  then show ?thesis using en exit_review_refines [of s now] by (simp add: finish_reload_abs)
next
  case (Click_open_deck k r)
  then have "review_frame s (handle now e s)"
    by (simp add: select_deck_frame review_frame_refl split: option.splits)
  then show ?thesis using ok Click_open_deck by (simp add: frame_refines)
next
  case (Click_delete_deck k ok' r)
  then have "review_frame s (handle now e s)"
    by (simp add: delete_deck_frame review_frame_refl split: option.splits)
  then show ?thesis using ok Click_delete_deck by (simp add: frame_refines)
next
  case (Click_delete_card k ok' r)
  then have "review_frame s (handle now e s)"
    by (simp add: delete_card_frame review_frame_refl split: option.splits)
  then show ?thesis using ok Click_delete_card by (simp add: frame_refines)
qed (use ok in \<open>simp_all add: review_frame_abs [OF create_deck_frame] review_frame_abs [OF load_decks_frame]
       review_frame_abs [OF create_card_frame] review_frame_abs [OF input_frames(1)]
       review_frame_abs [OF input_frames(2)] review_frame_abs [OF input_frames(3)]
       review_frame_abs [OF input_frames(4)]\<close>)

lemma run_refines:
  "review_ok s \<Longrightarrow> enabled_run es s \<Longrightarrow>
     spec_trace (review_abs s) (run_labels es s) (review_abs (run es s)) \<and> review_ok (run es s)"
proof (induction es arbitrary: s)
  case Nil
  then show ?case by (simp add: spec_trace.nil)
next
  case (Cons x es)
  obtain now e where x: "x = (now, e)" by fastforce
  with Cons.prems have step: "review_ok (handle now e s)
    \<and> (case review_label_of e s of
         None \<Rightarrow> review_abs (handle now e s) = review_abs s
       | Some l \<Rightarrow> spec_review now l (review_abs s) (review_abs (handle now e s)))"
    and rest: "enabled_run es (handle now e s)"
    using handle_refines by simp_all
  then have ih: "spec_trace (review_abs (handle now e s)) (run_labels es (handle now e s))
      (review_abs (run es (handle now e s))) \<and> review_ok (run es (handle now e s))"
    using Cons.IH by blast
  show ?case
  proof (cases "review_label_of e s")
    case None
    then show ?thesis using x step ih by simp
  next
    case (Some l)
    then show ?thesis using x step ih by (auto intro: spec_trace.cons)
  qed
qed

subsection \<open>Claims\<close>

text \<open>
  C32. The review controller refines the spec's session machine: along every sequential
  run from the loaded page in which each review operation is one the spec allows (start
  from \<open>Idle\<close>, flip, grade and exit in a session), the page's review state, read as
  \<open>Idle\<close> or \<open>In_session\<close>, follows a run of the machine with the operations of the
  events as labels, and a shown review panel always shows a card of the queue.
\<close>

theorem review_controller_refines_spec:
  assumes "enabled_run es init_state"
  shows "spec_trace Idle (run_labels es init_state) (review_abs (run es init_state))
    \<and> review_ok (run es init_state)"
proof -
  have "review_ok init_state" "review_abs init_state = Idle"
    by (simp_all add: init_state_def review_ok_def review_abs_def)
  then show ?thesis using run_refines [of init_state es] assms by simp
qed

text \<open>
  C33. The spec starts a session only from \<open>Idle\<close>, but the page lets a session be
  started while one is shown: \<open>selectDeck\<close> shows the deck panel, with its start
  button, without ending the session. When none of the deck's cards is due,
  \<open>startReview\<close> empties the queue and returns, and the review panel stays open
  on an empty queue.
\<close>

theorem start_in_session_empties_queue:
  assumes "\<not> review_mode_hidden s" and "cards s \<noteq> []" and "filter (is_due now) (cards s) = []"
  shows "\<not> review_mode_hidden (handle now (Click_start_review rs rl) s)
    \<and> review_cards (handle now (Click_start_review rs rl) s) = []
    \<and> \<not> review_ok (handle now (Click_start_review rs rl) s)"
  using assms by (simp add: start_review_def finish_reload_def review_ok_def)

subsection \<open>Witnesses\<close>

theorem review_controller_refines_spec_witness:
  "enabled_run [(0, Click_start_review (sconst 0) (Ok []))] init_state
   \<and> spec_trace Idle (run_labels [(0, Click_start_review (sconst 0) (Ok []))] init_state)
       (review_abs (run [(0, Click_start_review (sconst 0) (Ok []))] init_state))"
proof -
  have "enabled_run [(0, Click_start_review (sconst 0) (Ok []))] init_state"
    by (simp add: init_state_def random_values_sconst)
  then show ?thesis using review_controller_refines_spec by blast
qed

theorem start_in_session_empties_queue_witness:
  "\<not> review_mode_hidden (run [(0, Page_loaded (Ok [\<lparr>deck_id = JStr ''d'', deck_name = ''Spanish'', deck_description = Some [], deck_created_at = []\<rparr>])), (0, Click_open_deck 0 (Ok [\<lparr>card_id = JStr ''1'', card_deck_id = JStr ''d'', card_question = ''hola'', card_answer = ''hello'', card_repetition_count = None, card_interval = None, card_next_review_date = No_date\<rparr>])),
      (0, Click_start_review (sconst 0) (Ok [])), (0, Click_open_deck 0 (Ok [\<lparr>card_id = JStr ''1'', card_deck_id = JStr ''d'', card_question = ''hola'', card_answer = ''hello'', card_repetition_count = Some 1, card_interval = Some 1, card_next_review_date = At_time 86400000\<rparr>]))] init_state) \<and> \<not> deck_selected_hidden (run [(0, Page_loaded (Ok [\<lparr>deck_id = JStr ''d'', deck_name = ''Spanish'', deck_description = Some [], deck_created_at = []\<rparr>])), (0, Click_open_deck 0 (Ok [\<lparr>card_id = JStr ''1'', card_deck_id = JStr ''d'', card_question = ''hola'', card_answer = ''hello'', card_repetition_count = None, card_interval = None, card_next_review_date = No_date\<rparr>])),
      (0, Click_start_review (sconst 0) (Ok [])), (0, Click_open_deck 0 (Ok [\<lparr>card_id = JStr ''1'', card_deck_id = JStr ''d'', card_question = ''hola'', card_answer = ''hello'', card_repetition_count = Some 1, card_interval = Some 1, card_next_review_date = At_time 86400000\<rparr>]))] init_state)
   \<and> cards (run [(0, Page_loaded (Ok [\<lparr>deck_id = JStr ''d'', deck_name = ''Spanish'', deck_description = Some [], deck_created_at = []\<rparr>])), (0, Click_open_deck 0 (Ok [\<lparr>card_id = JStr ''1'', card_deck_id = JStr ''d'', card_question = ''hola'', card_answer = ''hello'', card_repetition_count = None, card_interval = None, card_next_review_date = No_date\<rparr>])),
      (0, Click_start_review (sconst 0) (Ok [])), (0, Click_open_deck 0 (Ok [\<lparr>card_id = JStr ''1'', card_deck_id = JStr ''d'', card_question = ''hola'', card_answer = ''hello'', card_repetition_count = Some 1, card_interval = Some 1, card_next_review_date = At_time 86400000\<rparr>]))] init_state) \<noteq> [] \<and> filter (is_due 0) (cards (run [(0, Page_loaded (Ok [\<lparr>deck_id = JStr ''d'', deck_name = ''Spanish'', deck_description = Some [], deck_created_at = []\<rparr>])), (0, Click_open_deck 0 (Ok [\<lparr>card_id = JStr ''1'', card_deck_id = JStr ''d'', card_question = ''hola'', card_answer = ''hello'', card_repetition_count = None, card_interval = None, card_next_review_date = No_date\<rparr>])),
      (0, Click_start_review (sconst 0) (Ok [])), (0, Click_open_deck 0 (Ok [\<lparr>card_id = JStr ''1'', card_deck_id = JStr ''d'', card_question = ''hola'', card_answer = ''hello'', card_repetition_count = Some 1, card_interval = Some 1, card_next_review_date = At_time 86400000\<rparr>]))] init_state)) = []
   \<and> review_cards (handle 0 (Click_start_review (sconst 0) (Ok [])) (run [(0, Page_loaded (Ok [\<lparr>deck_id = JStr ''d'', deck_name = ''Spanish'', deck_description = Some [], deck_created_at = []\<rparr>])), (0, Click_open_deck 0 (Ok [\<lparr>card_id = JStr ''1'', card_deck_id = JStr ''d'', card_question = ''hola'', card_answer = ''hello'', card_repetition_count = None, card_interval = None, card_next_review_date = No_date\<rparr>])),
      (0, Click_start_review (sconst 0) (Ok [])), (0, Click_open_deck 0 (Ok [\<lparr>card_id = JStr ''1'', card_deck_id = JStr ''d'', card_question = ''hola'', card_answer = ''hello'', card_repetition_count = Some 1, card_interval = Some 1, card_next_review_date = At_time 86400000\<rparr>]))] init_state)) = []
   \<and> \<not> review_mode_hidden (handle 0 (Click_start_review (sconst 0) (Ok [])) (run [(0, Page_loaded (Ok [\<lparr>deck_id = JStr ''d'', deck_name = ''Spanish'', deck_description = Some [], deck_created_at = []\<rparr>])), (0, Click_open_deck 0 (Ok [\<lparr>card_id = JStr ''1'', card_deck_id = JStr ''d'', card_question = ''hola'', card_answer = ''hello'', card_repetition_count = None, card_interval = None, card_next_review_date = No_date\<rparr>])),
      (0, Click_start_review (sconst 0) (Ok [])), (0, Click_open_deck 0 (Ok [\<lparr>card_id = JStr ''1'', card_deck_id = JStr ''d'', card_question = ''hola'', card_answer = ''hello'', card_repetition_count = Some 1, card_interval = Some 1, card_next_review_date = At_time 86400000\<rparr>]))] init_state))"
proof -
  have "\<not> review_mode_hidden (run [(0, Page_loaded (Ok [\<lparr>deck_id = JStr ''d'', deck_name = ''Spanish'', deck_description = Some [], deck_created_at = []\<rparr>])), (0, Click_open_deck 0 (Ok [\<lparr>card_id = JStr ''1'', card_deck_id = JStr ''d'', card_question = ''hola'', card_answer = ''hello'', card_repetition_count = None, card_interval = None, card_next_review_date = No_date\<rparr>])),
      (0, Click_start_review (sconst 0) (Ok [])), (0, Click_open_deck 0 (Ok [\<lparr>card_id = JStr ''1'', card_deck_id = JStr ''d'', card_question = ''hola'', card_answer = ''hello'', card_repetition_count = Some 1, card_interval = Some 1, card_next_review_date = At_time 86400000\<rparr>]))] init_state) \<and> \<not> deck_selected_hidden (run [(0, Page_loaded (Ok [\<lparr>deck_id = JStr ''d'', deck_name = ''Spanish'', deck_description = Some [], deck_created_at = []\<rparr>])), (0, Click_open_deck 0 (Ok [\<lparr>card_id = JStr ''1'', card_deck_id = JStr ''d'', card_question = ''hola'', card_answer = ''hello'', card_repetition_count = None, card_interval = None, card_next_review_date = No_date\<rparr>])),
      (0, Click_start_review (sconst 0) (Ok [])), (0, Click_open_deck 0 (Ok [\<lparr>card_id = JStr ''1'', card_deck_id = JStr ''d'', card_question = ''hola'', card_answer = ''hello'', card_repetition_count = Some 1, card_interval = Some 1, card_next_review_date = At_time 86400000\<rparr>]))] init_state)
     \<and> cards (run [(0, Page_loaded (Ok [\<lparr>deck_id = JStr ''d'', deck_name = ''Spanish'', deck_description = Some [], deck_created_at = []\<rparr>])), (0, Click_open_deck 0 (Ok [\<lparr>card_id = JStr ''1'', card_deck_id = JStr ''d'', card_question = ''hola'', card_answer = ''hello'', card_repetition_count = None, card_interval = None, card_next_review_date = No_date\<rparr>])),
      (0, Click_start_review (sconst 0) (Ok [])), (0, Click_open_deck 0 (Ok [\<lparr>card_id = JStr ''1'', card_deck_id = JStr ''d'', card_question = ''hola'', card_answer = ''hello'', card_repetition_count = Some 1, card_interval = Some 1, card_next_review_date = At_time 86400000\<rparr>]))] init_state) \<noteq> [] \<and> filter (is_due 0) (cards (run [(0, Page_loaded (Ok [\<lparr>deck_id = JStr ''d'', deck_name = ''Spanish'', deck_description = Some [], deck_created_at = []\<rparr>])), (0, Click_open_deck 0 (Ok [\<lparr>card_id = JStr ''1'', card_deck_id = JStr ''d'', card_question = ''hola'', card_answer = ''hello'', card_repetition_count = None, card_interval = None, card_next_review_date = No_date\<rparr>])),
      (0, Click_start_review (sconst 0) (Ok [])), (0, Click_open_deck 0 (Ok [\<lparr>card_id = JStr ''1'', card_deck_id = JStr ''d'', card_question = ''hola'', card_answer = ''hello'', card_repetition_count = Some 1, card_interval = Some 1, card_next_review_date = At_time 86400000\<rparr>]))] init_state)) = []"
    by (simp add: init_state_def load_decks_def load_decks_start_def load_decks_resume_def
        update_decks_list_def render_decks_def render_deck_row_def onclick_arg_def select_deck_def
        select_deck_start_def load_cards_start_def load_cards_resume_def update_cards_list_def send_def
        start_review_def show_next_review_card_def finish_reload_def shuffle_array_def Let_def)
  then show ?thesis using start_in_session_empties_queue [of "run [(0, Page_loaded (Ok [\<lparr>deck_id = JStr ''d'', deck_name = ''Spanish'', deck_description = Some [], deck_created_at = []\<rparr>])), (0, Click_open_deck 0 (Ok [\<lparr>card_id = JStr ''1'', card_deck_id = JStr ''d'', card_question = ''hola'', card_answer = ''hello'', card_repetition_count = None, card_interval = None, card_next_review_date = No_date\<rparr>])),
      (0, Click_start_review (sconst 0) (Ok [])), (0, Click_open_deck 0 (Ok [\<lparr>card_id = JStr ''1'', card_deck_id = JStr ''d'', card_question = ''hola'', card_answer = ''hello'', card_repetition_count = Some 1, card_interval = Some 1, card_next_review_date = At_time 86400000\<rparr>]))] init_state" 0 "sconst 0" "Ok []"] by simp
qed

end
