(* ===== verification/Loop_Progress.thy ===== *)
theory Loop_Progress
  imports Event_Loop
begin

text \<open>
  Progress of the event loop of \<open>Event_Loop\<close>: the responses to the requests in flight
  cannot keep the page busy forever. Every continuation of the script runs without waiting, except
  that \<open>rateCard\<close>'s may end the session, and \<open>exitReview\<close> then starts one more
  request, \<open>loadCards\<close>, whose continuation starts none. A continuation therefore weighs
  2 if it is \<open>rateCard\<close>'s and 1 otherwise, and each answer lowers the weight in flight.
\<close>

section \<open>Answers without user actions\<close>

fun pending_weight :: "pending \<Rightarrow> nat" where
  "pending_weight (Await_rate_card cid) = 2"
| "pending_weight p = 1"

definition in_flight :: "pending list \<Rightarrow> nat" where
  "in_flight ps = sum_list (map pending_weight ps)"

text \<open>The loop while the user does nothing: only responses arrive.\<close>

inductive answer_step :: "app_state \<times> pending list \<Rightarrow> app_state \<times> pending list \<Rightarrow> bool" where
  answer: "i < length ps \<Longrightarrow> resume now (ps ! i) rp s = Some (s', new) \<Longrightarrow>
     answer_step (s, ps) (s', take i ps @ drop (Suc i) ps @ new)"

section \<open>Weights\<close>

lemma in_flight_simps [simp]:
  "in_flight [] = 0" "in_flight (p # ps) = pending_weight p + in_flight ps"
  "in_flight (ps @ qs) = in_flight ps + in_flight qs"
  by (simp_all add: in_flight_def)

lemma in_flight_nth:
  "i < length ps \<Longrightarrow> in_flight ps = in_flight (take i ps) + pending_weight (ps ! i) + in_flight (drop (Suc i) ps)"
  using id_take_nth_drop [of i ps] by (metis in_flight_simps(2,3) add.assoc)

lemma pending_weight_pos: "0 < pending_weight p"
  by (cases p) simp_all

lemma reloading_weight: "reloading r = (s', new) \<Longrightarrow> in_flight new \<le> 1"
  by (auto simp: reloading_def split: option.splits if_splits)

lemma resume_weight: "resume now p rp s = Some (s', new) \<Longrightarrow> in_flight new < pending_weight p"
  by (induction now p rp s rule: resume.induct) (auto dest: reloading_weight)

lemma answer_step_weight: "answer_step c c' \<Longrightarrow> in_flight (snd c') < in_flight (snd c)"
proof (induction rule: answer_step.induct)
  case (answer i ps now rp s s' new)
  then show ?case using resume_weight [OF answer(2)] in_flight_nth [OF answer(1)] by simp
qed

lemma answer_step_loop_step: "answer_step c c' \<Longrightarrow> loop_step c c'"
  by (induction rule: answer_step.induct) (rule loop_step.deliver)

subsection \<open>Claims\<close>

text \<open>
  C38. While the user does nothing, the responses of the requests in flight cannot go
  on forever: there is no infinite sequence of answered continuations. Each answer
  removes its continuation and adds at most the reload of \<open>exitReview\<close>, which is
  lighter.
\<close>

theorem answers_terminate: "wf {(c', c). answer_step c c'}"
proof (rule wf_subset [OF wf_measure [of "\<lambda>c. in_flight (snd c)"]])
  show "{(c', c). answer_step c c'} \<subseteq> measure (\<lambda>c. in_flight (snd c))"
    using answer_step_weight by auto
qed

end
