(* ===== verification/Notification_Timers.thy ===== *)
theory Notification_Timers
  imports App_State
begin

text \<open>
  The removal timers of \<open>showNotification\<close> (\<^verbatim>\<open>src/web/js/script.js\<close>, lines
  441--448): 3000 ms after a toast is appended its animation becomes \<open>slideOut\<close>, and
  300 ms later it is removed if it is still attached. Timers are taken to fire on time.
  A toast's stage is a function of the time elapsed since it was shown; the screen at
  a time shows the toasts of a log of shown toasts whose stage is not \<open>Toast_removed\<close>.
  The handlers' \<open>app_state\<close> keeps the toasts in the order shown without their times;
  the log here pairs each with the time it was shown.
\<close>

datatype toast_stage = Toast_shown | Toast_sliding_out | Toast_removed

definition toast_display_ms :: int where "toast_display_ms = 3000"

definition toast_exit_ms :: int where "toast_exit_ms = 300"

definition toast_stage_at :: "int \<Rightarrow> toast_stage" where
  "toast_stage_at elapsed =
     (if elapsed < toast_display_ms then Toast_shown
      else if elapsed < toast_display_ms + toast_exit_ms then Toast_sliding_out
      else Toast_removed)"

text \<open>\<open>if (notification.parentNode) parentNode.removeChild(notification)\<close>: nothing else
  detaches a toast, so the guard holds and the removal happens once.\<close>

definition toasts_on_screen :: "timestamp \<Rightarrow> (timestamp \<times> toast) list \<Rightarrow> toast list" where
  "toasts_on_screen now shown = map snd (filter (\<lambda>(t, n). t \<le> now \<and> toast_stage_at (now - t) \<noteq> Toast_removed) shown)"

section \<open>Properties\<close>

lemma toast_removed_iff: "toast_stage_at d = Toast_removed \<longleftrightarrow> 3300 \<le> d"
  by (simp add: toast_stage_at_def toast_display_ms_def toast_exit_ms_def)

lemma toast_removed_stays: "toast_stage_at d = Toast_removed \<Longrightarrow> d \<le> d' \<Longrightarrow> toast_stage_at d' = Toast_removed"
  by (simp add: toast_removed_iff)

lemma toast_stage_sequence:
  "toast_stage_at d = Toast_sliding_out \<longleftrightarrow> 3000 \<le> d \<and> d < 3300"
  by (simp add: toast_stage_at_def toast_display_ms_def toast_exit_ms_def)

lemma toasts_on_screen_recent:
  "n \<in> set (toasts_on_screen now shown) \<longleftrightarrow> (\<exists>t. (t, n) \<in> set shown \<and> t \<le> now \<and> now < t + 3300)"
  by (force simp: toasts_on_screen_def toast_removed_iff image_iff)

lemma toasts_on_screen_append:
  "toasts_on_screen now (shown @ [(now, n)]) = toasts_on_screen now shown @ [n]"
  by (simp add: toasts_on_screen_def toast_stage_at_def toast_display_ms_def toast_exit_ms_def)

end
