(* ===== verification/Spec2Isabelle.thy ===== *)
theory Spec2Isabelle
  imports View_Safety Review_Spec Loop_Progress Notification_Timers
begin

text \<open>
  \<^bold>\<open>FlashLearn: a verification library for the browser client.\<close>

  The program is one file, \<^verbatim>\<open>src/web/js/script.js\<close>: a flashcard client that
  keeps decks, cards and a review queue in module-level variables, renders two lists
  into the DOM, and talks to a REST backend with \<open>fetch\<close>. Its parts and how they
  interact: the page's event handlers (clicks, form input, \<open>DOMContentLoaded\<close>) change
  the variables and call the API client; on a response they re-render a list and post a
  notification; the review controller shuffles the due cards and steps through them,
  sending one grading request per card; the renderer escapes user text before putting
  it into markup.

  \<^bold>\<open>Theories and what they model.\<close>
  \<^item> \<open>Prelude\<close>: the model's type names (\<open>timestamp\<close>, \<open>random_source\<close>), the
    rule collections \<open>handler_defs\<close> and \<open>view_simps\<close>, list facts for swaps and
    prefixes.
  \<^item> \<open>Js_Data\<close>: the JSON values: ids (\<open>jid\<close>, a number or a string, compared with
    \<open>===\<close>), \<open>String(n)\<close> (\<open>int_to_js_string\<close>), the id a row's \<open>onclick\<close>
    passes (\<open>onclick_arg\<close>), truthiness, \<open>trim\<close> (\<open>js_trim\<close>), the \<open>deck\<close> and
    \<open>card\<close> records, the errors a \<open>catch\<close> can see (\<open>js_error\<close>).
  \<^item> \<open>Html_Escape\<close>: \<open>escapeHtml\<close> (lines 452--459) as five \<open>replace_all\<close> passes.
  \<^item> \<open>Fisher_Yates\<close>: \<open>shuffleArray\<close> (lines 462--469) as \<open>fy_loop\<close>, with
    \<open>Math.random()\<close> a stream of reals.
  \<^item> \<open>Api_Client\<close>: \<open>API_CONFIG\<close> and the \<open>api*\<close> functions (lines 2--8,
    339--408), the inline fetches of \<open>loadDecks\<close>/\<open>loadCards\<close>: the request each
    sends and how its response is read (\<open>api_result\<close>, \<open>load_result\<close>).
  \<^item> \<open>View_Render\<close>: \<open>updateDecksList\<close>, \<open>updateCardsList\<close>, \<open>getDeckCardCount\<close>,
    \<open>formatNextReviewDate\<close> as pure functions into row records.
  \<^item> \<open>App_State\<close>: the record \<open>app_state\<close> of the variables (lines 11--16), the DOM
    parts the script writes, the notifications (\<open>showNotification\<close>, lines 413--449)
    and the log of sent requests.
  \<^item> \<open>Card_Handlers\<close>, \<open>Deck_Handlers\<close>: \<open>loadCards\<close>, \<open>createCard\<close>,
    \<open>deleteCard\<close>, \<open>createDeck\<close>, \<open>loadDecks\<close>, \<open>selectDeck\<close>, \<open>deleteDeck\<close>,
    each split at its \<open>await\<close> into \<open>..._start\<close> and \<open>..._resume\<close>, and composed.
  \<^item> \<open>Review_Session\<close>: \<open>startReview\<close>, \<open>showNextReviewCard\<close>, \<open>flipCard\<close>,
    \<open>rateCard\<close>, \<open>exitReview\<close>, \<open>endReview\<close>; \<open>is_due\<close> is the due filter.
  \<^item> \<open>Page_Events\<close>: the event wiring (lines 19--47, 494--496) as a step function
    \<open>handle\<close> on page events and its run \<open>run\<close>, with the review invariant.
  \<^item> \<open>Event_Loop\<close>: the page as the browser runs it. A user action (\<open>action\<close>) runs
    its handler up to the first \<open>await\<close> (\<open>dispatch\<close>) and leaves a continuation
    (\<open>pending\<close>) holding what its closure captured (the deck of \<open>loadCards\<close>, the
    card \<open>rateCard\<close> read); a response (\<open>reply\<close>) runs one waiting continuation
    (\<open>resume\<close>, the code after the \<open>await\<close>). \<open>loop_step\<close> interleaves the
    two in any order; \<open>loop_reach\<close> is what the page can reach after loading.
  \<^item> \<open>View_Safety\<close>: the spec's escaping rule for the renderer as a predicate
    \<open>view_safe\<close> on page states (no raw markup character in a row's user text).
  \<^item> \<open>Loop_Progress\<close>: the loop while the user is idle (\<open>answer_step\<close>) and the
    weight of the continuations in flight (\<open>in_flight\<close>: 2 for \<open>rateCard\<close>'s, which may
    start a reload, 1 for the others).
  \<^item> \<open>Notification_Timers\<close>: the removal timers of \<open>showNotification\<close> (lines
    441--448) as the stage of a toast at a time elapsed since it was shown, and the toasts
    on screen at a time; a toast leaves the screen 3300 ms after it is shown and for good.
  \<^item> \<open>Review_Spec\<close>: the review session machine of the spec (section 4.3) as a labelled
    relation \<open>spec_review\<close> on \<open>Idle\<close>/\<open>In_session\<close>, the reading
    \<open>review_abs\<close> of a page state as a machine state, the spec's preconditions
    \<open>spec_enabled\<close> and the labels \<open>run_labels\<close> of a run.

  \<^bold>\<open>What the lemmas show.\<close>
  The review controller: the queue is a permutation of the due cards (C2); a deck without
  cards never starts a session (C3); a session shows its first card (C4); grading
  advances by one card, ends the session on the last card with a reload (C5, C6), and a
  rejected grade changes nothing but a notification (C7); the review invariant holds in
  every sequential run (C1). The shuffle reaches every permutation (C8) with indices in
  range (C9). Escaping is a single-pass entity map (C10), removes the markup
  metacharacters (C11) and is decoded back exactly (C12). The due filter agrees with the
  card list's date captions (C13).
  The deck and card handlers: deleting the selected deck clears the selection (C14); an
  unconfirmed deletion does nothing (C15); blank card fields are rejected before any
  request (C16); rejected creations leave no ghost entry (C17, C18); a numeric card id
  names its card in the delete request (C25); \<open>createDeck\<close> sends the name without the
  white space around it (C26).
  The event loop runs the sequential model as one of its schedules, so C1--C26 speak
  about real runs; but other schedules exist. A deck created before the page's first deck
  list arrives disappears when that list arrives (C27); two clicks on create make two
  decks (C35). Grading twice while a grade is in flight
  grades the first card twice and never the second (C28); three grades in flight index the
  queue past its end, so the invariant of C1 fails in a reachable state (C29); late card
  responses show one deck's cards under another deck's name (C30); a grade answered after
  the user started a new session skips that session's first card (C31); a card created
  in one deck joins another deck's list when that deck is opened before the answer (C36).
  Whatever the server returns and in whatever order, every reachable page renders user
  text only escaped (C37).
  Responses alone cannot keep the page busy forever (C38, termination).
  The spec's machine: the controller refines it along every run whose review operations
  the spec allows (C32); the page also allows a start inside a session, which leaves the
  review panel open on an empty queue (C33).

  \<^bold>\<open>Findings proved as theorems.\<close>
  \<open>apiDeleteDeck\<close> sends one fixed, uninterpolated URL for every deck (C19);
  \<open>createDeck\<close> reports a failure after adding the deck when rendering throws (C20);
  an empty description renders empty, without the placeholder (C21); with numeric ids
  from the server, the string ids of the rows make opening a deck and removing a deleted
  one impossible (C22, C23); adding a card leaves the deck list's count as it was (C24);
  the notice of a created deck never names it and carries an uninterpolated class (C34).

  \<^bold>\<open>Choices of the model.\<close>
  Responses are inputs: every theorem holds for every response of the server. Random
  values are reals in \<open>[0, 1)\<close> (a double is one such real). Timestamps are integer
  milliseconds. A character is a code point below 256 (the Latin-1 range of JavaScript's
  strings); \<open>trim\<close>'s white space in that range includes the no-break space. A numeric
  id is printed in plain digits, as JavaScript prints integers below \<open>10^21\<close>; the
  theorems about printed ids assume that bound. Names, questions and answers are strings:
  a \<open>null\<close> one, on which \<open>escapeHtml\<close> throws, is not modelled.
  The due filter reads one \<open>now\<close> for the whole queue, where the code calls
  \<open>new Date()\<close> once per card; the two differ only for a card falling due during the
  filter's own run.
  The sequential model (\<open>Page_Events\<close>) lets every response arrive before the next
  action; the loop (\<open>Event_Loop\<close>) lets responses arrive in any order and the user act
  at any time, the environment of the spec's section 5. Each step of the loop runs one
  synchronous block to its end, as the JavaScript runtime does. Nothing needs fuel: every
  loop of the code is structural recursion, and the event loop is a relation whose idle
  part is well-founded (C38).

  \<^bold>\<open>Not modelled.\<close>
  \<open>initializeTheme\<close> and \<open>handleKeyboardShortcuts\<close> (called but not defined in
  the file; theme and shortcuts are outside the spec); CSS and the animations, the
  page's markup and the locale formatting of \<open>createdAt\<close>. The timers of the toasts
  fire on time in the model (browsers may fire them later); the handlers record the
  toasts they show but not when, so the timer model stands beside them.

  \<^bold>\<open>Plan.\<close>
  Next: stamping the toasts the handlers show with the loop's time, so that the timers
  act on the page's own toasts; deletions racing with loads in the loop (a deck deleted
  while its cards load); the date captions of \<open>formatNextReviewDate\<close> as a function
  of the day difference.
\<close>

end
